theory Spec2Isabelle
  imports Complex_Main
begin

section \<open>Numbers and vectors\<close>

text \<open>
  JavaScript numbers are modelled as mathematical reals: every arithmetic operation of the
  source is read as the exact operation. A \<open>THREE.Vector3\<close> is a triple of numbers.
  The vector operations below are the ones of the rendering library that the sources call
  (\<open>add\<close>, \<open>multiplyScalar\<close>, \<open>distanceTo\<close>, \<open>normalize\<close>, \<open>cross\<close>).
\<close>

datatype vec3 = Vec3 (vx: real) (vy: real) (vz: real)

definition vadd :: "vec3 \<Rightarrow> vec3 \<Rightarrow> vec3" where
  "vadd a b = Vec3 (vx a + vx b) (vy a + vy b) (vz a + vz b)"

definition vsub :: "vec3 \<Rightarrow> vec3 \<Rightarrow> vec3" where
  "vsub a b = Vec3 (vx a - vx b) (vy a - vy b) (vz a - vz b)"

definition multiplyScalar :: "vec3 \<Rightarrow> real \<Rightarrow> vec3" where
  "multiplyScalar a s = Vec3 (vx a * s) (vy a * s) (vz a * s)"

definition vlength :: "vec3 \<Rightarrow> real" where
  "vlength a = sqrt (vx a * vx a + vy a * vy a + vz a * vz a)"

definition distanceTo :: "vec3 \<Rightarrow> vec3 \<Rightarrow> real" where
  "distanceTo a b = vlength (vsub a b)"

section \<open>Cross-section planes (utils/crossSection)\<close>

record plane =
  plane_normal :: vec3
  plane_constant :: real

text \<open>
  \<open>createSectionPlane(type, position)\<close>: the \<open>switch\<close> over the section type, with the
  \<open>default\<close> branch (which also prints a warning) falling back to the axial normal.
\<close>

definition createSectionPlane :: "string \<Rightarrow> real \<Rightarrow> plane" where
  "createSectionPlane type position =
     (let normalizedPosition = (position - 0.5) * 2 in
      if type = ''coronal'' then \<lparr>plane_normal = Vec3 1 0 0, plane_constant = normalizedPosition\<rparr>
      else if type = ''sagittal'' then \<lparr>plane_normal = Vec3 0 1 0, plane_constant = normalizedPosition\<rparr>
      else if type = ''axial'' then \<lparr>plane_normal = Vec3 0 0 1, plane_constant = normalizedPosition\<rparr>
      else \<lparr>plane_normal = Vec3 0 0 1, plane_constant = normalizedPosition\<rparr>)"

text \<open>The diagnostic of the \<open>default\<close> branch: whether \<open>console.warn\<close> is called.\<close>

definition createSectionPlane_warns :: "string \<Rightarrow> bool" where
  "createSectionPlane_warns type =
     (\<not> (type = ''coronal'' \<or> type = ''sagittal'' \<or> type = ''axial''))"

section \<open>Materials and the scene tree\<close>

text \<open>
  A \<open>THREE.Color\<close> is three channels; \<open>setHex\<close> reads them from a 24-bit number.
\<close>

datatype color = Color (cr: real) (cg: real) (cb: real)

definition setHex :: "nat \<Rightarrow> color" where
  "setHex h = Color (real (h div 65536 mod 256) / 255) (real (h div 256 mod 256) / 255)
                    (real (h mod 256) / 255)"

text \<open>
  The attributes of a material that the toggles read or write. A property that may be
  \<open>undefined\<close> (or \<open>null\<close>) on a material is an option, \<open>None\<close> standing for
  the missing property.
\<close>

record material =
  mtype :: string
  color :: color
  metalness :: "real option"
  roughness :: "real option"
  emissive :: "color option"
  emissiveIntensity :: "real option"
  wireframe :: bool
  visible :: bool
  transparent :: bool
  opacity :: real
  depthWrite :: bool
  needsUpdate :: bool

text \<open>
  Materials are shared objects: a mesh holds references, and the same material can be
  reached from several meshes. A reference is an address into a store of materials;
  a mesh's \<open>material\<close> is one reference or an array of references, each possibly null.
\<close>

type_synonym mat_ref = nat
type_synonym mat_store = "mat_ref \<Rightarrow> material"

datatype material_slot = Single "mat_ref option" | Multi "mat_ref option list"

datatype object3d = Object3D (isMesh: bool) (mesh_material: material_slot) (children: "object3d list")

text \<open>
  \<open>Array.isArray(child.material) ? child.material : [child.material]\<close>
\<close>

fun slot_materials :: "material_slot \<Rightarrow> mat_ref option list" where
  "slot_materials (Single m) = [m]"
| "slot_materials (Multi ms) = ms"

text \<open>
  \<open>model.traverse\<close> visits the object, then its children in order. The callbacks of the
  toggles act on the materials of every mesh; \<open>traverse_materials\<close> is the sequence of
  material references they meet, in visiting order, a shared material once per mesh
  that holds it.
\<close>

fun traverse_materials :: "object3d \<Rightarrow> mat_ref option list" where
  "traverse_materials (Object3D m slot cs) =
     (if m then slot_materials slot else []) @ concat (map traverse_materials cs)"

text \<open>The references to actual materials met by the traversal (null entries skipped).\<close>

definition model_materials :: "object3d \<Rightarrow> mat_ref set" where
  "model_materials model = {m. Some m \<in> set (traverse_materials model)}"

section \<open>Transparency toggle (utils/transparency.js)\<close>

definition transparency_material :: "bool \<Rightarrow> real \<Rightarrow> material \<Rightarrow> material" where
  "transparency_material tflag opac mat =
     (if tflag then
        mat\<lparr>transparent := True, opacity := opac, depthWrite := (opac < 1), needsUpdate := True\<rparr>
      else
        mat\<lparr>transparent := False, opacity := 1.0, depthWrite := True, needsUpdate := True\<rparr>)"

text \<open>\<open>materials.forEach\<close>, with \<open>if (!material) return\<close> for a null entry.\<close>

fun transparency_forEach :: "bool \<Rightarrow> real \<Rightarrow> mat_ref option list \<Rightarrow> mat_store \<Rightarrow> mat_store" where
  "transparency_forEach tflag opac [] st = st"
| "transparency_forEach tflag opac (None # ms) st = transparency_forEach tflag opac ms st"
| "transparency_forEach tflag opac (Some m # ms) st =
     transparency_forEach tflag opac ms (st(m := transparency_material tflag opac (st m)))"

text \<open>\<open>applyTransparency(model, transparent, opacity)\<close>; a missing model is a no-op.\<close>

definition applyTransparency :: "object3d option \<Rightarrow> bool \<Rightarrow> real \<Rightarrow> mat_store \<Rightarrow> mat_store" where
  "applyTransparency model tflag opac st =
     (case model of None \<Rightarrow> st
      | Some obj \<Rightarrow> transparency_forEach tflag opac (traverse_materials obj) st)"

definition removeTransparency :: "object3d option \<Rightarrow> mat_store \<Rightarrow> mat_store" where
  "removeTransparency model st = applyTransparency model False 0.5 st"

section \<open>Wireframe toggle (utils/wireframe)\<close>

text \<open>
  The saved properties object \<open>props\<close>: a field is present only when the enable branch
  stored it.
\<close>

record props =
  p_metalness :: "real option"
  p_roughness :: "real option"
  p_emissive :: "color option"
  p_emissiveIntensity :: "real option"

text \<open>
  The module state: the store of materials and the three side tables
  \<open>originalColors\<close>, \<open>originalMaterials\<close> and \<open>originalProperties\<close>, keyed by material
  identity.
\<close>

record wf_state =
  materials :: mat_store
  originalColors :: "mat_ref \<rightharpoonup> color"
  originalMaterials :: "mat_ref \<rightharpoonup> mat_ref"
  originalProperties :: "mat_ref \<rightharpoonup> props"

text \<open>The snapshot taken when a material has no entry in \<open>originalMaterials\<close>.\<close>

definition save_props :: "material \<Rightarrow> props" where
  "save_props mat =
     \<lparr>p_metalness = metalness mat,
      p_roughness = roughness mat,
      p_emissive = emissive mat,
      p_emissiveIntensity = (if emissive mat \<noteq> None then emissiveIntensity mat else None)\<rparr>"

text \<open>The wireframe override written to the material in the enable branch.\<close>

definition is_lit :: "material \<Rightarrow> bool" where
  "is_lit mat = (mtype mat = ''MeshStandardMaterial'' \<or> mtype mat = ''MeshPhysicalMaterial'')"

definition wireframe_override :: "material \<Rightarrow> material" where
  "wireframe_override mat =
     (let m1 = mat\<lparr>wireframe := True, color := setHex 13882323, visible := True,
                   transparent := False, opacity := 1.0\<rparr>;
          m2 = (if is_lit m1 then
                  (let m3 = (if metalness m1 \<noteq> None then m1\<lparr>metalness := Some 0\<rparr> else m1);
                       m4 = (if roughness m3 \<noteq> None then m3\<lparr>roughness := Some 1\<rparr> else m3)
                   in if emissive m4 \<noteq> None
                      then m4\<lparr>emissive := Some (setHex 13882323), emissiveIntensity := Some 0.3\<rparr>
                      else m4)
                else m1)
      in m2\<lparr>needsUpdate := True\<rparr>)"

text \<open>The restoring writes of the disable branch, from the looked-up table entries.\<close>

definition wireframe_restore :: "color option \<Rightarrow> props option \<Rightarrow> material \<Rightarrow> material" where
  "wireframe_restore oc op mat =
     (let m1 = mat\<lparr>wireframe := False\<rparr>;
          m2 = (case oc of None \<Rightarrow> m1 | Some c \<Rightarrow> m1\<lparr>color := c\<rparr>);
          m3 = (case op of None \<Rightarrow> m2
                | Some p \<Rightarrow>
                   (let m4 = (if p_metalness p \<noteq> None \<and> metalness m2 \<noteq> None
                              then m2\<lparr>metalness := p_metalness p\<rparr> else m2);
                        m5 = (if p_roughness p \<noteq> None \<and> roughness m4 \<noteq> None
                              then m4\<lparr>roughness := p_roughness p\<rparr> else m4)
                    in if p_emissive p \<noteq> None \<and> emissive m5 \<noteq> None
                       then m5\<lparr>emissive := p_emissive p,
                               emissiveIntensity := p_emissiveIntensity p\<rparr>
                       else m5))
      in m3\<lparr>needsUpdate := True\<rparr>)"

text \<open>The body of \<open>materials.forEach\<close> for one non-null material.\<close>

definition wireframe_material :: "bool \<Rightarrow> mat_ref \<Rightarrow> wf_state \<Rightarrow> wf_state" where
  "wireframe_material wflag m s =
     (if wflag then
        (let s1 = (if originalMaterials s m = None then
                     s\<lparr>originalMaterials := (originalMaterials s)(m \<mapsto> m),
                       originalColors := (originalColors s)(m \<mapsto> color (materials s m)),
                       originalProperties := (originalProperties s)(m \<mapsto> save_props (materials s m))\<rparr>
                   else s)
         in s1\<lparr>materials := (materials s1)(m := wireframe_override (materials s1 m))\<rparr>)
      else
        s\<lparr>materials := (materials s)(m := wireframe_restore (originalColors s m)
                                            (originalProperties s m) (materials s m)),
          originalColors := (originalColors s)(m := None),
          originalProperties := (originalProperties s)(m := None),
          originalMaterials := (originalMaterials s)(m := None)\<rparr>)"

fun wireframe_forEach :: "bool \<Rightarrow> mat_ref option list \<Rightarrow> wf_state \<Rightarrow> wf_state" where
  "wireframe_forEach wflag [] s = s"
| "wireframe_forEach wflag (None # ms) s = wireframe_forEach wflag ms s"
| "wireframe_forEach wflag (Some m # ms) s = wireframe_forEach wflag ms (wireframe_material wflag m s)"

text \<open>\<open>applyWireframe(model, wireframe)\<close>; a missing model is a no-op.\<close>

definition applyWireframe :: "object3d option \<Rightarrow> bool \<Rightarrow> wf_state \<Rightarrow> wf_state" where
  "applyWireframe model wflag s =
     (case model of None \<Rightarrow> s
      | Some obj \<Rightarrow> wireframe_forEach wflag (traverse_materials obj) s)"

definition removeWireframe :: "object3d option \<Rightarrow> wf_state \<Rightarrow> wf_state" where
  "removeWireframe model s = applyWireframe model False s"

section \<open>Example scene used to instantiate the toggle theorems\<close>

definition example_material :: material where
  "example_material =
     \<lparr>mtype = ''MeshStandardMaterial'', color = Color 1 0 0, metalness = Some 0.5,
      roughness = Some 0.25, emissive = Some (Color 0 0 1), emissiveIntensity = Some 2,
      wireframe = False, visible = True, transparent = True, opacity = 0.5,
      depthWrite = False, needsUpdate = False\<rparr>"

definition example_model :: object3d where
  "example_model =
     Object3D False (Single None)
       [Object3D True (Multi [Some 0, None, Some 1]) [],
        Object3D True (Single (Some 0)) []]"

definition example_state :: wf_state where
  "example_state =
     \<lparr>materials = (\<lambda>_. example_material), originalColors = Map.empty,
      originalMaterials = Map.empty, originalProperties = Map.empty\<rparr>"

definition example_store :: mat_store where
  "example_store = (\<lambda>_. example_material)"

section \<open>Connection probability (neuron utilities)\<close>

text \<open>
  \<open>calculateConnectionProbability(distance, maxDistance, baseProbability)\<close>: exponential
  decay in the distance, a boost for near pairs and a damping for far pairs.
\<close>

definition calculateConnectionProbability :: "real \<Rightarrow> real \<Rightarrow> real \<Rightarrow> real" where
  "calculateConnectionProbability distance maxDistance baseProbability =
     (let distanceFactor = exp (- distance / (maxDistance * 0.3));
          localFactor = (if distance < maxDistance * 0.2 then 1.5 else 1.0);
          globalFactor = (if distance > maxDistance * 0.5 then 0.3 else 1.0)
      in baseProbability * distanceFactor * localFactor * globalFactor)"

section \<open>The signal pulse (createSignalPulse)\<close>

text \<open>
  The pulse mesh: its position, scale and material opacity, whether it is a child of the
  parent it was added to, and whether its geometry and material have been disposed.
  \<open>frame_requested\<close> records that \<open>animate\<close> asked for another animation frame.
\<close>

record pulse =
  pulse_position :: vec3
  pulse_scale :: vec3
  pulse_opacity :: real
  in_parent :: bool
  geometry_disposed :: bool
  material_disposed :: bool
  frame_requested :: bool

text \<open>A curve is its \<open>getPoint\<close> method.\<close>

type_synonym curve = "real \<Rightarrow> vec3"

text \<open>
  One run of the inner function \<open>animate\<close>, \<open>elapsed\<close> being
  \<open>Date.now() - startTime\<close>. The test \<open>progress < 1\<close> on the quotient
  \<open>elapsed / duration\<close> is false when the duration is zero (the quotient is then
  infinite or not a number), which is written out.
\<close>

definition animate :: "curve \<Rightarrow> real \<Rightarrow> real \<Rightarrow> pulse \<Rightarrow> pulse" where
  "animate crv duration elapsed p =
     (let progress = elapsed / duration in
      if duration \<noteq> 0 \<and> progress < 1 then
        (let point = crv progress;
             intensity = sin (progress * pi * 2) * 0.2 + 0.8
         in p\<lparr>pulse_position := point,
               pulse_scale := Vec3 intensity intensity intensity,
               pulse_opacity := intensity,
               frame_requested := True\<rparr>)
      else
        p\<lparr>in_parent := False, geometry_disposed := True, material_disposed := True,
          frame_requested := False\<rparr>)"

text \<open>
  \<open>createSignalPulse(curve, parent, duration, color, size)\<close> returns \<open>null\<close> without a
  curve or a parent. Otherwise it builds the pulse, adds it to the parent, puts it at the
  start of the curve and runs \<open>animate\<close> once at once; \<open>elapsed0\<close> is the clock reading
  of that first run.
\<close>

definition createSignalPulse :: "curve option \<Rightarrow> bool \<Rightarrow> real \<Rightarrow> real \<Rightarrow> pulse option" where
  "createSignalPulse crv parent duration elapsed0 =
     (case crv of None \<Rightarrow> None
      | Some c \<Rightarrow>
         if \<not> parent then None
         else Some (animate c duration elapsed0
                \<lparr>pulse_position = c 0, pulse_scale = Vec3 1 1 1, pulse_opacity = 1.0,
                 in_parent = True, geometry_disposed = False, material_disposed = False,
                 frame_requested = False\<rparr>))"

definition example_curve :: curve where
  "example_curve = (\<lambda>t. Vec3 t (2 * t) 0)"

definition example_pulse :: pulse where
  "example_pulse =
     \<lparr>pulse_position = Vec3 0 0 0, pulse_scale = Vec3 1 1 1, pulse_opacity = 1.0,
      in_parent = True, geometry_disposed = False, material_disposed = False,
      frame_requested = False\<rparr>"

section \<open>Vector helpers of the neuron generator\<close>

text \<open>
  \<open>normalize\<close> divides by the length, or by 1 when the length is zero
  (\<open>divideScalar(this.length() || 1)\<close>); \<open>a.cross(b)\<close> is the vector product.
\<close>

definition divideScalar :: "vec3 \<Rightarrow> real \<Rightarrow> vec3" where
  "divideScalar a s = multiplyScalar a (1 / s)"

definition normalize :: "vec3 \<Rightarrow> vec3" where
  "normalize a = (let l = vlength a in divideScalar a (if l = 0 then 1 else l))"

definition cross :: "vec3 \<Rightarrow> vec3 \<Rightarrow> vec3" where
  "cross a b = Vec3 (vy a * vz b - vz a * vy b) (vz a * vx b - vx a * vz b)
                    (vx a * vy b - vy a * vx b)"

text \<open>
  The source of randomness. \<open>Math.random()\<close> is modelled by a stream of numbers
  \<open>rnd :: nat \<Rightarrow> real\<close> and a position in the stream: every call reads the number at
  the position and advances it. A function that draws takes the position and returns the
  new one with its result.

  \<open>Vector3.randomDirection\<close> of the rendering library draws an angle and a height and
  returns the point of the unit sphere they name.
\<close>

definition randomDirection :: "(nat \<Rightarrow> real) \<Rightarrow> nat \<Rightarrow> vec3 \<times> nat" where
  "randomDirection rnd k =
     (let theta = rnd k * pi * 2;
          u = rnd (k + 1) * 2 - 1;
          c = sqrt (1 - u * u)
      in (Vec3 (c * cos theta) u (c * sin theta), k + 2))"

section \<open>Boxes and the safe margin\<close>

record box3 =
  bmin :: vec3
  bmax :: vec3

definition isPointInSafeBox :: "vec3 \<Rightarrow> box3 \<Rightarrow> real \<Rightarrow> bool" where
  "isPointInSafeBox point box margin =
     (vx point \<ge> vx (bmin box) + margin \<and>
      vx point \<le> vx (bmax box) - margin \<and>
      vy point \<ge> vy (bmin box) + margin \<and>
      vy point \<le> vy (bmax box) - margin \<and>
      vz point \<ge> vz (bmin box) + margin \<and>
      vz point \<le> vz (bmax box) - margin)"

text \<open>
  \<open>getMaxSafeDistance\<close> starts from \<open>Infinity\<close> and takes minima along the axes on
  which the direction moves. The running value is an option, \<open>None\<close> standing for
  \<open>Infinity\<close>; it is still \<open>None\<close> at the end exactly when no component of the
  direction is positive or negative.
\<close>

definition min_inf :: "real option \<Rightarrow> real \<Rightarrow> real option" where
  "min_inf maxDist v = (case maxDist of None \<Rightarrow> Some v | Some m \<Rightarrow> Some (min m v))"

definition axis_limit :: "real option \<Rightarrow> real \<Rightarrow> real \<Rightarrow> real \<Rightarrow> real \<Rightarrow> real option" where
  "axis_limit maxDist p d lo hi =
     (if d > 0 then min_inf maxDist ((hi - p) / d)
      else if d < 0 then min_inf maxDist ((p - lo) / - d)
      else maxDist)"

definition getMaxSafeDistance :: "vec3 \<Rightarrow> vec3 \<Rightarrow> box3 \<Rightarrow> real \<Rightarrow> real option" where
  "getMaxSafeDistance position direction box margin =
     (let safeMin = Vec3 (vx (bmin box) + margin) (vy (bmin box) + margin) (vz (bmin box) + margin);
          safeMax = Vec3 (vx (bmax box) - margin) (vy (bmax box) - margin) (vz (bmax box) - margin);
          m1 = axis_limit None (vx position) (vx direction) (vx safeMin) (vx safeMax);
          m2 = axis_limit m1 (vy position) (vy direction) (vy safeMin) (vy safeMax);
          m3 = axis_limit m2 (vz position) (vz direction) (vz safeMin) (vz safeMax)
      in case m3 of None \<Rightarrow> None | Some maxDist \<Rightarrow> Some (if maxDist > 0 then maxDist else 0))"

text \<open>
  \<open>Math.min(length, maxLength * 0.8)\<close>, and the guard
  \<open>!boundaryBox || isPointInSafeBox(point, boundaryBox, margin)\<close>.
\<close>

definition limit_length :: "real \<Rightarrow> real option \<Rightarrow> real" where
  "limit_length len maxLength = (case maxLength of None \<Rightarrow> len | Some m \<Rightarrow> min len (m * 0.8))"

definition clip_length :: "real \<Rightarrow> vec3 \<Rightarrow> vec3 \<Rightarrow> box3 option \<Rightarrow> real \<Rightarrow> real" where
  "clip_length len position direction boundaryBox margin =
     (case boundaryBox of None \<Rightarrow> len
      | Some box \<Rightarrow> limit_length len (getMaxSafeDistance position direction box margin))"

definition in_bounds :: "box3 option \<Rightarrow> vec3 \<Rightarrow> real \<Rightarrow> bool" where
  "in_bounds boundaryBox point margin =
     (case boundaryBox of None \<Rightarrow> True | Some box \<Rightarrow> isPointInSafeBox point box margin)"

section \<open>Curves of a neuron\<close>

text \<open>
  A branch is drawn as a curve through three control points: the start, the midpoint
  pushed sideways by a random fraction of the length, and the end. The three source
  functions differ in the fraction only. The sampling of the curve into the points of a
  line, and the line's material, are rendering and are left out.
\<close>

record curve3 =
  c_from :: vec3
  c_mid :: vec3
  c_to :: vec3

definition bent_midpoint :: "vec3 \<Rightarrow> vec3 \<Rightarrow> real \<Rightarrow> real \<Rightarrow> vec3" where
  "bent_midpoint from to amount r =
     (let midPoint = multiplyScalar (vadd from to) 0.5;
          direction = normalize (vsub to from);
          perpendicular = (if \<bar>vx direction\<bar> < 0.9
                           then normalize (cross (Vec3 1 0 0) direction)
                           else normalize (cross (Vec3 0 1 0) direction));
          offset = multiplyScalar perpendicular (distanceTo from to * amount * (r - 0.5))
      in vadd midPoint offset)"

definition createDendriteBranch :: "vec3 \<Rightarrow> vec3 \<Rightarrow> real \<Rightarrow> curve3" where
  "createDendriteBranch from to r = \<lparr>c_from = from, c_mid = bent_midpoint from to 0.1 r, c_to = to\<rparr>"

definition createAxonBranch :: "vec3 \<Rightarrow> vec3 \<Rightarrow> real \<Rightarrow> curve3" where
  "createAxonBranch from to r = \<lparr>c_from = from, c_mid = bent_midpoint from to 0.2 r, c_to = to\<rparr>"

section \<open>One neuron (createNeuron)\<close>

record neuron_options =
  opt_dendriteCount :: "int option"
  opt_dendriteLength :: "real option"
  opt_axonLength :: "real option"
  opt_axonBranchProbability :: "real option"

text \<open>
  The \<open>userData\<close> of the neuron group, with the radius of the soma in place of the
  soma mesh. The axon end is an option: \<open>None\<close> stands for the vector whose coordinates
  are not numbers, which the fallback branch produces when it multiplies the zero
  direction by an infinite length; the axon curve is then \<open>None\<close> as well.
\<close>

record neuron =
  n_position :: vec3
  n_somaSize :: real
  n_dendrites :: "curve3 list"
  n_axon :: "curve3 option"
  n_axonBranches :: "curve3 list"
  n_axonEnd :: "vec3 option"
  n_connections :: "nat list"

text \<open>
  One pass of the dendrite loop, on the list of dendrites so far and the stream position.
  \<open>multiplyScalar\<close> changes the direction vector in place, so the branch point is
  computed from the already scaled direction (\<open>direction1\<close>, then \<open>direction2\<close>).
  The polar angle is the arc cosine of a number that lies in [-1, 1) for draws in [0, 1).
\<close>

definition dendrite_step ::
  "(nat \<Rightarrow> real) \<Rightarrow> vec3 \<Rightarrow> real \<Rightarrow> box3 option \<Rightarrow> real \<Rightarrow> curve3 list \<times> nat \<Rightarrow> curve3 list \<times> nat" where
  "dendrite_step rnd position dendriteLength boundaryBox margin acc =
     (let dendrites = fst acc; k = snd acc;
          theta = rnd k * pi * 2;
          phi = arccos (2 * rnd (k + 1) - 1);
          direction = normalize (Vec3 (sin phi * cos theta) (sin phi * sin theta) (cos phi));
          len = clip_length (dendriteLength * (0.7 + rnd (k + 2) * 0.6))
                  position direction boundaryBox margin;
          direction1 = multiplyScalar direction len;
          endPoint = vadd position direction1
      in if in_bounds boundaryBox endPoint margin then
           (let dendrites1 = dendrites @ [createDendriteBranch position endPoint (rnd (k + 3))]
            in if rnd (k + 4) < 0.3 then
                 (let direction2 = multiplyScalar direction1 (len * 0.6);
                      branchPoint = vadd position direction2
                  in if in_bounds boundaryBox branchPoint margin then
                       (let branchDirection = normalize (fst (randomDirection rnd (k + 5)));
                            branchLength = clip_length (len * 0.4) branchPoint branchDirection
                                             boundaryBox margin;
                            branchEnd = vadd branchPoint (multiplyScalar branchDirection branchLength)
                        in if in_bounds boundaryBox branchEnd margin
                           then (dendrites1 @ [createDendriteBranch branchPoint branchEnd (rnd (k + 7))],
                                 k + 8)
                           else (dendrites1, k + 7))
                     else (dendrites1, k + 5))
               else (dendrites1, k + 5))
         else (dendrites, k + 3))"

primrec dendrite_loop ::
  "(nat \<Rightarrow> real) \<Rightarrow> vec3 \<Rightarrow> real \<Rightarrow> box3 option \<Rightarrow> real \<Rightarrow> nat \<Rightarrow> curve3 list \<times> nat \<Rightarrow> curve3 list \<times> nat" where
  "dendrite_loop rnd position dendriteLength boundaryBox margin 0 acc = acc"
| "dendrite_loop rnd position dendriteLength boundaryBox margin (Suc n) acc =
     dendrite_loop rnd position dendriteLength boundaryBox margin n
       (dendrite_step rnd position dendriteLength boundaryBox margin acc)"

text \<open>One pass of the loop over the two axon branches.\<close>

definition axon_branch_step ::
  "(nat \<Rightarrow> real) \<Rightarrow> vec3 \<Rightarrow> real \<Rightarrow> box3 option \<Rightarrow> real \<Rightarrow> curve3 list \<times> nat \<Rightarrow> curve3 list \<times> nat" where
  "axon_branch_step rnd branchPoint actualAxonLength boundaryBox margin acc =
     (let branches = fst acc; k = snd acc;
          branchDir = normalize (fst (randomDirection rnd k));
          branchLength = clip_length (actualAxonLength * 0.3) branchPoint branchDir boundaryBox margin;
          branchEnd = vadd branchPoint (multiplyScalar branchDir branchLength)
      in if in_bounds boundaryBox branchEnd margin
         then (branches @ [createAxonBranch branchPoint branchEnd (rnd (k + 2))], k + 3)
         else (branches, k + 2))"

text \<open>
  The axon, as (curve, branches, end, stream position). The first branch of the
  \<open>if\<close> is the checked path; the \<open>else\<close> branch is the fallback, reached only
  with a boundary box (without one the guard holds, and the case \<open>None\<close> below never
  arises). There \<open>getMaxSafeDistance\<close> is called on the direction that
  \<open>multiplyScalar\<close> already scaled by the axon length (\<open>axonDirection1\<close>), and the end
  is not checked again.
\<close>

definition axon_part ::
  "(nat \<Rightarrow> real) \<Rightarrow> vec3 \<Rightarrow> real \<Rightarrow> real \<Rightarrow> box3 option \<Rightarrow> real \<Rightarrow> nat
     \<Rightarrow> curve3 option \<times> curve3 list \<times> vec3 option \<times> nat" where
  "axon_part rnd position axonLength axonBranchProbability boundaryBox margin k =
     (let axonDirection = normalize (fst (randomDirection rnd k));
          k1 = k + 2;
          actualAxonLength = clip_length axonLength position axonDirection boundaryBox margin;
          axonDirection1 = multiplyScalar axonDirection actualAxonLength;
          axonEnd = vadd position axonDirection1
      in if in_bounds boundaryBox axonEnd margin then
           (let axon = createAxonBranch position axonEnd (rnd k1)
            in if rnd (k1 + 1) < axonBranchProbability then
                 (let axonDirection2 = multiplyScalar axonDirection1 (actualAxonLength * 0.7);
                      branchPoint = vadd position axonDirection2
                  in if in_bounds boundaryBox branchPoint margin then
                       (let b1 = axon_branch_step rnd branchPoint actualAxonLength boundaryBox margin
                                   ([], k1 + 2);
                            b2 = axon_branch_step rnd branchPoint actualAxonLength boundaryBox margin b1
                        in (Some axon, fst b2, Some axonEnd, snd b2))
                     else (Some axon, [], Some axonEnd, k1 + 2))
               else (Some axon, [], Some axonEnd, k1 + 2))
         else
           (case boundaryBox of
              None \<Rightarrow> (None, [], None, k1)
            | Some box \<Rightarrow>
               (case getMaxSafeDistance position axonDirection1 box margin of
                  None \<Rightarrow> (None, [], None, k1 + 1)
                | Some maxLength \<Rightarrow>
                   (let adjustedLength = max 0.05 (maxLength * 0.7);
                        axonEnd' = vadd position (multiplyScalar axonDirection1 adjustedLength)
                    in (Some (createAxonBranch position axonEnd' (rnd k1)), [], Some axonEnd', k1 + 1)))))"

text \<open>
  \<open>createNeuron(position, somaSize, options, boundaryBox)\<close> at stream position \<open>k\<close>.
  A default of the options is drawn only when the option is missing, in the order of the
  destructuring.
\<close>

definition createNeuron ::
  "(nat \<Rightarrow> real) \<Rightarrow> vec3 \<Rightarrow> real \<Rightarrow> neuron_options \<Rightarrow> box3 option \<Rightarrow> nat \<Rightarrow> neuron \<times> nat" where
  "createNeuron rnd position somaSize options boundaryBox k =
     (let dc = (case opt_dendriteCount options of
                  None \<Rightarrow> (3 + \<lfloor>rnd k * 5\<rfloor>, k + 1) | Some c \<Rightarrow> (c, k));
          dl = (case opt_dendriteLength options of
                  None \<Rightarrow> (0.1 + rnd (snd dc) * 0.15, snd dc + 1) | Some l \<Rightarrow> (l, snd dc));
          al = (case opt_axonLength options of
                  None \<Rightarrow> (0.2 + rnd (snd dl) * 0.3, snd dl + 1) | Some l \<Rightarrow> (l, snd dl));
          axonBranchProbability = (case opt_axonBranchProbability options of
                                     None \<Rightarrow> 0.3 | Some p \<Rightarrow> p);
          margin = 0.05;
          ds = dendrite_loop rnd position (fst dl) boundaryBox margin (nat (fst dc)) ([], snd al);
          ax = axon_part rnd position (fst al) axonBranchProbability boundaryBox margin (snd ds)
      in (\<lparr>n_position = position, n_somaSize = somaSize, n_dendrites = fst ds,
            n_axon = fst ax, n_axonBranches = fst (snd ax), n_axonEnd = fst (snd (snd ax)),
            n_connections = []\<rparr>,
          snd (snd (snd ax))))"

definition no_options :: neuron_options where
  "no_options = \<lparr>opt_dendriteCount = None, opt_dendriteLength = None, opt_axonLength = None,
                  opt_axonBranchProbability = None\<rparr>"
section \<open>Example inputs of the neuron generator\<close>

text \<open>The box of side 2 around the origin, and the stream whose every draw is 0.\<close>

definition cube2 :: box3 where
  "cube2 = \<lparr>bmin = Vec3 (- 1) (- 1) (- 1), bmax = Vec3 1 1 1\<rparr>"

definition zero_draws :: "nat \<Rightarrow> real" where
  "zero_draws = (\<lambda>_. 0)"

section \<open>The network (createNeuronNetwork)\<close>

text \<open>
  The methods of \<open>Box3\<close> that the builder calls. An empty box (a maximum below the
  minimum on some axis) has the zero vector as centre and size.
\<close>

definition isEmpty :: "box3 \<Rightarrow> bool" where
  "isEmpty box = (vx (bmax box) < vx (bmin box) \<or> vy (bmax box) < vy (bmin box)
                  \<or> vz (bmax box) < vz (bmin box))"

definition getCenter :: "box3 \<Rightarrow> vec3" where
  "getCenter box = (if isEmpty box then Vec3 0 0 0
                    else multiplyScalar (vadd (bmin box) (bmax box)) 0.5)"

definition getSize :: "box3 \<Rightarrow> vec3" where
  "getSize box = (if isEmpty box then Vec3 0 0 0 else vsub (bmax box) (bmin box))"

definition containsPoint :: "box3 \<Rightarrow> vec3 \<Rightarrow> bool" where
  "containsPoint box point =
     (vx point \<ge> vx (bmin box) \<and> vx point \<le> vx (bmax box) \<and>
      vy point \<ge> vy (bmin box) \<and> vy point \<le> vy (bmax box) \<and>
      vz point \<ge> vz (bmin box) \<and> vz point \<le> vz (bmax box))"

definition addScalar :: "vec3 \<Rightarrow> real \<Rightarrow> vec3" where
  "addScalar a s = Vec3 (vx a + s) (vy a + s) (vz a + s)"

definition subScalar :: "vec3 \<Rightarrow> real \<Rightarrow> vec3" where
  "subScalar a s = Vec3 (vx a - s) (vy a - s) (vz a - s)"

definition setFromCenterAndSize :: "vec3 \<Rightarrow> vec3 \<Rightarrow> box3" where
  "setFromCenterAndSize center sz =
     (let halfSize = multiplyScalar sz 0.5
      in \<lparr>bmin = vsub center halfSize, bmax = vadd center halfSize\<rparr>)"

text \<open>
  The values computed once at the start of \<open>createNeuronNetwork\<close>. The bounding box of
  the brain model is the input (\<open>box.setFromObject(brainModel)\<close>); without a model the
  box of side 2 around the origin is taken.
\<close>

record net_geometry =
  g_box :: box3
  g_maxDistance :: real
  g_margin :: real
  g_safeBox :: box3
  g_safeCenter :: vec3
  g_safeSize :: vec3

definition network_box :: "box3 option \<Rightarrow> box3" where
  "network_box brainBox =
     (case brainBox of None \<Rightarrow> setFromCenterAndSize (Vec3 0 0 0) (Vec3 2 2 2) | Some b \<Rightarrow> b)"

definition network_geometry :: "box3 option \<Rightarrow> net_geometry" where
  "network_geometry brainBox =
     (let box = network_box brainBox;
          size = getSize box;
          maxDistance = min (vx size) (min (vy size) (vz size)) * 0.4;
          margin = min (vx size) (min (vy size) (vz size)) * 0.28;
          safeMin0 = addScalar (bmin box) margin;
          safeMax0 = subScalar (bmax box) margin;
          yOffset = vy size * 0.1;
          safeMin = Vec3 (vx safeMin0) (vy safeMin0 + yOffset) (vz safeMin0);
          safeMax = Vec3 (vx safeMax0) (vy safeMax0 + yOffset) (vz safeMax0);
          safeBox = \<lparr>bmin = safeMin, bmax = safeMax\<rparr>
      in \<lparr>g_box = box, g_maxDistance = maxDistance, g_margin = margin, g_safeBox = safeBox,
          g_safeCenter = getCenter safeBox, g_safeSize = getSize safeBox\<rparr>)"

text \<open>
  The variables of the placement loops: the accepted neurons, \<open>neuronIndex\<close>,
  \<open>attempts\<close> and the position in the stream of draws.
\<close>

record net_state =
  neurons :: "neuron list"
  neuronIndex :: nat
  attempts :: nat
  rng :: nat

text \<open>
  The acceptance test shared by both placement loops: the position must lie in the safe
  box and in the box; the neuron is built with the box as its boundary, and is kept only
  if its axon end passes the margin test of the builder. A comparison with a coordinate
  that is not a number is false, so an axon end \<open>None\<close> fails the test.
\<close>

definition axonEnd_safe :: "vec3 option \<Rightarrow> box3 \<Rightarrow> real \<Rightarrow> bool" where
  "axonEnd_safe e box margin = (case e of None \<Rightarrow> False | Some p \<Rightarrow> isPointInSafeBox p box margin)"

definition try_place :: "(nat \<Rightarrow> real) \<Rightarrow> net_geometry \<Rightarrow> vec3 \<Rightarrow> net_state \<Rightarrow> net_state" where
  "try_place rnd g position st =
     (if containsPoint (g_safeBox g) position \<and> containsPoint (g_box g) position then
        (let made = createNeuron rnd position 0.01 no_options (Some (g_box g)) (rng st);
             st1 = st\<lparr>rng := snd made\<rparr>
         in if axonEnd_safe (n_axonEnd (fst made)) (g_box g) (g_margin g)
            then st1\<lparr>neurons := neurons st1 @ [fst made], neuronIndex := neuronIndex st1 + 1\<rparr>
            else st1)
      else st)"

text \<open>The body of the loop over the members of one cluster.\<close>

definition cluster_member ::
  "(nat \<Rightarrow> real) \<Rightarrow> net_geometry \<Rightarrow> vec3 \<Rightarrow> real \<Rightarrow> net_state \<Rightarrow> net_state" where
  "cluster_member rnd g clusterCenter clusterSize st =
     (let k = rng st;
          offset = Vec3
            ((rnd k + rnd (k + 1) + rnd (k + 2) + rnd (k + 3) - 2) * clusterSize * 0.25)
            ((rnd (k + 4) + rnd (k + 5) + rnd (k + 6) + rnd (k + 7) - 2) * clusterSize * 0.25)
            ((rnd (k + 8) + rnd (k + 9) + rnd (k + 10) + rnd (k + 11) - 2) * clusterSize * 0.25);
          position = vadd clusterCenter offset
      in try_place rnd g position (st\<lparr>attempts := attempts st + 1, rng := k + 12\<rparr>))"

function cluster_members ::
  "(nat \<Rightarrow> real) \<Rightarrow> net_geometry \<Rightarrow> nat \<Rightarrow> vec3 \<Rightarrow> real \<Rightarrow> int \<Rightarrow> nat \<Rightarrow> net_state \<Rightarrow> net_state" where
  "cluster_members rnd g count clusterCenter clusterSize neuronsInCluster i st =
     (if int i < neuronsInCluster \<and> neuronIndex st < count \<and> attempts st < count * 10
      then cluster_members rnd g count clusterCenter clusterSize neuronsInCluster (i + 1)
             (cluster_member rnd g clusterCenter clusterSize st)
      else st)"
  by pat_completeness auto
termination
  by (relation "measure (\<lambda>(rnd, g, count, cc, cs, n, i, st). nat (n - int i))") auto

declare cluster_members.simps [simp del]

text \<open>
  The body of the loop over the clusters: a centre outside the safe box is skipped
  (\<open>continue\<close>), after its three draws.
\<close>

definition cluster_step :: "(nat \<Rightarrow> real) \<Rightarrow> net_geometry \<Rightarrow> nat \<Rightarrow> net_state \<Rightarrow> net_state" where
  "cluster_step rnd g count st =
     (let k = rng st;
          clusterCenter = Vec3
            (vx (g_safeCenter g) + (rnd k - 0.5) * vx (g_safeSize g) * 0.35)
            (vy (g_safeCenter g) + (rnd (k + 1) - 0.5) * vy (g_safeSize g) * 0.35)
            (vz (g_safeCenter g) + (rnd (k + 2) - 0.5) * vz (g_safeSize g) * 0.35)
      in if \<not> containsPoint (g_safeBox g) clusterCenter then st\<lparr>rng := k + 3\<rparr>
         else
           (let clusterSize = min (vx (g_safeSize g)) (min (vy (g_safeSize g)) (vz (g_safeSize g))) * 0.06;
                neuronsInCluster = min (5 + \<lfloor>rnd (k + 3) * 8\<rfloor>) (int count - int (neuronIndex st))
            in cluster_members rnd g count clusterCenter clusterSize neuronsInCluster 0
                 (st\<lparr>rng := k + 4\<rparr>)))"

function cluster_loop :: "(nat \<Rightarrow> real) \<Rightarrow> net_geometry \<Rightarrow> nat \<Rightarrow> nat \<Rightarrow> net_state \<Rightarrow> net_state" where
  "cluster_loop rnd g count c st =
     (if c < count div 10 \<and> neuronIndex st < count \<and> attempts st < count * 10
      then cluster_loop rnd g count (c + 1) (cluster_step rnd g count st)
      else st)"
  by pat_completeness auto
termination
  by (relation "measure (\<lambda>(rnd, g, count, c, st). count div 10 - c)") auto

declare cluster_loop.simps [simp del]

text \<open>The body of the \<open>while\<close> loop that fills up the remaining neurons.\<close>

definition fill_step :: "(nat \<Rightarrow> real) \<Rightarrow> net_geometry \<Rightarrow> net_state \<Rightarrow> net_state" where
  "fill_step rnd g st =
     (let k = rng st;
          position = Vec3
            (vx (g_safeCenter g) + (rnd k - 0.5) * vx (g_safeSize g) * 0.4)
            (vy (g_safeCenter g) + (rnd (k + 1) - 0.5) * vy (g_safeSize g) * 0.4)
            (vz (g_safeCenter g) + (rnd (k + 2) - 0.5) * vz (g_safeSize g) * 0.4)
      in try_place rnd g position (st\<lparr>attempts := attempts st + 1, rng := k + 3\<rparr>))"

function fill_loop :: "(nat \<Rightarrow> real) \<Rightarrow> net_geometry \<Rightarrow> nat \<Rightarrow> net_state \<Rightarrow> net_state" where
  "fill_loop rnd g count st =
     (if neuronIndex st < count \<and> attempts st < count * 10
      then fill_loop rnd g count (fill_step rnd g st)
      else st)"
  by pat_completeness auto
termination
proof (relation "measure (\<lambda>(rnd, g, count, st). count * 10 - attempts st)")
  show "wf (measure (\<lambda>(rnd, g, count, st). count * 10 - attempts st))" by simp
next
  fix rnd :: "nat \<Rightarrow> real" and g :: net_geometry and count :: nat and st :: net_state
  assume "neuronIndex st < count \<and> attempts st < count * 10"
  moreover have "attempts (fill_step rnd g st) = attempts st + 1"
    by (simp add: fill_step_def try_place_def Let_def)
  ultimately show "((rnd, g, count, fill_step rnd g st), rnd, g, count, st)
        \<in> measure (\<lambda>(rnd, g, count, st). count * 10 - attempts st)"
    by auto
qed

declare fill_loop.simps [simp del]

section \<open>The connection phase\<close>

record synapse =
  syn_from :: vec3
  syn_to :: vec3
  syn_curve :: curve3
  syn_active :: bool

definition createSynapse :: "vec3 \<Rightarrow> vec3 \<Rightarrow> real \<Rightarrow> synapse" where
  "createSynapse axonEnd dendritePoint r =
     \<lparr>syn_from = axonEnd, syn_to = dendritePoint,
      syn_curve = \<lparr>c_from = axonEnd, c_mid = bent_midpoint axonEnd dendritePoint 0.3 r,
                   c_to = dendritePoint\<rparr>,
      syn_active = False\<rparr>"

text \<open>
  The network group holds the synapses. With each synapse the model keeps the loop indices
  \<open>i\<close> and \<open>j\<close> of the pair it was made for and the stream position of the draw that
  admitted it; the source stores none of the three, they serve to state properties of
  the pair.
\<close>

record link =
  link_source :: nat
  link_target :: nat
  link_draw :: nat
  link_synapse :: synapse

record network =
  net_neurons :: "neuron list"
  net_links :: "link list"
  net_attempts :: nat
  net_rng :: nat

definition push_connection :: "nat \<Rightarrow> neuron \<Rightarrow> neuron" where
  "push_connection s n = n\<lparr>n_connections := n_connections n @ [s]\<rparr>"

text \<open>
  The body of the inner loop for the pair \<open>(i, j)\<close>. The draw is made before the
  distance is compared (\<open>Math.random() < prob && distance < maxDistance\<close>). A synapse is
  named in the connection lists by its index in the list of links.
\<close>

definition connect_pair :: "(nat \<Rightarrow> real) \<Rightarrow> real \<Rightarrow> real \<Rightarrow> nat \<Rightarrow> nat \<Rightarrow> network \<Rightarrow> network" where
  "connect_pair rnd maxDistance connectionProbability i j net =
     (if i = j then net
      else
        (let k = net_rng net in
         case n_axonEnd (net_neurons net ! i) of
           None \<Rightarrow> net\<lparr>net_rng := k + 1\<rparr>
         | Some axonEnd \<Rightarrow>
            (let targetPosition = n_position (net_neurons net ! j);
                 distance = distanceTo axonEnd targetPosition;
                 prob = calculateConnectionProbability distance maxDistance connectionProbability
             in if rnd k < prob \<and> distance < maxDistance then
                  (let directionToTarget = normalize (vsub targetPosition axonEnd);
                       dendriteConnectionPoint =
                         vadd targetPosition
                           (multiplyScalar directionToTarget (- 0.05 - rnd (k + 1) * 0.05));
                       syn = createSynapse axonEnd dendriteConnectionPoint (rnd (k + 2));
                       s = length (net_links net);
                       ns1 = (net_neurons net)[i := push_connection s (net_neurons net ! i)];
                       ns2 = ns1[j := push_connection s (ns1 ! j)]
                   in net\<lparr>net_neurons := ns2,
                          net_links := net_links net
                            @ [\<lparr>link_source = i, link_target = j, link_draw = k, link_synapse = syn\<rparr>],
                          net_rng := k + 3\<rparr>)
                else net\<lparr>net_rng := k + 1\<rparr>)))"

fun connect_targets :: "(nat \<Rightarrow> real) \<Rightarrow> real \<Rightarrow> real \<Rightarrow> nat \<Rightarrow> nat list \<Rightarrow> network \<Rightarrow> network" where
  "connect_targets rnd maxDistance p i [] net = net"
| "connect_targets rnd maxDistance p i (j # js) net =
     connect_targets rnd maxDistance p i js (connect_pair rnd maxDistance p i j net)"

fun connect_sources :: "(nat \<Rightarrow> real) \<Rightarrow> real \<Rightarrow> real \<Rightarrow> nat \<Rightarrow> nat list \<Rightarrow> network \<Rightarrow> network" where
  "connect_sources rnd maxDistance p n [] net = net"
| "connect_sources rnd maxDistance p n (i # is) net =
     connect_sources rnd maxDistance p n is (connect_targets rnd maxDistance p i [0..<n] net)"

text \<open>
  \<open>createNeuronNetwork(brainModel, count, connectionProbability)\<close>, started at stream
  position \<open>k\<close>: the cluster loop, the fill loop, then the connections over every ordered
  pair of accepted neurons. \<open>net_attempts\<close> is the final value of the local counter
  \<open>attempts\<close>.
\<close>

definition place_neurons :: "(nat \<Rightarrow> real) \<Rightarrow> net_geometry \<Rightarrow> nat \<Rightarrow> nat \<Rightarrow> net_state" where
  "place_neurons rnd g count k =
     fill_loop rnd g count
       (cluster_loop rnd g count 0 \<lparr>neurons = [], neuronIndex = 0, attempts = 0, rng = k\<rparr>)"

definition createNeuronNetwork :: "(nat \<Rightarrow> real) \<Rightarrow> box3 option \<Rightarrow> nat \<Rightarrow> real \<Rightarrow> nat \<Rightarrow> network" where
  "createNeuronNetwork rnd brainBox count connectionProbability k =
     (let g = network_geometry brainBox;
          placed = place_neurons rnd g count k;
          n = length (neurons placed)
      in connect_sources rnd (g_maxDistance g) connectionProbability n [0..<n]
           \<lparr>net_neurons = neurons placed, net_links = [], net_attempts = attempts placed,
            net_rng = rng placed\<rparr>)"

text \<open>A box of side 1/2 around the origin, too small for the axon of the example stream.\<close>

definition small_box :: box3 where
  "small_box = \<lparr>bmin = Vec3 (- 0.25) (- 0.25) (- 0.25), bmax = Vec3 0.25 0.25 0.25\<rparr>"

text \<open>
  What the connection loop establishes for a link, read against a list of neurons: the
  pair is an ordered pair of two different neurons of the list, the source has an axon
  end, the synapse starts there, the distance from it to the target's position is below
  \<open>maxDistance\<close>, and the link's draw is below the connection probability of that
  distance.
\<close>

definition pair_admitted :: "(nat \<Rightarrow> real) \<Rightarrow> real \<Rightarrow> real \<Rightarrow> neuron list \<Rightarrow> link \<Rightarrow> bool" where
  "pair_admitted rnd maxDistance p ns l =
     (link_source l < length ns \<and> link_target l < length ns \<and> link_source l \<noteq> link_target l \<and>
      (case n_axonEnd (ns ! link_source l) of
         None \<Rightarrow> False
       | Some a \<Rightarrow>
           syn_from (link_synapse l) = a \<and>
           distanceTo a (n_position (ns ! link_target l)) < maxDistance \<and>
           rnd (link_draw l)
             < calculateConnectionProbability (distanceTo a (n_position (ns ! link_target l)))
                 maxDistance p))"

text \<open>The invariant of the placement loops.\<close>

definition placement_inv :: "nat \<Rightarrow> net_state \<Rightarrow> bool" where
  "placement_inv count st =
     (attempts st \<le> count * 10 \<and> neuronIndex st \<le> count \<and> neuronIndex st = length (neurons st))"

section \<open>Signal propagation (animateNeuralSignalPropagation)\<close>

text \<open>
  The emissive colour and intensity of a soma's material, the two attributes the flashes
  write. Soma materials live in a store, since the flash callbacks reach them through
  the neuron objects.
\<close>

record soma_material =
  soma_emissive :: color
  soma_emissiveIntensity :: real

type_synonym soma_ref = nat

text \<open>
  What the animation reads of its arguments. A neuron argument may be \<open>null\<close>, may lack
  \<open>userData\<close>, and its \<open>userData\<close> may lack a soma. A synapse argument may be
  \<open>null\<close>, may lack a geometry, and the geometry may lack the position attribute.
\<close>

record neuron_arg =
  userData_soma :: "soma_ref option option"

record synapse_arg =
  geometry_positions :: "vec3 list option option"

record trigger =
  sourceNeuron :: "neuron_arg option"
  targetNeuron :: "neuron_arg option"
  synapse_of :: "synapse_arg option"
  scene_arg :: "nat option"
  window_scene :: "nat option"

text \<open>
  The callbacks that the animation hands to \<open>requestAnimationFrame\<close> and
  \<open>setTimeout\<close>, with the variables their closures captured: the frame callbacks of
  the two flashes (soma, start time, original emissive colour and intensity), the
  75 ms timeout that starts the synapse transit, the frame callback of the pulse (its
  index, curve and start time), and the 300 ms timeout that starts the target flash.
\<close>

datatype callback =
    SourceFlashFrame soma_ref int color real
  | TransitTimeout
  | PulseFrame nat curve int
  | TargetTimeout
  | TargetFlashFrame soma_ref int color real

record task =
  task_due :: int
  task_run :: callback

text \<open>
  The state the animation acts on: the soma materials, the pulses created so far, the
  \<open>signals\<close> array and the \<open>completed\<close> flag of the returned handle, the callbacks
  waiting in the event loop, and whether a callback threw.
\<close>

record machine =
  somas :: "soma_ref \<Rightarrow> soma_material"
  pulses :: "pulse list"
  signals :: "nat list"
  completed :: bool
  pending :: "task list"
  thrown :: bool

definition request_frame :: "int \<Rightarrow> callback \<Rightarrow> machine \<Rightarrow> machine" where
  "request_frame now job m = m\<lparr>pending := pending m @ [\<lparr>task_due = now, task_run = job\<rparr>]\<rparr>"

definition set_timeout :: "int \<Rightarrow> int \<Rightarrow> callback \<Rightarrow> machine \<Rightarrow> machine" where
  "set_timeout now delay job m = m\<lparr>pending := pending m @ [\<lparr>task_due = now + delay, task_run = job\<rparr>]\<rparr>"

text \<open>
  The body shared by \<open>sourceFlash\<close> and \<open>flash\<close>: while the progress is below 1 the
  soma takes the flash colour and a sine bump on its intensity and another frame is
  requested; afterwards the saved values are written back, and the target's flash marks
  the animation complete.
\<close>

definition flash_body ::
  "int \<Rightarrow> soma_ref \<Rightarrow> int \<Rightarrow> color \<Rightarrow> real \<Rightarrow> real \<Rightarrow> nat \<Rightarrow> real \<Rightarrow> callback \<Rightarrow> bool
     \<Rightarrow> machine \<Rightarrow> machine" where
  "flash_body now soma start originalEmissive originalIntensity flashDuration hex gain again marks m =
     (let elapsed = now - start;
          progress = real_of_int elapsed / flashDuration
      in if progress < 1 then
           (let intensity = sin (progress * pi)
            in request_frame now again
                 (m\<lparr>somas := (somas m)(soma := (somas m soma)
                        \<lparr>soma_emissive := setHex hex,
                         soma_emissiveIntensity := originalIntensity + intensity * gain\<rparr>)\<rparr>))
         else
           (let m1 = m\<lparr>somas := (somas m)(soma := (somas m soma)
                          \<lparr>soma_emissive := originalEmissive,
                           soma_emissiveIntensity := originalIntensity\<rparr>)\<rparr>
            in if marks then m1\<lparr>completed := True\<rparr> else m1))"

definition sourceFlash :: "int \<Rightarrow> soma_ref \<Rightarrow> int \<Rightarrow> color \<Rightarrow> real \<Rightarrow> machine \<Rightarrow> machine" where
  "sourceFlash now soma flashStart originalEmissive originalIntensity m =
     flash_body now soma flashStart originalEmissive originalIntensity 75 35071 0.8
       (SourceFlashFrame soma flashStart originalEmissive originalIntensity) False m"

definition targetFlash :: "int \<Rightarrow> soma_ref \<Rightarrow> int \<Rightarrow> color \<Rightarrow> real \<Rightarrow> machine \<Rightarrow> machine" where
  "targetFlash now soma flashTime originalEmissive originalIntensity m =
     flash_body now soma flashTime originalEmissive originalIntensity 100 16776960 0.5
       (TargetFlashFrame soma flashTime originalEmissive originalIntensity) True m"

text \<open>
  The callback of the first timeout. \<open>mkCurve\<close> stands for the curve that the rendering
  library builds through the synapse's points. With a synapse that has a geometry and
  with a target, and points to go through, a pulse is created (which runs its
  \<open>animate\<close> once at once, in the same millisecond), added to the scene and to
  \<open>signals\<close>, and the second timeout is set; with a synapse and target but no points
  nothing happens; in every other case the animation is marked complete.
\<close>

definition transit_timeout :: "(vec3 list \<Rightarrow> curve) \<Rightarrow> trigger \<Rightarrow> int \<Rightarrow> machine \<Rightarrow> machine" where
  "transit_timeout mkCurve trg now m =
     (case synapse_of trg of
        None \<Rightarrow> m\<lparr>completed := True\<rparr>
      | Some syn \<Rightarrow>
         (case geometry_positions syn of
            None \<Rightarrow> m\<lparr>completed := True\<rparr>
          | Some positions \<Rightarrow>
             if targetNeuron trg = None then m\<lparr>completed := True\<rparr>
             else
               (case positions of
                  None \<Rightarrow> m
                | Some points \<Rightarrow>
                   if length points > 0 then
                     (case createSignalPulse (Some (mkCurve points)) True 300 0 of
                        None \<Rightarrow> m
                      | Some p \<Rightarrow>
                         (let i = length (pulses m);
                              m1 = m\<lparr>pulses := pulses m @ [p\<lparr>in_parent := True\<rparr>],
                                     signals := signals m @ [i]\<rparr>;
                              m2 = (if frame_requested p
                                    then request_frame now (PulseFrame i (mkCurve points) now) m1
                                    else m1)
                          in set_timeout now 300 TargetTimeout m2))
                   else m)))"

text \<open>The frame callback of a pulse: \<open>animate\<close> on the pulse, and another frame if asked.\<close>

definition pulse_frame :: "int \<Rightarrow> nat \<Rightarrow> curve \<Rightarrow> int \<Rightarrow> machine \<Rightarrow> machine" where
  "pulse_frame now i crv startTime m =
     (if i < length (pulses m) then
        (let p = animate crv 300 (real_of_int (now - startTime)) (pulses m ! i);
             m1 = m\<lparr>pulses := (pulses m)[i := p]\<rparr>
         in if frame_requested p then request_frame now (PulseFrame i crv startTime) m1 else m1)
      else m)"

text \<open>
  The callback of the second timeout. Reading \<open>targetNeuron.userData.soma\<close> of a target
  without \<open>userData\<close> throws.
\<close>

definition target_timeout :: "trigger \<Rightarrow> int \<Rightarrow> machine \<Rightarrow> machine" where
  "target_timeout trg now m =
     (case targetNeuron trg of
        None \<Rightarrow> m\<lparr>completed := True\<rparr>
      | Some t \<Rightarrow>
         (case userData_soma t of
            None \<Rightarrow> m\<lparr>thrown := True\<rparr>
          | Some None \<Rightarrow> m\<lparr>completed := True\<rparr>
          | Some (Some soma) \<Rightarrow>
             targetFlash now soma now (soma_emissive (somas m soma))
               (soma_emissiveIntensity (somas m soma)) m))"

fun run_callback :: "(vec3 list \<Rightarrow> curve) \<Rightarrow> trigger \<Rightarrow> int \<Rightarrow> callback \<Rightarrow> machine \<Rightarrow> machine" where
  "run_callback mkCurve trg now (SourceFlashFrame soma start c i) m = sourceFlash now soma start c i m"
| "run_callback mkCurve trg now TransitTimeout m = transit_timeout mkCurve trg now m"
| "run_callback mkCurve trg now (PulseFrame i crv start) m = pulse_frame now i crv start m"
| "run_callback mkCurve trg now TargetTimeout m = target_timeout trg now m"
| "run_callback mkCurve trg now (TargetFlashFrame soma start c i) m = targetFlash now soma start c i m"

text \<open>
  \<open>animateNeuralSignalPropagation(sourceNeuron, targetNeuron, synapse, scene)\<close> called at
  clock reading \<open>now\<close> on the soma materials \<open>store\<close>. It returns \<open>null\<close> without a
  source neuron that has \<open>userData\<close>, and without a scene (the argument, else
  \<open>window.scene\<close>). Otherwise the source flash runs once at once, if the source has a
  soma, and the first timeout is set.
\<close>

definition animateNeuralSignalPropagation ::
  "trigger \<Rightarrow> int \<Rightarrow> (soma_ref \<Rightarrow> soma_material) \<Rightarrow> machine option" where
  "animateNeuralSignalPropagation trg now store =
     (case sourceNeuron trg of
        None \<Rightarrow> None
      | Some src \<Rightarrow>
         (case userData_soma src of
            None \<Rightarrow> None
          | Some somaOpt \<Rightarrow>
             if (case scene_arg trg of None \<Rightarrow> window_scene trg | Some s \<Rightarrow> Some s) = None
             then None
             else
               (let m0 = \<lparr>somas = store, pulses = [], signals = [], completed = False,
                          pending = [], thrown = False\<rparr>;
                    m1 = (case somaOpt of
                            None \<Rightarrow> m0
                          | Some soma \<Rightarrow>
                             sourceFlash now soma now (soma_emissive (store soma))
                               (soma_emissiveIntensity (store soma)) m0)
                in Some (set_timeout now 75 TransitTimeout m1))))"

text \<open>
  The event loop. A turn at clock reading \<open>now\<close> takes the waiting callbacks that are
  due out of the queue and runs them in the order in which they were registered;
  callbacks registered during the turn wait for a later turn. \<open>run_turns\<close> makes one
  turn per clock reading of a list.
\<close>

fun run_due :: "(vec3 list \<Rightarrow> curve) \<Rightarrow> trigger \<Rightarrow> int \<Rightarrow> task list \<Rightarrow> machine \<Rightarrow> machine" where
  "run_due mkCurve trg now [] m = m"
| "run_due mkCurve trg now (t # ts) m =
     run_due mkCurve trg now ts (run_callback mkCurve trg now (task_run t) m)"

definition turn :: "(vec3 list \<Rightarrow> curve) \<Rightarrow> trigger \<Rightarrow> int \<Rightarrow> machine \<Rightarrow> machine" where
  "turn mkCurve trg now m =
     run_due mkCurve trg now (filter (\<lambda>t. task_due t \<le> now) (pending m))
       (m\<lparr>pending := filter (\<lambda>t. \<not> task_due t \<le> now) (pending m)\<rparr>)"

fun run_turns :: "(vec3 list \<Rightarrow> curve) \<Rightarrow> trigger \<Rightarrow> int list \<Rightarrow> machine \<Rightarrow> machine" where
  "run_turns mkCurve trg [] m = m"
| "run_turns mkCurve trg (now # nows) m = run_turns mkCurve trg nows (turn mkCurve trg now m)"

text \<open>
  The callbacks of the first stage: the frames of the source flash and the first timeout.
\<close>

fun first_stage :: "callback \<Rightarrow> bool" where
  "first_stage (SourceFlashFrame soma start c i) = True"
| "first_stage TransitTimeout = True"
| "first_stage (PulseFrame i crv start) = False"
| "first_stage TargetTimeout = False"
| "first_stage (TargetFlashFrame soma start c i) = False"

text \<open>An example: a source neuron with soma 0, no target, no synapse, and a scene.\<close>

definition lone_trigger :: trigger where
  "lone_trigger =
     \<lparr>sourceNeuron = Some \<lparr>userData_soma = Some (Some 0)\<rparr>, targetNeuron = None,
      synapse_of = None, scene_arg = Some 0, window_scene = None\<rparr>"

definition example_somas :: "soma_ref \<Rightarrow> soma_material" where
  "example_somas = (\<lambda>_. \<lparr>soma_emissive = setHex 16739179, soma_emissiveIntensity = 0.5\<rparr>)"

definition straight_curve :: "vec3 list \<Rightarrow> curve" where
  "straight_curve points = (\<lambda>t. Vec3 t 0 0)"

text \<open>
  A machine in which the later stages have left no trace: no pulse was created, the
  \<open>signals\<close> array is empty, nothing was thrown, and only callbacks of the first stage
  are waiting.
\<close>

definition quiet :: "machine \<Rightarrow> bool" where
  "quiet m = (pulses m = [] \<and> signals m = [] \<and> \<not> thrown m
              \<and> list_all (\<lambda>t. first_stage (task_run t)) (pending m))"

text \<open>The first timeout is waiting and due at \<open>d\<close>, and no other copy of it is waiting.\<close>

definition armed :: "int \<Rightarrow> machine \<Rightarrow> bool" where
  "armed d m = (list_ex (\<lambda>t. task_run t = TransitTimeout) (pending m)
                \<and> list_all (\<lambda>t. task_run t \<noteq> TransitTimeout \<or> task_due t = d) (pending m))"

section \<open>The pulse during the synapse transit\<close>

text \<open>
  The callbacks that neither create nor animate a pulse: the frames of the two flashes
  and the second timeout.
\<close>

fun bystander :: "callback \<Rightarrow> bool" where
  "bystander (SourceFlashFrame soma start c i) = True"
| "bystander TransitTimeout = False"
| "bystander (PulseFrame i crv start) = False"
| "bystander TargetTimeout = True"
| "bystander (TargetFlashFrame soma start c i) = True"

text \<open>
  The pulse as \<open>animate\<close> leaves it at a progress below 1: on the curve, scaled and
  faded by the sine envelope, in its parent, not disposed, with the next frame requested.
\<close>

definition pulse_in_transit :: "curve \<Rightarrow> real \<Rightarrow> pulse" where
  "pulse_in_transit crv progress =
     \<lparr>pulse_position = crv progress,
      pulse_scale = Vec3 (sin (progress * pi * 2) * 0.2 + 0.8) (sin (progress * pi * 2) * 0.2 + 0.8)
                         (sin (progress * pi * 2) * 0.2 + 0.8),
      pulse_opacity = sin (progress * pi * 2) * 0.2 + 0.8,
      in_parent = True, geometry_disposed = False, material_disposed = False,
      frame_requested = True\<rparr>"

text \<open>
  Three phases of the machine, as seen from the pulse. Before the transit no pulse exists
  and the first timeout waits, due at \<open>d\<close>, among bystanders. In transit, with the
  pulse created at \<open>T\<close> and last animated at \<open>T + e\<close>, the one pulse is in transit at
  progress \<open>e / 300\<close> and its frame callback waits among bystanders, due by \<open>T + e\<close>.
  After the transit the one pulse is out of its parent and disposed, and only bystanders
  wait.
\<close>

definition before_transit :: "int \<Rightarrow> machine \<Rightarrow> bool" where
  "before_transit d m =
     (pulses m = []
      \<and> (\<exists>A B. pending m = A @ [\<lparr>task_due = d, task_run = TransitTimeout\<rparr>] @ B
            \<and> list_all (\<lambda>t. bystander (task_run t)) A
            \<and> list_all (\<lambda>t. bystander (task_run t)) B))"

definition in_transit :: "curve \<Rightarrow> int \<Rightarrow> int \<Rightarrow> machine \<Rightarrow> bool" where
  "in_transit crv T e m =
     (0 \<le> e \<and> e < 300
      \<and> pulses m = [pulse_in_transit crv (real_of_int e / 300)]
      \<and> (\<exists>A B due. pending m = A @ [\<lparr>task_due = due, task_run = PulseFrame 0 crv T\<rparr>] @ B
            \<and> due \<le> T + e
            \<and> list_all (\<lambda>t. bystander (task_run t)) A
            \<and> list_all (\<lambda>t. bystander (task_run t)) B))"

definition after_transit :: "machine \<Rightarrow> bool" where
  "after_transit m =
     ((\<exists>p. pulses m = [p] \<and> \<not> in_parent p \<and> geometry_disposed p \<and> material_disposed p
           \<and> \<not> frame_requested p)
      \<and> list_all (\<lambda>t. bystander (task_run t)) (pending m))"

text \<open>
  An example: a source neuron with soma 0, a target neuron with soma 1, a synapse through
  two points, and a scene.
\<close>

definition paired_trigger :: trigger where
  "paired_trigger =
     \<lparr>sourceNeuron = Some \<lparr>userData_soma = Some (Some 0)\<rparr>,
      targetNeuron = Some \<lparr>userData_soma = Some (Some 1)\<rparr>,
      synapse_of = Some \<lparr>geometry_positions = Some (Some [Vec3 0 0 0, Vec3 1 0 0])\<rparr>,
      scene_arg = Some 0, window_scene = None\<rparr>"

section \<open>Properties of the cross-section plane\<close>

text \<open>
  Claim C1. For every position in [0,1] the plane returned by \<open>createSectionPlane\<close> has the
  constant (position - 0.5) * 2, whatever the section type; so position 0 gives -1, 0.5
  gives 0 and 1 gives 1, and the constant grows strictly with the position. The normal is
  the unit axis vector of the requested orientation: (1,0,0) for coronal, (0,1,0) for
  sagittal, (0,0,1) for axial. In particular the axial plane at 0.75 has normal (0,0,1)
  and constant 0.5.
\<close>

theorem createSectionPlane_spec:
  assumes "0 \<le> p" and "p \<le> 1"
  shows "plane_constant (createSectionPlane t p) = (p - 0.5) * 2
       \<and> plane_normal (createSectionPlane ''coronal'' p) = Vec3 1 0 0
       \<and> plane_normal (createSectionPlane ''sagittal'' p) = Vec3 0 1 0
       \<and> plane_normal (createSectionPlane ''axial'' p) = Vec3 0 0 1
       \<and> plane_constant (createSectionPlane t 0) = -1
       \<and> plane_constant (createSectionPlane t 0.5) = 0
       \<and> plane_constant (createSectionPlane t 1) = 1
       \<and> (\<forall>q. p < q \<longrightarrow> plane_constant (createSectionPlane t p) < plane_constant (createSectionPlane t q))
       \<and> - 1 \<le> plane_constant (createSectionPlane t p) \<and> plane_constant (createSectionPlane t p) \<le> 1
       \<and> createSectionPlane ''axial'' 0.75 = \<lparr>plane_normal = Vec3 0 0 1, plane_constant = 0.5\<rparr>"
  using assms by (simp add: createSectionPlane_def Let_def)

theorem createSectionPlane_spec_witness:
  "(0::real) \<le> 0.75 \<and> (0.75::real) \<le> 1
   \<and> plane_constant (createSectionPlane ''axial'' 0.75) = 0.5
   \<and> plane_normal (createSectionPlane ''axial'' 0.75) = Vec3 0 0 1
   \<and> plane_constant (createSectionPlane ''axial'' 0.75) < plane_constant (createSectionPlane ''axial'' 1)"
  using createSectionPlane_spec [where p = "0.75" and t = "''axial''"] by (simp add: createSectionPlane_def)

section \<open>Properties of the material toggles\<close>

lemma wireframe_override_idem: "wireframe_override (wireframe_override x) = wireframe_override x"
  by (simp add: wireframe_override_def is_lit_def Let_def)

lemma wireframe_restore_again:
  "wireframe_restore None None (wireframe_restore c p x) = wireframe_restore c p x"
  by (simp add: wireframe_restore_def Let_def split: option.splits)

lemma enable_materials:
  "materials (wireframe_forEach True ms s) m =
     (if Some m \<in> set ms then wireframe_override (materials s m) else materials s m)"
proof (induction ms arbitrary: s)
  case Nil
  show ?case by simp
next
  case (Cons a ms)
  show ?case
  proof (cases a)
    case None
    then show ?thesis using Cons.IH by simp
  next
    case (Some k)
    then show ?thesis using Cons.IH
      by (simp add: wireframe_material_def Let_def wireframe_override_idem)
  qed
qed

lemma enable_originalMaterials:
  "originalMaterials (wireframe_forEach True ms s) m =
     (if Some m \<in> set ms \<and> originalMaterials s m = None then Some m else originalMaterials s m)"
proof (induction ms arbitrary: s)
  case Nil
  show ?case by simp
next
  case (Cons a ms)
  show ?case
  proof (cases a)
    case None
    then show ?thesis using Cons.IH by simp
  next
    case (Some k)
    then show ?thesis using Cons.IH
      by (auto simp add: wireframe_material_def Let_def)
  qed
qed

lemma enable_originalColors:
  "originalColors (wireframe_forEach True ms s) m =
     (if Some m \<in> set ms \<and> originalMaterials s m = None then Some (color (materials s m))
      else originalColors s m)"
proof (induction ms arbitrary: s)
  case Nil
  show ?case by simp
next
  case (Cons a ms)
  show ?case
  proof (cases a)
    case None
    then show ?thesis using Cons.IH by simp
  next
    case (Some k)
    then show ?thesis using Cons.IH
      by (auto simp add: wireframe_material_def Let_def)
  qed
qed

lemma enable_originalProperties:
  "originalProperties (wireframe_forEach True ms s) m =
     (if Some m \<in> set ms \<and> originalMaterials s m = None then Some (save_props (materials s m))
      else originalProperties s m)"
proof (induction ms arbitrary: s)
  case Nil
  show ?case by simp
next
  case (Cons a ms)
  show ?case
  proof (cases a)
    case None
    then show ?thesis using Cons.IH by simp
  next
    case (Some k)
    then show ?thesis using Cons.IH
      by (auto simp add: wireframe_material_def Let_def)
  qed
qed

lemma disable_materials:
  "materials (wireframe_forEach False ms s) m =
     (if Some m \<in> set ms
      then wireframe_restore (originalColors s m) (originalProperties s m) (materials s m)
      else materials s m)"
proof (induction ms arbitrary: s)
  case Nil
  show ?case by simp
next
  case (Cons a ms)
  show ?case
  proof (cases a)
    case None
    then show ?thesis using Cons.IH by simp
  next
    case (Some k)
    then show ?thesis using Cons.IH
      by (simp add: wireframe_material_def Let_def wireframe_restore_again)
  qed
qed

lemma disable_tables:
  "originalColors (wireframe_forEach False ms s) m = (if Some m \<in> set ms then None else originalColors s m)"
  "originalProperties (wireframe_forEach False ms s) m = (if Some m \<in> set ms then None else originalProperties s m)"
  "originalMaterials (wireframe_forEach False ms s) m = (if Some m \<in> set ms then None else originalMaterials s m)"
proof (induction ms arbitrary: s)
  case Nil
  { case 1 show ?case by simp }
  { case 2 show ?case by simp }
  { case 3 show ?case by simp }
next
  case (Cons a ms)
  { case 1 show ?case using Cons.IH(1) by (cases a) (simp_all add: wireframe_material_def) }
  { case 2 show ?case using Cons.IH(2) by (cases a) (simp_all add: wireframe_material_def) }
  { case 3 show ?case using Cons.IH(3) by (cases a) (simp_all add: wireframe_material_def) }
qed

lemma roundtrip_material:
  "color (wireframe_restore (Some (color x)) (Some (save_props x)) (wireframe_override x)) = color x"
  "metalness (wireframe_restore (Some (color x)) (Some (save_props x)) (wireframe_override x)) = metalness x"
  "roughness (wireframe_restore (Some (color x)) (Some (save_props x)) (wireframe_override x)) = roughness x"
  "emissive (wireframe_restore (Some (color x)) (Some (save_props x)) (wireframe_override x)) = emissive x"
  "emissiveIntensity (wireframe_restore (Some (color x)) (Some (save_props x)) (wireframe_override x)) = emissiveIntensity x"
  by (auto simp add: wireframe_restore_def wireframe_override_def save_props_def is_lit_def Let_def)

lemma transparency_material_idem:
  "transparency_material t o1 (transparency_material t o1 x) = transparency_material t o1 x"
  by (simp add: transparency_material_def)

lemma transparency_forEach_at:
  "transparency_forEach t o1 ms st m =
     (if Some m \<in> set ms then transparency_material t o1 (st m) else st m)"
proof (induction ms arbitrary: st)
  case Nil
  show ?case by simp
next
  case (Cons a ms)
  show ?case using Cons.IH
    by (cases a) (simp_all add: transparency_material_idem)
qed

text \<open>
  Claim C6. Wireframe round trip: for every model and every material reachable from it
  that has no snapshot when the toggle starts (wireframe is off for it), enabling
  wireframe and then disabling it leaves the material's colour, metalness, roughness,
  emissive colour and emissive intensity exactly as they were before the toggle.
\<close>

theorem wireframe_roundtrip:
  assumes "m \<in> model_materials model" and "originalMaterials s m = None"
  shows "color (materials (applyWireframe (Some model) False (applyWireframe (Some model) True s)) m)
           = color (materials s m)
       \<and> metalness (materials (applyWireframe (Some model) False (applyWireframe (Some model) True s)) m)
           = metalness (materials s m)
       \<and> roughness (materials (applyWireframe (Some model) False (applyWireframe (Some model) True s)) m)
           = roughness (materials s m)
       \<and> emissive (materials (applyWireframe (Some model) False (applyWireframe (Some model) True s)) m)
           = emissive (materials s m)
       \<and> emissiveIntensity (materials (applyWireframe (Some model) False (applyWireframe (Some model) True s)) m)
           = emissiveIntensity (materials s m)"
proof -
  from assms(1) have mem: "Some m \<in> set (traverse_materials model)"
    by (simp add: model_materials_def)
  have "materials (applyWireframe (Some model) False (applyWireframe (Some model) True s)) m
        = wireframe_restore (Some (color (materials s m))) (Some (save_props (materials s m)))
            (wireframe_override (materials s m))"
    using mem assms(2)
    by (simp add: applyWireframe_def disable_materials enable_materials enable_originalColors
        enable_originalProperties)
  then show ?thesis by (simp add: roundtrip_material)
qed

theorem wireframe_roundtrip_witness:
  "0 \<in> model_materials example_model \<and> originalMaterials example_state 0 = None
   \<and> color (materials (applyWireframe (Some example_model) True example_state) 0) = setHex 13882323
   \<and> color (materials (applyWireframe (Some example_model) False
        (applyWireframe (Some example_model) True example_state)) 0) = Color 1 0 0
   \<and> metalness (materials (applyWireframe (Some example_model) False
        (applyWireframe (Some example_model) True example_state)) 0) = Some 0.5"
proof -
  have a: "0 \<in> model_materials example_model"
    by (simp add: model_materials_def example_model_def)
  have b: "originalMaterials example_state 0 = None"
    by (simp add: example_state_def)
  have c: "materials example_state 0 = example_material"
    by (simp add: example_state_def)
  have d: "color (materials (applyWireframe (Some example_model) True example_state) 0) = setHex 13882323"
    using a by (simp add: applyWireframe_def enable_materials model_materials_def
        wireframe_override_def Let_def)
  show ?thesis
    using a b d wireframe_roundtrip [OF a b] by (simp add: c example_material_def)
qed

text \<open>
  Claim C7 (amended). The transparency toggle keeps no snapshot: after enabling and then
  disabling transparency, every material of the model is opaque (transparent flag off,
  opacity 1, depth-write on) whatever it was before; the values before the toggle come
  back exactly when the material was already opaque in that sense.
\<close>

theorem transparency_roundtrip_resets:
  assumes "m \<in> model_materials model"
  shows "transparent (applyTransparency (Some model) False o2
            (applyTransparency (Some model) True o1 st) m) = False
       \<and> opacity (applyTransparency (Some model) False o2
            (applyTransparency (Some model) True o1 st) m) = 1
       \<and> depthWrite (applyTransparency (Some model) False o2
            (applyTransparency (Some model) True o1 st) m) = True
       \<and> ((transparent (applyTransparency (Some model) False o2
              (applyTransparency (Some model) True o1 st) m) = transparent (st m)
          \<and> opacity (applyTransparency (Some model) False o2
              (applyTransparency (Some model) True o1 st) m) = opacity (st m)
          \<and> depthWrite (applyTransparency (Some model) False o2
              (applyTransparency (Some model) True o1 st) m) = depthWrite (st m))
         = (\<not> transparent (st m) \<and> opacity (st m) = 1 \<and> depthWrite (st m)))"
proof -
  from assms have mem: "Some m \<in> set (traverse_materials model)"
    by (simp add: model_materials_def)
  have "applyTransparency (Some model) False o2 (applyTransparency (Some model) True o1 st) m
        = transparency_material False o2 (transparency_material True o1 (st m))"
    using mem by (simp add: applyTransparency_def transparency_forEach_at)
  then show ?thesis by (auto simp add: transparency_material_def)
qed

theorem transparency_roundtrip_resets_witness:
  "0 \<in> model_materials example_model
   \<and> opacity (applyTransparency (Some example_model) False 0.5
        (applyTransparency (Some example_model) True 0.6 example_store) 0) = 1
   \<and> opacity (example_store 0) = 0.5"
proof -
  have a: "0 \<in> model_materials example_model"
    by (simp add: model_materials_def example_model_def)
  show ?thesis
    using a transparency_roundtrip_resets [OF a, where ?o2.0 = "0.5" and ?o1.0 = "0.6" and st = example_store]
    by (simp add: example_store_def example_material_def)
qed

text \<open>
  The claim as stated fails: a material that was transparent with opacity 0.5 and
  depth-write off before the toggle is opaque with depth-write on after the round trip.
\<close>

theorem transparency_roundtrip_counterexample:
  "0 \<in> model_materials example_model
   \<and> transparent (example_store 0) = True
   \<and> opacity (example_store 0) = 0.5
   \<and> depthWrite (example_store 0) = False
   \<and> transparent (applyTransparency (Some example_model) False 0.5
        (applyTransparency (Some example_model) True 0.6 example_store) 0) = False
   \<and> opacity (applyTransparency (Some example_model) False 0.5
        (applyTransparency (Some example_model) True 0.6 example_store) 0) = 1
   \<and> depthWrite (applyTransparency (Some example_model) False 0.5
        (applyTransparency (Some example_model) True 0.6 example_store) 0) = True"
  by (simp add: model_materials_def example_model_def example_store_def example_material_def
      applyTransparency_def transparency_material_def)

lemma wireframe_enable_twice:
  "applyWireframe (Some model) True (applyWireframe (Some model) True s)
     = applyWireframe (Some model) True s"
proof -
  let ?ms = "traverse_materials model"
  let ?s1 = "wireframe_forEach True ?ms s"
  let ?s2 = "wireframe_forEach True ?ms ?s1"
  have "materials ?s2 = materials ?s1"
    by (rule ext) (simp add: enable_materials wireframe_override_idem)
  moreover have "originalColors ?s2 = originalColors ?s1"
    by (rule ext) (auto simp add: enable_originalColors enable_originalMaterials)
  moreover have "originalMaterials ?s2 = originalMaterials ?s1"
    by (rule ext) (auto simp add: enable_originalMaterials)
  moreover have "originalProperties ?s2 = originalProperties ?s1"
    by (rule ext) (auto simp add: enable_originalProperties enable_originalMaterials)
  ultimately have "?s2 = ?s1" by simp
  then show ?thesis by (simp add: applyWireframe_def)
qed

text \<open>
  Claim C8. Enabling wireframe twice and disabling once: the first enable stores one
  snapshot per material (the colour and properties before the first enable), the second
  enable leaves the three tables exactly as the first left them, and the single disable
  restores colour, metalness, roughness, emissive colour and emissive intensity to the
  values before the first enable and removes the material's entries.
\<close>

theorem wireframe_double_enable:
  assumes "m \<in> model_materials model" and "originalMaterials s m = None"
  shows "originalColors (applyWireframe (Some model) True s) m = Some (color (materials s m))
       \<and> originalProperties (applyWireframe (Some model) True s) m = Some (save_props (materials s m))
       \<and> originalColors (applyWireframe (Some model) True (applyWireframe (Some model) True s))
           = originalColors (applyWireframe (Some model) True s)
       \<and> originalMaterials (applyWireframe (Some model) True (applyWireframe (Some model) True s))
           = originalMaterials (applyWireframe (Some model) True s)
       \<and> originalProperties (applyWireframe (Some model) True (applyWireframe (Some model) True s))
           = originalProperties (applyWireframe (Some model) True s)
       \<and> color (materials (applyWireframe (Some model) False
            (applyWireframe (Some model) True (applyWireframe (Some model) True s))) m)
           = color (materials s m)
       \<and> metalness (materials (applyWireframe (Some model) False
            (applyWireframe (Some model) True (applyWireframe (Some model) True s))) m)
           = metalness (materials s m)
       \<and> roughness (materials (applyWireframe (Some model) False
            (applyWireframe (Some model) True (applyWireframe (Some model) True s))) m)
           = roughness (materials s m)
       \<and> emissive (materials (applyWireframe (Some model) False
            (applyWireframe (Some model) True (applyWireframe (Some model) True s))) m)
           = emissive (materials s m)
       \<and> emissiveIntensity (materials (applyWireframe (Some model) False
            (applyWireframe (Some model) True (applyWireframe (Some model) True s))) m)
           = emissiveIntensity (materials s m)
       \<and> originalColors (applyWireframe (Some model) False
            (applyWireframe (Some model) True (applyWireframe (Some model) True s))) m = None
       \<and> originalMaterials (applyWireframe (Some model) False
            (applyWireframe (Some model) True (applyWireframe (Some model) True s))) m = None
       \<and> originalProperties (applyWireframe (Some model) False
            (applyWireframe (Some model) True (applyWireframe (Some model) True s))) m = None"
proof -
  from assms(1) have mem: "Some m \<in> set (traverse_materials model)"
    by (simp add: model_materials_def)
  have snap: "originalColors (applyWireframe (Some model) True s) m = Some (color (materials s m))"
    "originalProperties (applyWireframe (Some model) True s) m = Some (save_props (materials s m))"
    using mem assms(2)
    by (simp_all add: applyWireframe_def enable_originalColors enable_originalProperties)
  have over: "materials (applyWireframe (Some model) True s) m = wireframe_override (materials s m)"
    using mem by (simp add: applyWireframe_def enable_materials)
  have off: "materials (applyWireframe (Some model) False (applyWireframe (Some model) True s)) m
        = wireframe_restore (Some (color (materials s m))) (Some (save_props (materials s m)))
            (wireframe_override (materials s m))"
    using mem snap over by (simp add: applyWireframe_def disable_materials)
  have gone: "originalColors (applyWireframe (Some model) False t) m = None"
    "originalMaterials (applyWireframe (Some model) False t) m = None"
    "originalProperties (applyWireframe (Some model) False t) m = None" for t
    using mem by (simp_all add: applyWireframe_def disable_tables)
  show ?thesis
    by (simp only: wireframe_enable_twice snap off gone roundtrip_material simp_thms)
qed

theorem wireframe_double_enable_witness:
  "0 \<in> model_materials example_model \<and> originalMaterials example_state 0 = None
   \<and> originalColors (applyWireframe (Some example_model) True
        (applyWireframe (Some example_model) True example_state)) 0 = Some (Color 1 0 0)
   \<and> color (materials (applyWireframe (Some example_model) False
        (applyWireframe (Some example_model) True
          (applyWireframe (Some example_model) True example_state))) 0) = Color 1 0 0
   \<and> emissiveIntensity (materials (applyWireframe (Some example_model) False
        (applyWireframe (Some example_model) True
          (applyWireframe (Some example_model) True example_state))) 0) = Some 2"
proof -
  have a: "0 \<in> model_materials example_model"
    by (simp add: model_materials_def example_model_def)
  have b: "originalMaterials example_state 0 = None"
    by (simp add: example_state_def)
  have c: "materials example_state 0 = example_material"
    by (simp add: example_state_def)
  show ?thesis
    using a b wireframe_double_enable [OF a b] by (simp add: c example_material_def)
qed

section \<open>Properties of the connection probability\<close>

lemma connection_factors_mono:
  fixes M d1 d2 :: real
  assumes "0 < M" and "M * 0.2 \<le> d1" and "d1 < d2"
  shows "(if d2 < M * 0.2 then 1.5 else 1.0) * (if d2 > M * 0.5 then 0.3 else (1.0::real))
       \<le> (if d1 < M * 0.2 then 1.5 else 1.0) * (if d1 > M * 0.5 then 0.3 else 1.0)"
  using assms by (auto split: if_splits)

lemma connection_factors_pos:
  fixes M d :: real
  shows "0 < (if d < M * 0.2 then 1.5 else 1.0) * (if d > M * 0.5 then 0.3 else (1.0::real))"
  by simp

lemma connection_probability_form:
  "calculateConnectionProbability x M b
     = b * (exp (- x / (M * 0.3))
            * ((if x < M * 0.2 then 1.5 else 1.0) * (if x > M * 0.5 then 0.3 else 1.0)))"
  by (simp add: calculateConnectionProbability_def Let_def)

text \<open>
  Claim C3. For every distance d >= 0, maxDistance > 0 and base probability,
  \<open>calculateConnectionProbability\<close> returns baseProbability * exp(-d / (0.3 * maxDistance))
  * localBoost * globalDamp, with localBoost 1.5 below 0.2 * maxDistance (else 1) and
  globalDamp 0.3 above 0.5 * maxDistance (else 1); and for a positive base probability
  the value strictly decreases in d from 0.2 * maxDistance on.
\<close>

theorem calculateConnectionProbability_spec:
  assumes "0 \<le> d" and "0 < M"
  shows "calculateConnectionProbability d M b
           = b * exp (- d / (0.3 * M)) * (if d < 0.2 * M then 1.5 else 1.0)
               * (if d > 0.5 * M then 0.3 else 1.0)
       \<and> (\<forall>d2. 0 < b \<and> 0.2 * M \<le> d \<and> d < d2
             \<longrightarrow> calculateConnectionProbability d2 M b < calculateConnectionProbability d M b)"
proof -
  have eq: "calculateConnectionProbability d M b
           = b * exp (- d / (0.3 * M)) * (if d < 0.2 * M then 1.5 else 1.0)
               * (if d > 0.5 * M then 0.3 else 1.0)"
    by (simp add: calculateConnectionProbability_def Let_def mult.commute)
  have dec: "calculateConnectionProbability d2 M b < calculateConnectionProbability d M b"
    if b: "0 < b" and lo: "0.2 * M \<le> d" and lt: "d < d2" for d2
  proof -
    let ?g = "\<lambda>x::real. (if x < M * 0.2 then 1.5 else 1.0) * (if x > M * 0.5 then 0.3 else (1.0::real))"
    have lo': "M * 0.2 \<le> d" using lo by (simp add: mult.commute)
    have g_le: "?g d2 \<le> ?g d"
      using assms(2) lo' lt by (rule connection_factors_mono)
    have g_pos: "0 < ?g d2" by (rule connection_factors_pos)
    have "- d2 / (M * 0.3) < - d / (M * 0.3)"
      using assms(2) lt by (simp add: divide_strict_right_mono)
    then have e_lt: "exp (- d2 / (M * 0.3)) < exp (- d / (M * 0.3))"
      by (simp only: exp_less_cancel_iff)
    have e_pos: "0 < exp (- d / (M * 0.3))" by (rule exp_gt_zero)
    have "exp (- d2 / (M * 0.3)) * ?g d2 < exp (- d / (M * 0.3)) * ?g d2"
      using e_lt g_pos by (rule mult_strict_right_mono)
    also have "\<dots> \<le> exp (- d / (M * 0.3)) * ?g d"
      using g_le e_pos by (simp only: mult_le_cancel_left_pos)
    finally have "b * (exp (- d2 / (M * 0.3)) * ?g d2) < b * (exp (- d / (M * 0.3)) * ?g d)"
      using b by (simp only: mult_less_cancel_left_pos)
    then show ?thesis
      by (simp only: connection_probability_form)
  qed
  show ?thesis using eq dec by blast
qed

theorem calculateConnectionProbability_spec_witness:
  "(0::real) \<le> 0.3 \<and> (0::real) < 1
   \<and> calculateConnectionProbability 0.3 1 0.5 = 0.5 * exp (- 1)
   \<and> calculateConnectionProbability 0.6 1 0.5 = 0.15 * exp (- 2)
   \<and> calculateConnectionProbability 0.6 1 0.5 < calculateConnectionProbability 0.3 1 0.5"
proof -
  have a: "(0::real) \<le> 0.3" and b: "(0::real) < 1" by simp_all
  have c: "calculateConnectionProbability 0.6 1 0.5 < calculateConnectionProbability 0.3 1 0.5"
    using calculateConnectionProbability_spec [OF a b, of "0.5"] by simp
  have d: "calculateConnectionProbability 0.3 1 0.5 = 0.5 * exp (- 1)"
    "calculateConnectionProbability 0.6 1 0.5 = 0.15 * exp (- 2)"
    by (simp_all add: calculateConnectionProbability_def)
  show ?thesis using c d by simp
qed

section \<open>Properties of the neuron generator\<close>

lemma axis_step_inside:
  fixes p d lo hi L :: real
  assumes "lo \<le> p" and "p \<le> hi" and "0 \<le> L"
    and "0 < d \<Longrightarrow> L \<le> (hi - p) / d"
    and "d < 0 \<Longrightarrow> L \<le> (p - lo) / - d"
  shows "lo \<le> p + d * L \<and> p + d * L \<le> hi"
proof (cases "0 < d")
  case True
  then have "L * d \<le> hi - p" using assms(4) by (simp add: pos_le_divide_eq)
  moreover have "0 \<le> d * L" using True assms(3) by simp
  ultimately show ?thesis using assms(1) by (simp add: mult.commute)
next
  case False
  show ?thesis
  proof (cases "d < 0")
    case True
    then have nd: "0 < - d" by simp
    have "L \<le> (p - lo) / - d" using assms(5) True by blast
    then have "L * - d \<le> p - lo" using pos_le_divide_eq [OF nd] by blast
    moreover have "d * L \<le> 0" using True assms(3) by (simp add: mult_nonpos_nonneg)
    ultimately show ?thesis using assms(2) by (simp add: mult.commute)
  next
    case False
    with \<open>\<not> 0 < d\<close> have "d = 0" by simp
    then show ?thesis using assms(1,2) by simp
  qed
qed

lemma clamp_axis:
  fixes M0 n d :: real
  assumes "0 \<le> n" and "0 < d" and "M0 \<le> n / d"
  shows "(if M0 > 0 then M0 else 0) \<le> n / d"
  using assms by (simp add: divide_nonneg_pos)

lemma min_inf_le: "min_inf m v = Some M \<Longrightarrow> M \<le> v \<and> (\<forall>a. m = Some a \<longrightarrow> M \<le> a)"
  by (auto simp add: min_inf_def split: option.splits)

lemma axis_limit_Some:
  assumes "axis_limit m p d lo hi = Some M"
  shows "(0 < d \<longrightarrow> M \<le> (hi - p) / d) \<and> (d < 0 \<longrightarrow> M \<le> (p - lo) / - d)
       \<and> (\<forall>a. m = Some a \<longrightarrow> M \<le> a)"
  using assms by (auto simp add: axis_limit_def dest: min_inf_le split: if_splits)

lemma axis_limit_None:
  assumes "axis_limit m p d lo hi = None"
  shows "d = 0 \<and> m = None"
  using assms by (auto simp add: axis_limit_def min_inf_def split: if_splits option.splits)

lemma axis_limit_Some_mono:
  "m = Some a \<Longrightarrow> \<exists>M. axis_limit m p d lo hi = Some M \<and> M \<le> a"
  by (auto simp add: axis_limit_def min_inf_def)


lemma getMaxSafeDistance_Some:
  assumes safe: "isPointInSafeBox position box margin"
    and some: "getMaxSafeDistance position direction box margin = Some M"
  shows "0 \<le> M
       \<and> (0 < vx direction \<longrightarrow> M \<le> (vx (bmax box) - margin - vx position) / vx direction)
       \<and> (vx direction < 0 \<longrightarrow> M \<le> (vx position - (vx (bmin box) + margin)) / - vx direction)
       \<and> (0 < vy direction \<longrightarrow> M \<le> (vy (bmax box) - margin - vy position) / vy direction)
       \<and> (vy direction < 0 \<longrightarrow> M \<le> (vy position - (vy (bmin box) + margin)) / - vy direction)
       \<and> (0 < vz direction \<longrightarrow> M \<le> (vz (bmax box) - margin - vz position) / vz direction)
       \<and> (vz direction < 0 \<longrightarrow> M \<le> (vz position - (vz (bmin box) + margin)) / - vz direction)"
proof -
  let ?m1 = "axis_limit None (vx position) (vx direction) (vx (bmin box) + margin) (vx (bmax box) - margin)"
  let ?m2 = "axis_limit ?m1 (vy position) (vy direction) (vy (bmin box) + margin) (vy (bmax box) - margin)"
  let ?m3 = "axis_limit ?m2 (vz position) (vz direction) (vz (bmin box) + margin) (vz (bmax box) - margin)"
  from some obtain M0 where m3: "?m3 = Some M0" and M: "M = (if M0 > 0 then M0 else 0)"
    by (auto simp add: getMaxSafeDistance_def Let_def split: option.splits)
  have nonneg: "0 \<le> M" using M by simp
  from safe have bx: "0 \<le> vx (bmax box) - margin - vx position" "0 \<le> vx position - (vx (bmin box) + margin)"
    and byy: "0 \<le> vy (bmax box) - margin - vy position" "0 \<le> vy position - (vy (bmin box) + margin)"
    and bz: "0 \<le> vz (bmax box) - margin - vz position" "0 \<le> vz position - (vz (bmin box) + margin)"
    by (simp_all add: isPointInSafeBox_def)
  have z: "(0 < vz direction \<longrightarrow> M0 \<le> (vz (bmax box) - margin - vz position) / vz direction)
         \<and> (vz direction < 0 \<longrightarrow> M0 \<le> (vz position - (vz (bmin box) + margin)) / - vz direction)
         \<and> (\<forall>a. ?m2 = Some a \<longrightarrow> M0 \<le> a)"
    using axis_limit_Some [OF m3] by simp
  have y: "(0 < vy direction \<longrightarrow> M0 \<le> (vy (bmax box) - margin - vy position) / vy direction)
         \<and> (vy direction < 0 \<longrightarrow> M0 \<le> (vy position - (vy (bmin box) + margin)) / - vy direction)
         \<and> (\<forall>a. ?m1 = Some a \<longrightarrow> M0 \<le> a)"
  proof (cases ?m2)
    case None
    from axis_limit_None [OF None] show ?thesis by simp
  next
    case (Some a)
    with z have "M0 \<le> a" by simp
    with axis_limit_Some [OF Some] show ?thesis by auto
  qed
  have x: "(0 < vx direction \<longrightarrow> M0 \<le> (vx (bmax box) - margin - vx position) / vx direction)
         \<and> (vx direction < 0 \<longrightarrow> M0 \<le> (vx position - (vx (bmin box) + margin)) / - vx direction)"
  proof (cases ?m1)
    case None
    from axis_limit_None [OF None] show ?thesis by simp
  next
    case (Some a)
    with y have "M0 \<le> a" by simp
    with axis_limit_Some [OF Some] show ?thesis by auto
  qed
  have x1: "M \<le> (vx (bmax box) - margin - vx position) / vx direction" if "0 < vx direction"
    unfolding M using bx(1) that x by (intro clamp_axis) simp_all
  have x2: "M \<le> (vx position - (vx (bmin box) + margin)) / - vx direction" if "vx direction < 0"
    unfolding M using bx(2) that x by (intro clamp_axis) simp_all
  have y1: "M \<le> (vy (bmax box) - margin - vy position) / vy direction" if "0 < vy direction"
    unfolding M using byy(1) that y by (intro clamp_axis) simp_all
  have y2: "M \<le> (vy position - (vy (bmin box) + margin)) / - vy direction" if "vy direction < 0"
    unfolding M using byy(2) that y by (intro clamp_axis) simp_all
  have z1: "M \<le> (vz (bmax box) - margin - vz position) / vz direction" if "0 < vz direction"
    unfolding M using bz(1) that z by (intro clamp_axis) simp_all
  have z2: "M \<le> (vz position - (vz (bmin box) + margin)) / - vz direction" if "vz direction < 0"
    unfolding M using bz(2) that z by (intro clamp_axis) simp_all
  show ?thesis
    using nonneg x1 x2 y1 y2 z1 z2 by blast
qed

lemma getMaxSafeDistance_None:
  assumes "getMaxSafeDistance position direction box margin = None"
  shows "vx direction = 0 \<and> vy direction = 0 \<and> vz direction = 0"
proof -
  let ?m1 = "axis_limit None (vx position) (vx direction) (vx (bmin box) + margin) (vx (bmax box) - margin)"
  let ?m2 = "axis_limit ?m1 (vy position) (vy direction) (vy (bmin box) + margin) (vy (bmax box) - margin)"
  let ?m3 = "axis_limit ?m2 (vz position) (vz direction) (vz (bmin box) + margin) (vz (bmax box) - margin)"
  from assms have m3: "?m3 = None"
    by (auto simp add: getMaxSafeDistance_def Let_def split: option.splits)
  from axis_limit_None [OF m3] have z: "vz direction = 0" and m2: "?m2 = None" by simp_all
  from axis_limit_None [OF m2] have y: "vy direction = 0" and m1: "?m1 = None" by simp_all
  from axis_limit_None [OF m1] have x: "vx direction = 0" by simp
  show ?thesis using x y z by simp
qed

lemma clipped_end_safe:
  assumes safe: "isPointInSafeBox position box margin" and len: "0 \<le> len"
  shows "isPointInSafeBox
           (vadd position (multiplyScalar direction (clip_length len position direction (Some box) margin)))
           box margin"
proof (cases "getMaxSafeDistance position direction box margin")
  case None
  from getMaxSafeDistance_None [OF None] safe show ?thesis
    by (simp add: isPointInSafeBox_def vadd_def multiplyScalar_def)
next
  case (Some M)
  let ?L = "clip_length len position direction (Some box) margin"
  have L: "?L = min len (M * 0.8)"
    using Some by (simp add: clip_length_def limit_length_def)
  note b = getMaxSafeDistance_Some [OF safe Some]
  from b have M0: "0 \<le> M" by simp
  have L0: "0 \<le> ?L" using L len M0 by simp
  have LM: "?L \<le> M" using L M0 by (simp add: min_def)
  from safe have s: "vx (bmin box) + margin \<le> vx position" "vx position \<le> vx (bmax box) - margin"
      "vy (bmin box) + margin \<le> vy position" "vy position \<le> vy (bmax box) - margin"
      "vz (bmin box) + margin \<le> vz position" "vz position \<le> vz (bmax box) - margin"
    by (simp_all add: isPointInSafeBox_def)
  have x: "vx (bmin box) + margin \<le> vx position + vx direction * ?L
         \<and> vx position + vx direction * ?L \<le> vx (bmax box) - margin"
  proof (rule axis_step_inside)
    show "0 < vx direction \<Longrightarrow> ?L \<le> (vx (bmax box) - margin - vx position) / vx direction"
      using b LM by simp
    show "vx direction < 0 \<Longrightarrow> ?L \<le> (vx position - (vx (bmin box) + margin)) / - vx direction"
      using b LM by simp
  qed (use s L0 in simp_all)
  have y: "vy (bmin box) + margin \<le> vy position + vy direction * ?L
         \<and> vy position + vy direction * ?L \<le> vy (bmax box) - margin"
  proof (rule axis_step_inside)
    show "0 < vy direction \<Longrightarrow> ?L \<le> (vy (bmax box) - margin - vy position) / vy direction"
      using b LM by simp
    show "vy direction < 0 \<Longrightarrow> ?L \<le> (vy position - (vy (bmin box) + margin)) / - vy direction"
      using b LM by simp
  qed (use s L0 in simp_all)
  have z: "vz (bmin box) + margin \<le> vz position + vz direction * ?L
         \<and> vz position + vz direction * ?L \<le> vz (bmax box) - margin"
  proof (rule axis_step_inside)
    show "0 < vz direction \<Longrightarrow> ?L \<le> (vz (bmax box) - margin - vz position) / vz direction"
      using b LM by simp
    show "vz direction < 0 \<Longrightarrow> ?L \<le> (vz position - (vz (bmin box) + margin)) / - vz direction"
      using b LM by simp
  qed (use s L0 in simp_all)
  show ?thesis using x y z
    by (simp add: isPointInSafeBox_def vadd_def multiplyScalar_def)
qed
lemma dendrite_step_safe:
  assumes "\<forall>c \<in> set (fst acc). isPointInSafeBox (c_to c) box margin"
  shows "\<forall>c \<in> set (fst (dendrite_step rnd position dendriteLength (Some box) margin acc)).
           isPointInSafeBox (c_to c) box margin"
  using assms
  by (simp add: dendrite_step_def Let_def in_bounds_def createDendriteBranch_def)

lemma dendrite_loop_safe:
  assumes "\<forall>c \<in> set (fst acc). isPointInSafeBox (c_to c) box margin"
  shows "\<forall>c \<in> set (fst (dendrite_loop rnd position dendriteLength (Some box) margin n acc)).
           isPointInSafeBox (c_to c) box margin"
  using assms
proof (induction n arbitrary: acc)
  case 0
  then show ?case by simp
next
  case (Suc n)
  show ?case
    unfolding dendrite_loop.simps
    by (rule Suc.IH) (rule dendrite_step_safe [OF Suc.prems])
qed

lemma axon_branch_step_safe:
  assumes "\<forall>c \<in> set (fst acc). isPointInSafeBox (c_to c) box margin"
  shows "\<forall>c \<in> set (fst (axon_branch_step rnd branchPoint len (Some box) margin acc)).
           isPointInSafeBox (c_to c) box margin"
  using assms
  by (simp add: axon_branch_step_def Let_def in_bounds_def createAxonBranch_def)

lemma axon_part_branches_safe:
  "\<forall>c \<in> set (fst (snd (axon_part rnd position axonLength prob (Some box) margin k))).
     isPointInSafeBox (c_to c) box margin"
proof -
  have two: "\<forall>c \<in> set (fst (axon_branch_step rnd bp len (Some box) margin
                (axon_branch_step rnd bp len (Some box) margin ([], j)))).
               isPointInSafeBox (c_to c) box margin" for bp len j
    by (rule axon_branch_step_safe, rule axon_branch_step_safe) simp
  show ?thesis
    using two by (simp add: axon_part_def Let_def split: option.splits)
qed

lemma axon_part_checked:
  assumes safe: "isPointInSafeBox position box margin" and len: "0 \<le> axonLength"
  shows "\<exists>e crv. fst (snd (snd (axon_part rnd position axonLength prob (Some box) margin k))) = Some e
           \<and> fst (axon_part rnd position axonLength prob (Some box) margin k) = Some crv
           \<and> c_to crv = e \<and> isPointInSafeBox e box margin"
proof -
  let ?dir = "normalize (fst (randomDirection rnd k))"
  have "isPointInSafeBox
          (vadd position (multiplyScalar ?dir (clip_length axonLength position ?dir (Some box) margin)))
          box margin"
    using safe len by (rule clipped_end_safe)
  then show ?thesis
    by (simp add: axon_part_def Let_def in_bounds_def createAxonBranch_def)
qed
text \<open>
  Claim C5 (amended). For every neuron that \<open>createNeuron\<close> builds with a boundary box,
  the end point of every dendrite (and dendrite branch) it keeps and of every axon branch
  lies within the safety margin 0.05 of the box. The axon's terminal point lies within
  the margin whenever the soma position itself does and the axon length is not negative:
  the axon is then placed on the checked path. The fallback path gives an axon whose end
  fails the check a new length and keeps it without checking the new end.
\<close>

theorem createNeuron_safe:
  "(\<forall>c \<in> set (n_dendrites (fst (createNeuron rnd position somaSize options (Some box) k))).
      isPointInSafeBox (c_to c) box 0.05)
   \<and> (\<forall>c \<in> set (n_axonBranches (fst (createNeuron rnd position somaSize options (Some box) k))).
      isPointInSafeBox (c_to c) box 0.05)
   \<and> (isPointInSafeBox position box 0.05 \<and> (\<forall>i. 0 \<le> rnd i)
        \<and> (\<forall>l. opt_axonLength options = Some l \<longrightarrow> 0 \<le> l)
      \<longrightarrow> (\<exists>e crv. n_axonEnd (fst (createNeuron rnd position somaSize options (Some box) k)) = Some e
             \<and> n_axon (fst (createNeuron rnd position somaSize options (Some box) k)) = Some crv
             \<and> c_to crv = e \<and> isPointInSafeBox e box 0.05))"
proof (intro conjI impI)
  show "\<forall>c \<in> set (n_dendrites (fst (createNeuron rnd position somaSize options (Some box) k))).
      isPointInSafeBox (c_to c) box 0.05"
    using dendrite_loop_safe [where acc = "([], j)" and margin = "0.05" and box = box for j]
    by (simp add: createNeuron_def Let_def)
next
  show "\<forall>c \<in> set (n_axonBranches (fst (createNeuron rnd position somaSize options (Some box) k))).
      isPointInSafeBox (c_to c) box 0.05"
    using axon_part_branches_safe [where margin = "0.05" and box = box]
    by (simp add: createNeuron_def Let_def)
next
  assume h: "isPointInSafeBox position box 0.05 \<and> (\<forall>i. 0 \<le> rnd i)
        \<and> (\<forall>l. opt_axonLength options = Some l \<longrightarrow> 0 \<le> l)"
  have len: "0 \<le> fst (case opt_axonLength options of
                  None \<Rightarrow> (0.2 + rnd j * 0.3, j + 1) | Some l \<Rightarrow> (l, j))" for j
    using h by (simp split: option.splits)
  show "\<exists>e crv. n_axonEnd (fst (createNeuron rnd position somaSize options (Some box) k)) = Some e
             \<and> n_axon (fst (createNeuron rnd position somaSize options (Some box) k)) = Some crv
             \<and> c_to crv = e \<and> isPointInSafeBox e box 0.05"
    using axon_part_checked [where margin = "0.05" and box = box and position = position and rnd = rnd,
        OF conjunct1 [OF h] len]
    by (simp add: createNeuron_def Let_def)
qed

theorem createNeuron_safe_witness:
  "isPointInSafeBox (Vec3 0 0 0) cube2 0.05
   \<and> opt_axonLength no_options = None
   \<and> n_axonEnd (fst (createNeuron zero_draws (Vec3 0 0 0) 0.01 no_options (Some cube2) 0))
       = Some (Vec3 0 (- 0.2) 0)
   \<and> isPointInSafeBox (Vec3 0 (- 0.2) 0) cube2 0.05"
proof -
  have a: "isPointInSafeBox (Vec3 0 0 0) cube2 0.05"
    by (simp add: isPointInSafeBox_def cube2_def)
  have b: "\<forall>i. 0 \<le> zero_draws i" by (simp add: zero_draws_def)
  have c: "\<forall>l. opt_axonLength no_options = Some l \<longrightarrow> 0 \<le> l" by (simp add: no_options_def)
  have d: "n_axonEnd (fst (createNeuron zero_draws (Vec3 0 0 0) 0.01 no_options (Some cube2) 0))
       = Some (Vec3 0 (- 0.2) 0)"
    by (simp add: createNeuron_def axon_part_def Let_def no_options_def zero_draws_def
        randomDirection_def normalize_def vlength_def divideScalar_def multiplyScalar_def vadd_def
        clip_length_def limit_length_def getMaxSafeDistance_def axis_limit_def min_inf_def
        in_bounds_def isPointInSafeBox_def cube2_def)
  from createNeuron_safe [of zero_draws "Vec3 0 0 0" "0.01" no_options cube2 0] a b c
  have "\<exists>e. n_axonEnd (fst (createNeuron zero_draws (Vec3 0 0 0) 0.01 no_options (Some cube2) 0)) = Some e
          \<and> isPointInSafeBox e cube2 0.05"
    by blast
  then show ?thesis using a d by (simp add: no_options_def)
qed

text \<open>
  The claim as stated fails on the fallback path. In the cube of side 2 a soma at
  (0.99, 0, 0) is inside the box and outside the margin; with every draw 0 the axon
  points along (0, -1, 0), its end fails the check, and the fallback keeps the axon
  with its end at (0.99, -0.665, 0), outside the margin.
\<close>

theorem createNeuron_fallback_counterexample:
  "n_axonEnd (fst (createNeuron zero_draws (Vec3 0.99 0 0) 0.01 no_options (Some cube2) 0))
     = Some (Vec3 0.99 (- 0.665) 0)
   \<and> \<not> isPointInSafeBox (Vec3 0.99 (- 0.665) 0) cube2 0.05"
  by (simp add: createNeuron_def axon_part_def Let_def no_options_def zero_draws_def
      randomDirection_def normalize_def vlength_def divideScalar_def multiplyScalar_def vadd_def
      clip_length_def limit_length_def getMaxSafeDistance_def axis_limit_def min_inf_def
      in_bounds_def isPointInSafeBox_def cube2_def)

section \<open>Properties of the placement loops\<close>

lemma try_place_attempts: "attempts (try_place rnd g position st) = attempts st"
  by (simp add: try_place_def Let_def)

lemma try_place_index:
  "neuronIndex st = length (neurons st) \<Longrightarrow>
   neuronIndex (try_place rnd g position st) = length (neurons (try_place rnd g position st))
   \<and> neuronIndex (try_place rnd g position st) \<le> neuronIndex st + 1"
  by (simp add: try_place_def Let_def)

lemma cluster_member_inv:
  assumes "placement_inv count st" and "neuronIndex st < count" and "attempts st < count * 10"
  shows "placement_inv count (cluster_member rnd g cc cs st)"
proof -
  let ?st1 = "st\<lparr>attempts := attempts st + 1, rng := rng st + 12\<rparr>"
  let ?p = "vadd cc (Vec3
            ((rnd (rng st) + rnd (rng st + 1) + rnd (rng st + 2) + rnd (rng st + 3) - 2) * cs * 0.25)
            ((rnd (rng st + 4) + rnd (rng st + 5) + rnd (rng st + 6) + rnd (rng st + 7) - 2) * cs * 0.25)
            ((rnd (rng st + 8) + rnd (rng st + 9) + rnd (rng st + 10) + rnd (rng st + 11) - 2) * cs * 0.25))"
  have eq: "cluster_member rnd g cc cs st = try_place rnd g ?p ?st1"
    by (simp add: cluster_member_def Let_def)
  have idx: "neuronIndex ?st1 = length (neurons ?st1)"
    using assms(1) by (simp add: placement_inv_def)
  show ?thesis
    unfolding eq placement_inv_def
    using try_place_index [OF idx, of rnd g ?p] try_place_attempts [of rnd g ?p ?st1] assms
    by (simp add: placement_inv_def)
qed

lemma fill_step_inv:
  assumes "placement_inv count st" and "neuronIndex st < count" and "attempts st < count * 10"
  shows "placement_inv count (fill_step rnd g st)"
proof -
  let ?st1 = "st\<lparr>attempts := attempts st + 1, rng := rng st + 3\<rparr>"
  let ?p = "Vec3
            (vx (g_safeCenter g) + (rnd (rng st) - 0.5) * vx (g_safeSize g) * 0.4)
            (vy (g_safeCenter g) + (rnd (rng st + 1) - 0.5) * vy (g_safeSize g) * 0.4)
            (vz (g_safeCenter g) + (rnd (rng st + 2) - 0.5) * vz (g_safeSize g) * 0.4)"
  have eq: "fill_step rnd g st = try_place rnd g ?p ?st1"
    by (simp add: fill_step_def Let_def)
  have idx: "neuronIndex ?st1 = length (neurons ?st1)"
    using assms(1) by (simp add: placement_inv_def)
  show ?thesis
    unfolding eq placement_inv_def
    using try_place_index [OF idx, of rnd g ?p] try_place_attempts [of rnd g ?p ?st1] assms
    by (simp add: placement_inv_def)
qed

lemma cluster_members_inv:
  "placement_inv count st \<Longrightarrow> placement_inv count (cluster_members rnd g count cc cs n i st)"
proof (induction rnd g count cc cs n i st rule: cluster_members.induct)
  case (1 rnd g count cc cs n i st)
  show ?case
  proof (cases "int i < n \<and> neuronIndex st < count \<and> attempts st < count * 10")
    case True
    then have "placement_inv count (cluster_member rnd g cc cs st)"
      using "1.prems" by (simp add: cluster_member_inv)
    moreover have "cluster_members rnd g count cc cs n i st
          = cluster_members rnd g count cc cs n (i + 1) (cluster_member rnd g cc cs st)"
      using True by (subst cluster_members.simps) auto
    ultimately show ?thesis using "1.IH" [OF True] by simp
  next
    case False
    then have "cluster_members rnd g count cc cs n i st = st"
      by (subst cluster_members.simps) auto
    then show ?thesis using "1.prems" by simp
  qed
qed

lemma cluster_step_inv:
  assumes "placement_inv count st"
  shows "placement_inv count (cluster_step rnd g count st)"
proof -
  have "placement_inv count (st\<lparr>rng := k\<rparr>)" for k
    using assms by (simp add: placement_inv_def)
  then show ?thesis
    by (simp add: cluster_step_def Let_def cluster_members_inv)
qed

lemma cluster_loop_inv:
  "placement_inv count st \<Longrightarrow> placement_inv count (cluster_loop rnd g count c st)"
proof (induction rnd g count c st rule: cluster_loop.induct)
  case (1 rnd g count c st)
  show ?case
  proof (cases "c < count div 10 \<and> neuronIndex st < count \<and> attempts st < count * 10")
    case True
    have "placement_inv count (cluster_step rnd g count st)"
      using "1.prems" by (rule cluster_step_inv)
    moreover have "cluster_loop rnd g count c st
          = cluster_loop rnd g count (c + 1) (cluster_step rnd g count st)"
      using True by (subst cluster_loop.simps) auto
    ultimately show ?thesis using "1.IH" [OF True] by simp
  next
    case False
    then have "cluster_loop rnd g count c st = st"
      by (subst cluster_loop.simps) auto
    then show ?thesis using "1.prems" by simp
  qed
qed

lemma fill_loop_inv:
  "placement_inv count st \<Longrightarrow>
   placement_inv count (fill_loop rnd g count st)
   \<and> \<not> (neuronIndex (fill_loop rnd g count st) < count
        \<and> attempts (fill_loop rnd g count st) < count * 10)"
proof (induction rnd g count st rule: fill_loop.induct)
  case (1 rnd g count st)
  show ?case
  proof (cases "neuronIndex st < count \<and> attempts st < count * 10")
    case True
    then have "placement_inv count (fill_step rnd g st)"
      using "1.prems" by (simp add: fill_step_inv)
    moreover have "fill_loop rnd g count st = fill_loop rnd g count (fill_step rnd g st)"
      using True by (subst fill_loop.simps) auto
    ultimately show ?thesis using "1.IH" [OF True] by simp
  next
    case False
    then have "fill_loop rnd g count st = st"
      by (subst fill_loop.simps) auto
    then show ?thesis using "1.prems" False by simp
  qed
qed

lemma place_neurons_inv:
  "placement_inv count (place_neurons rnd g count k)
   \<and> \<not> (neuronIndex (place_neurons rnd g count k) < count
        \<and> attempts (place_neurons rnd g count k) < count * 10)"
  unfolding place_neurons_def
  by (rule fill_loop_inv, rule cluster_loop_inv) (simp add: placement_inv_def)

section \<open>Properties of the connection phase\<close>

lemma map_push_connection:
  "map n_position (ns[i := push_connection s (ns ! i)]) = map n_position ns"
  "map n_axonEnd (ns[i := push_connection s (ns ! i)]) = map n_axonEnd ns"
proof -
  show "map n_position (ns[i := push_connection s (ns ! i)]) = map n_position ns"
  proof (cases "i < length ns")
    case True
    then show ?thesis
      by (simp add: map_update list_update_same_conv push_connection_def)
  next
    case False
    then have "length ns \<le> i" by simp
    then show ?thesis by (simp add: list_update_beyond)
  qed
  show "map n_axonEnd (ns[i := push_connection s (ns ! i)]) = map n_axonEnd ns"
  proof (cases "i < length ns")
    case True
    then show ?thesis
      by (simp add: map_update list_update_same_conv push_connection_def)
  next
    case False
    then have "length ns \<le> i" by simp
    then show ?thesis by (simp add: list_update_beyond)
  qed
qed

lemma map_push_two:
  assumes "i \<noteq> j"
  shows "map n_position (ns[i := push_connection s (ns ! i), j := push_connection s (ns ! j)])
           = map n_position ns"
    and "map n_axonEnd (ns[i := push_connection s (ns ! i), j := push_connection s (ns ! j)])
           = map n_axonEnd ns"
proof -
  let ?ns1 = "ns[i := push_connection s (ns ! i)]"
  have nth: "?ns1 ! j = ns ! j" using assms by simp
  have "map n_position (?ns1[j := push_connection s (?ns1 ! j)]) = map n_position ns"
    by (simp only: map_push_connection)
  then show "map n_position (ns[i := push_connection s (ns ! i), j := push_connection s (ns ! j)])
           = map n_position ns"
    by (simp only: nth)
  have "map n_axonEnd (?ns1[j := push_connection s (?ns1 ! j)]) = map n_axonEnd ns"
    by (simp only: map_push_connection)
  then show "map n_axonEnd (ns[i := push_connection s (ns ! i), j := push_connection s (ns ! j)])
           = map n_axonEnd ns"
    by (simp only: nth)
qed

lemma connect_pair_frame:
  "length (net_neurons (connect_pair rnd M p i j net)) = length (net_neurons net)
   \<and> map n_position (net_neurons (connect_pair rnd M p i j net)) = map n_position (net_neurons net)
   \<and> map n_axonEnd (net_neurons (connect_pair rnd M p i j net)) = map n_axonEnd (net_neurons net)
   \<and> net_attempts (connect_pair rnd M p i j net) = net_attempts net"
  by (simp add: connect_pair_def Let_def map_push_two split: option.splits)

lemma pair_admitted_cong:
  assumes len: "length ns' = length ns"
    and pos: "map n_position ns' = map n_position ns"
    and ax: "map n_axonEnd ns' = map n_axonEnd ns"
  shows "pair_admitted rnd M p ns' l = pair_admitted rnd M p ns l"
proof -
  have p: "n_position (ns' ! t) = n_position (ns ! t)" if "t < length ns" for t
    using that len pos by (metis nth_map)
  have a: "n_axonEnd (ns' ! t) = n_axonEnd (ns ! t)" if "t < length ns" for t
    using that len ax by (metis nth_map)
  show ?thesis
  proof (cases "link_source l < length ns \<and> link_target l < length ns")
    case True
    then have e1: "n_position (ns' ! link_target l) = n_position (ns ! link_target l)"
      and e2: "n_axonEnd (ns' ! link_source l) = n_axonEnd (ns ! link_source l)"
      using p a by simp_all
    show ?thesis unfolding pair_admitted_def len e1 e2 by (rule refl)
  next
    case False
    then show ?thesis using len by (auto simp add: pair_admitted_def)
  qed
qed

lemma connect_pair_links:
  assumes i: "i < length (net_neurons net)" and j: "j < length (net_neurons net)"
    and old: "\<forall>l \<in> set (net_links net). pair_admitted rnd M p (net_neurons net) l"
  shows "\<forall>l \<in> set (net_links (connect_pair rnd M p i j net)).
           pair_admitted rnd M p (net_neurons (connect_pair rnd M p i j net)) l"
proof -
  have "\<forall>l \<in> set (net_links (connect_pair rnd M p i j net)).
           pair_admitted rnd M p (net_neurons net) l"
    using i j old
    by (auto simp add: connect_pair_def Let_def pair_admitted_def createSynapse_def
        split: option.splits)
  moreover have "pair_admitted rnd M p (net_neurons (connect_pair rnd M p i j net)) l
        = pair_admitted rnd M p (net_neurons net) l" for l
    using connect_pair_frame [of rnd M p i j net] by (intro pair_admitted_cong) simp_all
  ultimately show ?thesis by simp
qed

lemma connect_targets_inv:
  assumes "i < length (net_neurons net)" and "\<forall>j \<in> set js. j < length (net_neurons net)"
    and "\<forall>l \<in> set (net_links net). pair_admitted rnd M p (net_neurons net) l"
  shows "length (net_neurons (connect_targets rnd M p i js net)) = length (net_neurons net)
       \<and> net_attempts (connect_targets rnd M p i js net) = net_attempts net
       \<and> (\<forall>l \<in> set (net_links (connect_targets rnd M p i js net)).
            pair_admitted rnd M p (net_neurons (connect_targets rnd M p i js net)) l)"
  using assms
proof (induction js arbitrary: net)
  case Nil
  then show ?case by simp
next
  case (Cons j js)
  let ?net1 = "connect_pair rnd M p i j net"
  have fr: "length (net_neurons ?net1) = length (net_neurons net)"
    "net_attempts ?net1 = net_attempts net"
    using connect_pair_frame [of rnd M p i j net] by simp_all
  have j: "j < length (net_neurons net)" using Cons.prems(2) by simp
  have links: "\<forall>l \<in> set (net_links ?net1). pair_admitted rnd M p (net_neurons ?net1) l"
    using Cons.prems(1) j Cons.prems(3) by (rule connect_pair_links)
  have "length (net_neurons (connect_targets rnd M p i js ?net1)) = length (net_neurons ?net1)
       \<and> net_attempts (connect_targets rnd M p i js ?net1) = net_attempts ?net1
       \<and> (\<forall>l \<in> set (net_links (connect_targets rnd M p i js ?net1)).
            pair_admitted rnd M p (net_neurons (connect_targets rnd M p i js ?net1)) l)"
    using Cons.prems(1,2) fr links by (intro Cons.IH) simp_all
  then show ?case using fr by simp
qed

lemma connect_sources_inv:
  assumes "\<forall>i \<in> set is. i < length (net_neurons net)" and "n = length (net_neurons net)"
    and "\<forall>l \<in> set (net_links net). pair_admitted rnd M p (net_neurons net) l"
  shows "length (net_neurons (connect_sources rnd M p n is net)) = length (net_neurons net)
       \<and> net_attempts (connect_sources rnd M p n is net) = net_attempts net
       \<and> (\<forall>l \<in> set (net_links (connect_sources rnd M p n is net)).
            pair_admitted rnd M p (net_neurons (connect_sources rnd M p n is net)) l)"
  using assms
proof (induction "is" arbitrary: net)
  case Nil
  then show ?case by simp
next
  case (Cons i "is")
  let ?net1 = "connect_targets rnd M p i [0..<n] net"
  have i: "i < length (net_neurons net)" using Cons.prems(1) by simp
  have js: "\<forall>j \<in> set [0..<n]. j < length (net_neurons net)" using Cons.prems(2) by simp
  have t: "length (net_neurons ?net1) = length (net_neurons net)
       \<and> net_attempts ?net1 = net_attempts net
       \<and> (\<forall>l \<in> set (net_links ?net1). pair_admitted rnd M p (net_neurons ?net1) l)"
    using i js Cons.prems(3) by (rule connect_targets_inv)
  have "length (net_neurons (connect_sources rnd M p n is ?net1)) = length (net_neurons ?net1)
       \<and> net_attempts (connect_sources rnd M p n is ?net1) = net_attempts ?net1
       \<and> (\<forall>l \<in> set (net_links (connect_sources rnd M p n is ?net1)).
            pair_admitted rnd M p (net_neurons (connect_sources rnd M p n is ?net1)) l)"
    using Cons.prems(1,2) t by (intro Cons.IH) simp_all
  then show ?case using t by simp
qed

lemma createNeuronNetwork_frame:
  "length (net_neurons (createNeuronNetwork rnd brainBox count p k))
     = length (neurons (place_neurons rnd (network_geometry brainBox) count k))
   \<and> net_attempts (createNeuronNetwork rnd brainBox count p k)
     = attempts (place_neurons rnd (network_geometry brainBox) count k)
   \<and> (\<forall>l \<in> set (net_links (createNeuronNetwork rnd brainBox count p k)).
        pair_admitted rnd (g_maxDistance (network_geometry brainBox)) p
          (net_neurons (createNeuronNetwork rnd brainBox count p k)) l)"
proof -
  let ?g = "network_geometry brainBox"
  let ?placed = "place_neurons rnd ?g count k"
  let ?n = "length (neurons ?placed)"
  let ?net0 = "\<lparr>net_neurons = neurons ?placed, net_links = [], net_attempts = attempts ?placed,
            net_rng = rng ?placed\<rparr>"
  have "length (net_neurons (connect_sources rnd (g_maxDistance ?g) p ?n [0..<?n] ?net0))
          = length (net_neurons ?net0)
       \<and> net_attempts (connect_sources rnd (g_maxDistance ?g) p ?n [0..<?n] ?net0) = net_attempts ?net0
       \<and> (\<forall>l \<in> set (net_links (connect_sources rnd (g_maxDistance ?g) p ?n [0..<?n] ?net0)).
            pair_admitted rnd (g_maxDistance ?g) p
              (net_neurons (connect_sources rnd (g_maxDistance ?g) p ?n [0..<?n] ?net0)) l)"
    by (rule connect_sources_inv) simp_all
  then show ?thesis by (simp add: createNeuronNetwork_def Let_def)
qed

lemma maxDistance_geometry:
  "g_maxDistance (network_geometry brainBox)
     = 0.4 * min (vx (getSize (network_box brainBox)))
               (min (vy (getSize (network_box brainBox))) (vz (getSize (network_box brainBox))))"
  by (simp add: network_geometry_def Let_def)

text \<open>
  Claim C4. In every network that \<open>createNeuronNetwork\<close> builds, every synapse belongs to
  an ordered pair of two different neurons of the network whose distance, from the
  source's axon end to the target's position, is strictly below maxDistance, which is
  0.4 times the smallest side of the bounding box; and the synapse's draw was below the
  connection probability computed for that distance.
\<close>

theorem createNeuronNetwork_synapse_distance:
  "\<forall>l \<in> set (net_links (createNeuronNetwork rnd brainBox count p k)).
     link_source l < length (net_neurons (createNeuronNetwork rnd brainBox count p k))
   \<and> link_target l < length (net_neurons (createNeuronNetwork rnd brainBox count p k))
   \<and> link_source l \<noteq> link_target l
   \<and> (\<exists>a. n_axonEnd (net_neurons (createNeuronNetwork rnd brainBox count p k) ! link_source l) = Some a
        \<and> syn_from (link_synapse l) = a
        \<and> distanceTo a (n_position (net_neurons (createNeuronNetwork rnd brainBox count p k) ! link_target l))
            < 0.4 * min (vx (getSize (network_box brainBox)))
                      (min (vy (getSize (network_box brainBox))) (vz (getSize (network_box brainBox))))
        \<and> rnd (link_draw l)
            < calculateConnectionProbability
                (distanceTo a (n_position (net_neurons (createNeuronNetwork rnd brainBox count p k) ! link_target l)))
                (0.4 * min (vx (getSize (network_box brainBox)))
                      (min (vy (getSize (network_box brainBox))) (vz (getSize (network_box brainBox)))))
                p)"
proof
  fix l
  assume "l \<in> set (net_links (createNeuronNetwork rnd brainBox count p k))"
  then have "pair_admitted rnd (g_maxDistance (network_geometry brainBox)) p
          (net_neurons (createNeuronNetwork rnd brainBox count p k)) l"
    using createNeuronNetwork_frame [of rnd brainBox count p k] by simp
  then show "link_source l < length (net_neurons (createNeuronNetwork rnd brainBox count p k))
   \<and> link_target l < length (net_neurons (createNeuronNetwork rnd brainBox count p k))
   \<and> link_source l \<noteq> link_target l
   \<and> (\<exists>a. n_axonEnd (net_neurons (createNeuronNetwork rnd brainBox count p k) ! link_source l) = Some a
        \<and> syn_from (link_synapse l) = a
        \<and> distanceTo a (n_position (net_neurons (createNeuronNetwork rnd brainBox count p k) ! link_target l))
            < 0.4 * min (vx (getSize (network_box brainBox)))
                      (min (vy (getSize (network_box brainBox))) (vz (getSize (network_box brainBox))))
        \<and> rnd (link_draw l)
            < calculateConnectionProbability
                (distanceTo a (n_position (net_neurons (createNeuronNetwork rnd brainBox count p k) ! link_target l)))
                (0.4 * min (vx (getSize (network_box brainBox)))
                      (min (vy (getSize (network_box brainBox))) (vz (getSize (network_box brainBox)))))
                p)"
    unfolding maxDistance_geometry pair_admitted_def
    by (auto split: option.splits)
qed

text \<open>
  Claim C10. For every requested count \<open>createNeuronNetwork\<close> makes at most 10 * count
  placement attempts and returns a network of at most count neurons; the placement loops
  are total functions (their termination is proved with their definitions). When fewer
  than count neurons were accepted the attempt cap was reached, attempts = 10 * count, and
  the smaller network is the result.
\<close>

theorem createNeuronNetwork_attempts:
  "net_attempts (createNeuronNetwork rnd brainBox count p k) \<le> 10 * count
   \<and> length (net_neurons (createNeuronNetwork rnd brainBox count p k)) \<le> count
   \<and> (length (net_neurons (createNeuronNetwork rnd brainBox count p k)) < count
        \<longrightarrow> net_attempts (createNeuronNetwork rnd brainBox count p k) = 10 * count)"
proof -
  let ?placed = "place_neurons rnd (network_geometry brainBox) count k"
  have fr: "length (net_neurons (createNeuronNetwork rnd brainBox count p k)) = length (neurons ?placed)"
    "net_attempts (createNeuronNetwork rnd brainBox count p k) = attempts ?placed"
    using createNeuronNetwork_frame [of rnd brainBox count p k] by simp_all
  have "placement_inv count ?placed
      \<and> \<not> (neuronIndex ?placed < count \<and> attempts ?placed < count * 10)"
    by (rule place_neurons_inv)
  then show ?thesis
    unfolding fr placement_inv_def by auto
qed

section \<open>Two concrete networks\<close>

lemma fill_loop_rejecting:
  "(\<And>st. neurons (fill_step rnd g st) = neurons st) \<Longrightarrow>
   neurons (fill_loop rnd g count st) = neurons st"
proof (induction rnd g count st rule: fill_loop.induct)
  case (1 rnd g count st)
  show ?case
  proof (cases "neuronIndex st < count \<and> attempts st < count * 10")
    case True
    then have "fill_loop rnd g count st = fill_loop rnd g count (fill_step rnd g st)"
      by (subst fill_loop.simps) auto
    then show ?thesis using "1.IH" [OF True "1.prems"] "1.prems" by simp
  next
    case False
    then have "fill_loop rnd g count st = st"
      by (subst fill_loop.simps) auto
    then show ?thesis by simp
  qed
qed

lemma small_box_geometry:
  "network_geometry (Some small_box) =
     \<lparr>g_box = small_box, g_maxDistance = 0.2, g_margin = 0.14,
      g_safeBox = \<lparr>bmin = Vec3 (- 0.11) (- 0.06) (- 0.11), bmax = Vec3 0.11 0.16 0.11\<rparr>,
      g_safeCenter = Vec3 0 0.05 0, g_safeSize = Vec3 0.22 0.22 0.22\<rparr>"
  by (simp add: network_geometry_def network_box_def small_box_def getSize_def getCenter_def
      isEmpty_def addScalar_def subScalar_def vsub_def vadd_def multiplyScalar_def Let_def)

lemma small_box_axon:
  "pos = Vec3 (- 0.044) 0.006 (- 0.044) \<Longrightarrow>
   n_axonEnd (fst (createNeuron zero_draws pos sz no_options (Some small_box) k))
     = Some (Vec3 (- 0.044) (- 0.1588) (- 0.044))"
  by (simp add: createNeuron_def axon_part_def Let_def no_options_def zero_draws_def
      randomDirection_def normalize_def vlength_def divideScalar_def multiplyScalar_def vadd_def
      clip_length_def limit_length_def getMaxSafeDistance_def axis_limit_def min_inf_def
      in_bounds_def isPointInSafeBox_def small_box_def)

lemma try_place_reject:
  assumes "\<not> axonEnd_safe (n_axonEnd (fst (createNeuron rnd pos 0.01 no_options (Some (g_box g)) (rng st))))
             (g_box g) (g_margin g)"
  shows "neurons (try_place rnd g pos st) = neurons st"
  using assms by (simp add: try_place_def Let_def)

lemma small_box_rejects:
  "neurons (fill_step zero_draws (network_geometry (Some small_box)) st) = neurons st"
proof -
  let ?g = "network_geometry (Some small_box)"
  have fs: "fill_step zero_draws ?g st
      = try_place zero_draws ?g (Vec3 (- 0.044) 0.006 (- 0.044))
          (st\<lparr>attempts := attempts st + 1, rng := rng st + 3\<rparr>)"
    by (simp add: fill_step_def Let_def small_box_geometry zero_draws_def)
  have "neurons (try_place zero_draws ?g (Vec3 (- 0.044) 0.006 (- 0.044))
          (st\<lparr>attempts := attempts st + 1, rng := rng st + 3\<rparr>))
        = neurons (st\<lparr>attempts := attempts st + 1, rng := rng st + 3\<rparr>)"
    by (rule try_place_reject)
      (simp add: small_box_geometry small_box_axon,
        simp add: axonEnd_safe_def isPointInSafeBox_def small_box_def)
  then show ?thesis unfolding fs by simp
qed

theorem createNeuronNetwork_attempts_witness:
  "length (net_neurons (createNeuronNetwork zero_draws (Some small_box) 5 0.3 0)) = 0
   \<and> (0::nat) < 5
   \<and> net_attempts (createNeuronNetwork zero_draws (Some small_box) 5 0.3 0) = 50"
proof -
  let ?g = "network_geometry (Some small_box)"
  have cl: "cluster_loop zero_draws ?g 5 0 st = st" for st
    by (subst cluster_loop.simps) simp
  have "neurons (place_neurons zero_draws ?g 5 0) = []"
    unfolding place_neurons_def cl
    using fill_loop_rejecting [of zero_draws ?g, OF small_box_rejects] by simp
  then have len: "length (net_neurons (createNeuronNetwork zero_draws (Some small_box) 5 0.3 0)) = 0"
    using createNeuronNetwork_frame [of zero_draws "Some small_box" 5 "0.3" 0] by simp
  show ?thesis
    using len createNeuronNetwork_attempts [of zero_draws "Some small_box" 5 "0.3" 0] by simp
qed

lemma connect_pair_links_grow:
  "length (net_links net) \<le> length (net_links (connect_pair rnd M p i j net))"
  by (simp add: connect_pair_def Let_def split: option.splits)

lemma connect_targets_links_grow:
  "length (net_links net) \<le> length (net_links (connect_targets rnd M p i js net))"
proof (induction js arbitrary: net)
  case Nil
  show ?case by simp
next
  case (Cons j js)
  have "length (net_links net) \<le> length (net_links (connect_pair rnd M p i j net))"
    by (rule connect_pair_links_grow)
  also have "\<dots> \<le> length (net_links (connect_targets rnd M p i js (connect_pair rnd M p i j net)))"
    by (rule Cons.IH)
  finally show ?case by simp
qed

lemma connect_sources_links_grow:
  "length (net_links net) \<le> length (net_links (connect_sources rnd M p n is net))"
proof (induction "is" arbitrary: net)
  case Nil
  show ?case by simp
next
  case (Cons i "is")
  have "length (net_links net) \<le> length (net_links (connect_targets rnd M p i [0..<n] net))"
    by (rule connect_targets_links_grow)
  also have "\<dots> \<le> length (net_links (connect_sources rnd M p n is
                  (connect_targets rnd M p i [0..<n] net)))"
    by (rule Cons.IH)
  finally show ?case by simp
qed

lemma connect_pair_creates:
  assumes "i \<noteq> j" and "n_axonEnd (net_neurons net ! i) = Some a"
    and "rnd (net_rng net) < calculateConnectionProbability (distanceTo a (n_position (net_neurons net ! j))) M p"
    and "distanceTo a (n_position (net_neurons net ! j)) < M"
  shows "length (net_links (connect_pair rnd M p i j net)) = length (net_links net) + 1"
  using assms by (simp add: connect_pair_def Let_def)

lemma default_geometry:
  "network_geometry None =
     \<lparr>g_box = cube2, g_maxDistance = 0.8, g_margin = 0.56,
      g_safeBox = \<lparr>bmin = Vec3 (- 0.44) (- 0.24) (- 0.44), bmax = Vec3 0.44 0.64 0.44\<rparr>,
      g_safeCenter = Vec3 0 0.2 0, g_safeSize = Vec3 0.88 0.88 0.88\<rparr>"
  by (simp add: network_geometry_def network_box_def setFromCenterAndSize_def cube2_def
      getSize_def getCenter_def isEmpty_def addScalar_def subScalar_def vsub_def vadd_def
      multiplyScalar_def Let_def)

lemma default_axon:
  "pos = Vec3 (- 0.176) 0.024 (- 0.176) \<Longrightarrow>
   n_axonEnd (fst (createNeuron zero_draws pos sz no_options (Some cube2) k))
     = Some (Vec3 (- 0.176) (- 0.176) (- 0.176))"
  by (simp add: createNeuron_def axon_part_def Let_def no_options_def zero_draws_def
      randomDirection_def normalize_def vlength_def divideScalar_def multiplyScalar_def vadd_def
      clip_length_def limit_length_def getMaxSafeDistance_def axis_limit_def min_inf_def
      in_bounds_def isPointInSafeBox_def cube2_def)

lemma createNeuron_position:
  "n_position (fst (createNeuron rnd pos sz opts box k)) = pos"
  by (simp add: createNeuron_def Let_def)

lemma try_place_accept:
  assumes "containsPoint (g_safeBox g) pos" and "containsPoint (g_box g) pos"
    and "axonEnd_safe (n_axonEnd (fst (createNeuron rnd pos 0.01 no_options (Some (g_box g)) (rng st))))
             (g_box g) (g_margin g)"
  shows "neurons (try_place rnd g pos st)
           = neurons st @ [fst (createNeuron rnd pos 0.01 no_options (Some (g_box g)) (rng st))]
       \<and> neuronIndex (try_place rnd g pos st) = neuronIndex st + 1
       \<and> attempts (try_place rnd g pos st) = attempts st"
  using assms by (simp add: try_place_def Let_def)

lemma default_accepts:
  "\<exists>nr. neurons (fill_step zero_draws (network_geometry None) st) = neurons st @ [nr]
        \<and> n_position nr = Vec3 (- 0.176) 0.024 (- 0.176)
        \<and> n_axonEnd nr = Some (Vec3 (- 0.176) (- 0.176) (- 0.176))
        \<and> neuronIndex (fill_step zero_draws (network_geometry None) st) = neuronIndex st + 1
        \<and> attempts (fill_step zero_draws (network_geometry None) st) = attempts st + 1"
proof -
  let ?g = "network_geometry None"
  let ?st1 = "st\<lparr>attempts := attempts st + 1, rng := rng st + 3\<rparr>"
  let ?pos = "Vec3 (- 0.176) 0.024 (- 0.176)"
  let ?nr = "fst (createNeuron zero_draws ?pos 0.01 no_options (Some (g_box ?g)) (rng ?st1))"
  have fs: "fill_step zero_draws ?g st = try_place zero_draws ?g ?pos ?st1"
    by (simp add: fill_step_def Let_def default_geometry zero_draws_def)
  have ax: "n_axonEnd ?nr = Some (Vec3 (- 0.176) (- 0.176) (- 0.176))"
    by (simp add: default_geometry default_axon)
  have "neurons (try_place zero_draws ?g ?pos ?st1) = neurons ?st1 @ [?nr]
       \<and> neuronIndex (try_place zero_draws ?g ?pos ?st1) = neuronIndex ?st1 + 1
       \<and> attempts (try_place zero_draws ?g ?pos ?st1) = attempts ?st1"
  proof (rule try_place_accept)
    show "containsPoint (g_safeBox ?g) ?pos"
      by (simp add: default_geometry containsPoint_def)
    show "containsPoint (g_box ?g) ?pos"
      by (simp add: default_geometry containsPoint_def cube2_def)
    show "axonEnd_safe (n_axonEnd ?nr) (g_box ?g) (g_margin ?g)"
      unfolding ax by (simp add: default_geometry axonEnd_safe_def isPointInSafeBox_def cube2_def)
  qed
  then show ?thesis
    unfolding fs using ax by (intro exI [of _ ?nr]) (simp add: createNeuron_position)
qed

lemma example_distance:
  "distanceTo (Vec3 (- 0.176) (- 0.176) (- 0.176)) (Vec3 (- 0.176) 0.024 (- 0.176)) = 0.2"
proof -
  have "sqrt (0.04) = (0.2::real)"
    by (rule real_sqrt_unique) (simp_all add: power2_eq_square)
  then show ?thesis
    by (simp add: distanceTo_def vsub_def vlength_def)
qed

theorem createNeuronNetwork_synapse_distance_witness:
  "net_links (createNeuronNetwork zero_draws None 2 0.3 0) \<noteq> []
   \<and> length (net_neurons (createNeuronNetwork zero_draws None 2 0.3 0)) = 2
   \<and> link_source (hd (net_links (createNeuronNetwork zero_draws None 2 0.3 0)))
       \<noteq> link_target (hd (net_links (createNeuronNetwork zero_draws None 2 0.3 0)))
   \<and> (\<exists>a. n_axonEnd (net_neurons (createNeuronNetwork zero_draws None 2 0.3 0)
                 ! link_source (hd (net_links (createNeuronNetwork zero_draws None 2 0.3 0)))) = Some a
        \<and> distanceTo a (n_position (net_neurons (createNeuronNetwork zero_draws None 2 0.3 0)
                 ! link_target (hd (net_links (createNeuronNetwork zero_draws None 2 0.3 0))))) < 0.8)"
proof -
  let ?g = "network_geometry None"
  let ?N = "createNeuronNetwork zero_draws None 2 0.3 0"
  let ?st0 = "\<lparr>neurons = [], neuronIndex = 0, attempts = 0, rng = 0\<rparr>"
  let ?st1 = "fill_step zero_draws ?g ?st0"
  let ?st2 = "fill_step zero_draws ?g ?st1"
  obtain nA where A: "neurons ?st1 = [nA]"
      "n_position nA = Vec3 (- 0.176) 0.024 (- 0.176)"
      "n_axonEnd nA = Some (Vec3 (- 0.176) (- 0.176) (- 0.176))"
      "neuronIndex ?st1 = 1" "attempts ?st1 = 1"
    using default_accepts [of ?st0] by auto
  obtain nB where B: "neurons ?st2 = [nA, nB]"
      "n_position nB = Vec3 (- 0.176) 0.024 (- 0.176)"
      "n_axonEnd nB = Some (Vec3 (- 0.176) (- 0.176) (- 0.176))"
      "neuronIndex ?st2 = 2" "attempts ?st2 = 2"
    using default_accepts [of ?st1] A by auto
  have cl: "cluster_loop zero_draws ?g 2 0 ?st0 = ?st0"
    by (subst cluster_loop.simps) simp
  have f0: "fill_loop zero_draws ?g 2 ?st0 = fill_loop zero_draws ?g 2 ?st1"
    by (subst fill_loop.simps) simp
  have f1: "fill_loop zero_draws ?g 2 ?st1 = fill_loop zero_draws ?g 2 ?st2"
    using A by (subst fill_loop.simps) simp
  have f2: "fill_loop zero_draws ?g 2 ?st2 = ?st2"
    using B by (subst fill_loop.simps) simp
  have placed: "neurons (place_neurons zero_draws ?g 2 0) = [nA, nB]"
    unfolding place_neurons_def cl f0 f1 f2 by (rule B(1))
  define net0 where "net0 = \<lparr>net_neurons = [nA, nB], net_links = [],
      net_attempts = attempts (place_neurons zero_draws ?g 2 0),
      net_rng = rng (place_neurons zero_draws ?g 2 0)\<rparr>"
  have two: "[0..<2] = [0, Suc 0]" by (simp add: upt_rec numeral_2_eq_2)
  have gm: "g_maxDistance ?g = 0.8"
    by (simp add: default_geometry)
  have N: "?N = connect_sources zero_draws 0.8 0.3 2 [Suc 0]
                  (connect_targets zero_draws 0.8 0.3 0 [0, Suc 0] net0)"
    by (simp add: createNeuronNetwork_def Let_def placed net0_def gm two
        del: connect_targets.simps)
  have skip: "connect_pair zero_draws M q 0 0 net0 = net0" for M q
    by (simp add: connect_pair_def)
  have prob: "zero_draws (net_rng net0) < calculateConnectionProbability 0.2 0.8 0.3"
    by (simp add: zero_draws_def calculateConnectionProbability_def)
  have tp: "n_position (net_neurons net0 ! Suc 0) = Vec3 (- 0.176) 0.024 (- 0.176)"
    by (simp add: net0_def B)
  have one: "length (net_links (connect_pair zero_draws 0.8 0.3 0 (Suc 0) net0))
               = length (net_links net0) + 1"
  proof (rule connect_pair_creates)
    show "n_axonEnd (net_neurons net0 ! 0) = Some (Vec3 (- 0.176) (- 0.176) (- 0.176))"
      by (simp add: net0_def A)
    show "zero_draws (net_rng net0)
        < calculateConnectionProbability
            (distanceTo (Vec3 (- 0.176) (- 0.176) (- 0.176)) (n_position (net_neurons net0 ! Suc 0)))
            0.8 0.3"
      unfolding tp example_distance by (rule prob)
    show "distanceTo (Vec3 (- 0.176) (- 0.176) (- 0.176)) (n_position (net_neurons net0 ! Suc 0)) < 0.8"
      unfolding tp example_distance by simp
  qed simp
  have e: "net_links net0 = []"
    by (simp add: net0_def)
  have "1 \<le> length (net_links (connect_targets zero_draws 0.8 0.3 0 [0, Suc 0] net0))"
    using one e by (simp add: skip)
  also have "\<dots> \<le> length (net_links ?N)"
    unfolding N by (rule connect_sources_links_grow)
  finally have nonempty: "net_links ?N \<noteq> []" by auto
  then have mem: "hd (net_links ?N) \<in> set (net_links ?N)" by simp
  have len: "length (net_neurons ?N) = 2"
    using createNeuronNetwork_frame [of zero_draws None 2 "0.3" 0] placed by simp
  have bound: "0.4 * min (vx (getSize (network_box None)))
                      (min (vy (getSize (network_box None))) (vz (getSize (network_box None))))
               = (0.8::real)"
    by (simp add: network_box_def setFromCenterAndSize_def getSize_def isEmpty_def vsub_def
        vadd_def multiplyScalar_def Let_def)
  show ?thesis
    using nonempty len
      createNeuronNetwork_synapse_distance [of zero_draws None 2 "0.3" 0, THEN bspec, OF mem]
    unfolding bound by blast
qed

section \<open>Properties of the signal propagation\<close>

lemma transit_timeout_lone:
  assumes "synapse_of trg = None \<or> targetNeuron trg = None"
  shows "transit_timeout mkCurve trg now m = m\<lparr>completed := True\<rparr>"
  using assms by (auto simp add: transit_timeout_def split: option.splits)

lemma sourceFlash_effect:
  "pulses (sourceFlash now soma start c i m) = pulses m
   \<and> signals (sourceFlash now soma start c i m) = signals m
   \<and> thrown (sourceFlash now soma start c i m) = thrown m
   \<and> completed (sourceFlash now soma start c i m) = completed m
   \<and> (pending (sourceFlash now soma start c i m) = pending m
      \<or> pending (sourceFlash now soma start c i m)
           = pending m @ [\<lparr>task_due = now, task_run = SourceFlashFrame soma start c i\<rparr>])"
  by (simp add: sourceFlash_def flash_body_def request_frame_def Let_def)

lemma first_stage_callback:
  assumes lone: "synapse_of trg = None \<or> targetNeuron trg = None"
    and fs: "first_stage job"
  shows "pulses (run_callback mkCurve trg now job m) = pulses m
   \<and> signals (run_callback mkCurve trg now job m) = signals m
   \<and> thrown (run_callback mkCurve trg now job m) = thrown m
   \<and> (completed (run_callback mkCurve trg now job m) = (completed m \<or> job = TransitTimeout))
   \<and> (\<exists>new. pending (run_callback mkCurve trg now job m) = pending m @ new
          \<and> list_all (\<lambda>t. first_stage (task_run t) \<and> task_run t \<noteq> TransitTimeout) new)"
proof (cases job)
  case (SourceFlashFrame soma start c i)
  show ?thesis
    using sourceFlash_effect [of now soma start c i m]
    unfolding SourceFlashFrame run_callback.simps by auto
next
  case TransitTimeout
  show ?thesis
    unfolding TransitTimeout run_callback.simps transit_timeout_lone [OF lone] by simp
qed (use fs in simp_all)

lemma run_due_first_stage:
  assumes lone: "synapse_of trg = None \<or> targetNeuron trg = None"
  shows "list_all (\<lambda>t. first_stage (task_run t)) ds \<Longrightarrow>
   pulses (run_due mkCurve trg now ds m) = pulses m
   \<and> signals (run_due mkCurve trg now ds m) = signals m
   \<and> thrown (run_due mkCurve trg now ds m) = thrown m
   \<and> (completed (run_due mkCurve trg now ds m)
        = (completed m \<or> list_ex (\<lambda>t. task_run t = TransitTimeout) ds))
   \<and> (\<exists>new. pending (run_due mkCurve trg now ds m) = pending m @ new
          \<and> list_all (\<lambda>t. first_stage (task_run t) \<and> task_run t \<noteq> TransitTimeout) new)"
proof (induction ds arbitrary: m)
  case Nil
  show ?case by simp
next
  case (Cons t ds)
  let ?m1 = "run_callback mkCurve trg now (task_run t) m"
  from Cons.prems have fs: "first_stage (task_run t)"
    and rest: "list_all (\<lambda>t. first_stage (task_run t)) ds" by simp_all
  note one = first_stage_callback [OF lone fs, of mkCurve now m]
  note more = Cons.IH [OF rest, of ?m1]
  from one obtain new1 where n1: "pending ?m1 = pending m @ new1"
    "list_all (\<lambda>t. first_stage (task_run t) \<and> task_run t \<noteq> TransitTimeout) new1" by blast
  from more obtain new2 where n2: "pending (run_due mkCurve trg now ds ?m1) = pending ?m1 @ new2"
    "list_all (\<lambda>t. first_stage (task_run t) \<and> task_run t \<noteq> TransitTimeout) new2" by blast
  have p: "pending (run_due mkCurve trg now (t # ds) m) = pending m @ (new1 @ new2)
      \<and> list_all (\<lambda>t. first_stage (task_run t) \<and> task_run t \<noteq> TransitTimeout) (new1 @ new2)"
    using n1 n2 by simp
  have a: "pulses (run_due mkCurve trg now (t # ds) m) = pulses m"
    "signals (run_due mkCurve trg now (t # ds) m) = signals m"
    "thrown (run_due mkCurve trg now (t # ds) m) = thrown m"
    using one more by simp_all
  have c: "completed (run_due mkCurve trg now (t # ds) m)
        = (completed m \<or> list_ex (\<lambda>t. task_run t = TransitTimeout) (t # ds))"
    using one more by simp
  from p have "\<exists>new. pending (run_due mkCurve trg now (t # ds) m) = pending m @ new
          \<and> list_all (\<lambda>t. first_stage (task_run t) \<and> task_run t \<noteq> TransitTimeout) new"
    by (rule exI)
  then show ?case using a c by blast
qed
lemma turn_first_stage:
  assumes lone: "synapse_of trg = None \<or> targetNeuron trg = None"
    and q: "quiet m" and k: "completed m \<or> armed d m"
  shows "quiet (turn mkCurve trg now m)
       \<and> (completed (turn mkCurve trg now m) \<or> armed d (turn mkCurve trg now m))
       \<and> completed (turn mkCurve trg now m) = (completed m \<or> d \<le> now)"
proof -
  let ?due = "filter (\<lambda>t. task_due t \<le> now) (pending m)"
  let ?rest = "filter (\<lambda>t. \<not> task_due t \<le> now) (pending m)"
  let ?m' = "m\<lparr>pending := ?rest\<rparr>"
  have fs: "list_all (\<lambda>t. first_stage (task_run t)) (pending m)"
    using q by (simp add: quiet_def)
  then have fs_due: "list_all (\<lambda>t. first_stage (task_run t)) ?due"
    and fs_rest: "list_all (\<lambda>t. first_stage (task_run t)) ?rest"
    by (simp_all add: list_all_iff)
  note r = run_due_first_stage [OF lone fs_due, of mkCurve now ?m']
  have t: "turn mkCurve trg now m = run_due mkCurve trg now ?due ?m'"
    by (simp add: turn_def)
  from r obtain new where new: "pending (turn mkCurve trg now m) = ?rest @ new"
    "list_all (\<lambda>t. first_stage (task_run t) \<and> task_run t \<noteq> TransitTimeout) new"
    unfolding t by auto
  have quiet': "quiet (turn mkCurve trg now m)"
    using q r new fs_rest unfolding t by (auto simp add: quiet_def list_all_iff)
  have comp: "completed (turn mkCurve trg now m)
        = (completed m \<or> list_ex (\<lambda>t. task_run t = TransitTimeout) ?due)"
    using r unfolding t by simp
  have due_iff: "list_ex (\<lambda>t. task_run t = TransitTimeout) ?due = (d \<le> now)" if a: "armed d m"
    using a by (auto simp add: armed_def list_ex_iff list_all_iff)
  have c: "completed (turn mkCurve trg now m) = (completed m \<or> d \<le> now)"
  proof (cases "completed m")
    case True
    then show ?thesis using comp by simp
  next
    case False
    with k have "armed d m" by simp
    then show ?thesis using comp due_iff False by simp
  qed
  have "armed d (turn mkCurve trg now m)" if nc: "\<not> completed (turn mkCurve trg now m)"
  proof -
    from nc c have ncm: "\<not> completed m" and late: "\<not> d \<le> now" by simp_all
    with k have a: "armed d m" by simp
    show ?thesis
      using a late new unfolding armed_def
      by (auto simp add: list_ex_iff list_all_iff)
  qed
  then show ?thesis using quiet' c by blast
qed

lemma run_turns_first_stage:
  assumes lone: "synapse_of trg = None \<or> targetNeuron trg = None"
  shows "quiet m \<Longrightarrow> completed m \<or> armed d m \<Longrightarrow>
     quiet (run_turns mkCurve trg nows m)
     \<and> completed (run_turns mkCurve trg nows m) = (completed m \<or> list_ex (\<lambda>t. d \<le> t) nows)"
proof (induction nows arbitrary: m)
  case Nil
  then show ?case by simp
next
  case (Cons now nows)
  note t = turn_first_stage [OF lone Cons.prems, of mkCurve now]
  from t have q: "quiet (turn mkCurve trg now m)" by blast
  from t have k: "completed (turn mkCurve trg now m) \<or> armed d (turn mkCurve trg now m)"
    by blast
  from t have c: "completed (turn mkCurve trg now m) = (completed m \<or> d \<le> now)"
    by blast
  show ?case
    using Cons.IH [OF q k] c by auto
qed

lemma animateNeuralSignalPropagation_starts:
  assumes "sourceNeuron trg = Some src" and "userData_soma src = Some somaOpt"
    and "scene_arg trg \<noteq> None \<or> window_scene trg \<noteq> None"
  shows "\<exists>m0. animateNeuralSignalPropagation trg now store = Some m0
          \<and> quiet m0 \<and> armed (now + 75) m0 \<and> \<not> completed m0"
proof (cases somaOpt)
  case None
  then show ?thesis
    using assms
    by (auto simp add: animateNeuralSignalPropagation_def set_timeout_def quiet_def armed_def
        split: option.splits)
next
  case (Some soma)
  let ?m0 = "\<lparr>somas = store, pulses = [], signals = [], completed = False,
                          pending = [], thrown = False\<rparr>"
  note e = sourceFlash_effect [of now soma now "soma_emissive (store soma)"
      "soma_emissiveIntensity (store soma)" ?m0]
  let ?m1 = "sourceFlash now soma now (soma_emissive (store soma))
      (soma_emissiveIntensity (store soma)) ?m0"
  have "animateNeuralSignalPropagation trg now store = Some (set_timeout now 75 TransitTimeout ?m1)"
    using assms Some
    by (auto simp add: animateNeuralSignalPropagation_def Let_def split: option.splits)
  moreover have "quiet (set_timeout now 75 TransitTimeout ?m1)
      \<and> armed (now + 75) (set_timeout now 75 TransitTimeout ?m1)
      \<and> \<not> completed (set_timeout now 75 TransitTimeout ?m1)"
    using e by (auto simp add: set_timeout_def quiet_def armed_def)
  ultimately show ?thesis by blast
qed

text \<open>
  Claim C9. When the source neuron and the scene are there and the trigger has no synapse
  or no target, the animation starts and, however the event loop then takes its turns,
  no signal pulse is ever created, nothing is thrown, and only callbacks of the first
  stage (the source flash and its timeout) ever wait or run: the synapse transit and
  the target flash never start. The animation is marked complete by the first timeout:
  it is complete exactly when a turn took place 75 ms or more after the trigger.
\<close>

theorem signal_without_synapse_or_target:
  assumes "sourceNeuron trg = Some src" and "userData_soma src = Some somaOpt"
    and "scene_arg trg \<noteq> None \<or> window_scene trg \<noteq> None"
    and "synapse_of trg = None \<or> targetNeuron trg = None"
  shows "\<exists>m0. animateNeuralSignalPropagation trg now store = Some m0
          \<and> \<not> completed m0 \<and> pulses m0 = [] \<and> signals m0 = []
          \<and> (\<forall>nows. pulses (run_turns mkCurve trg nows m0) = []
                  \<and> signals (run_turns mkCurve trg nows m0) = []
                  \<and> \<not> thrown (run_turns mkCurve trg nows m0)
                  \<and> (\<forall>t \<in> set (pending (run_turns mkCurve trg nows m0)). first_stage (task_run t))
                  \<and> completed (run_turns mkCurve trg nows m0) = (\<exists>t \<in> set nows. now + 75 \<le> t))"
proof -
  from animateNeuralSignalPropagation_starts [OF assms(1-3), of now store]
  obtain m0 where m0: "animateNeuralSignalPropagation trg now store = Some m0"
    and q: "quiet m0" and a: "armed (now + 75) m0" and nc: "\<not> completed m0"
    by blast
  have "pulses (run_turns mkCurve trg nows m0) = []
                  \<and> signals (run_turns mkCurve trg nows m0) = []
                  \<and> \<not> thrown (run_turns mkCurve trg nows m0)
                  \<and> (\<forall>t \<in> set (pending (run_turns mkCurve trg nows m0)). first_stage (task_run t))
                  \<and> completed (run_turns mkCurve trg nows m0) = (\<exists>t \<in> set nows. now + 75 \<le> t)"
    for nows
    using run_turns_first_stage [OF assms(4) q, of "now + 75" mkCurve nows] a nc
    by (simp add: quiet_def list_all_iff list_ex_iff)
  then show ?thesis using m0 nc q by (auto simp add: quiet_def)
qed

theorem signal_without_synapse_or_target_witness:
  "sourceNeuron lone_trigger = Some \<lparr>userData_soma = Some (Some 0)\<rparr>
   \<and> scene_arg lone_trigger = Some 0
   \<and> synapse_of lone_trigger = None
   \<and> (\<exists>m0. animateNeuralSignalPropagation lone_trigger 1000 example_somas = Some m0
        \<and> pending m0 \<noteq> []
        \<and> \<not> completed (run_turns straight_curve lone_trigger [1016, 1033] m0)
        \<and> completed (run_turns straight_curve lone_trigger [1016, 1033, 1080] m0)
        \<and> pulses (run_turns straight_curve lone_trigger [1016, 1033, 1080] m0) = [])"
proof -
  have s: "sourceNeuron lone_trigger = Some \<lparr>userData_soma = Some (Some 0)\<rparr>"
    and u: "userData_soma \<lparr>userData_soma = Some (Some 0)\<rparr> = Some (Some 0)"
    and sc: "scene_arg lone_trigger \<noteq> None \<or> window_scene lone_trigger \<noteq> None"
    and l: "synapse_of lone_trigger = None \<or> targetNeuron lone_trigger = None"
    by (simp_all add: lone_trigger_def)
  from signal_without_synapse_or_target [OF s u sc l, of 1000 example_somas straight_curve]
  obtain m0 where m0: "animateNeuralSignalPropagation lone_trigger 1000 example_somas = Some m0"
    and runs: "\<And>nows. pulses (run_turns straight_curve lone_trigger nows m0) = []
        \<and> completed (run_turns straight_curve lone_trigger nows m0) = (\<exists>t \<in> set nows. 1000 + 75 \<le> t)"
    by blast
  have p: "pending m0 \<noteq> []"
    using m0
    by (auto simp add: animateNeuralSignalPropagation_def lone_trigger_def set_timeout_def
        Let_def)
  show ?thesis
    using m0 p runs [of "[1016, 1033]"] runs [of "[1016, 1033, 1080]"]
    by (simp add: lone_trigger_def)
qed

section \<open>Properties of the signal pulse\<close>

lemma flash_body_pulses:
  "pulses (flash_body now soma start c i dur hex gain again marks m) = pulses m
   \<and> (pending (flash_body now soma start c i dur hex gain again marks m) = pending m
      \<or> pending (flash_body now soma start c i dur hex gain again marks m)
           = pending m @ [\<lparr>task_due = now, task_run = again\<rparr>])"
  by (simp add: flash_body_def request_frame_def Let_def)

lemma bystander_callback:
  assumes "bystander job"
  shows "pulses (run_callback mkCurve trg now job m) = pulses m
   \<and> (\<exists>new. pending (run_callback mkCurve trg now job m) = pending m @ new
          \<and> list_all (\<lambda>t. bystander (task_run t)) new)"
proof (cases job)
  case (SourceFlashFrame soma start c i)
  show ?thesis
    using flash_body_pulses [of now soma start c i 75 35071 "0.8"
        "SourceFlashFrame soma start c i" False m]
    unfolding SourceFlashFrame run_callback.simps sourceFlash_def by auto
next
  case TargetTimeout
  have tf: "pulses (targetFlash now soma start c i m) = pulses m
      \<and> (\<exists>new. pending (targetFlash now soma start c i m) = pending m @ new
          \<and> list_all (\<lambda>t. bystander (task_run t)) new)" for soma start c i
    using flash_body_pulses [of now soma start c i 100 16776960 "0.5"
        "TargetFlashFrame soma start c i" True m]
    unfolding targetFlash_def by auto
  show ?thesis
    unfolding TargetTimeout run_callback.simps target_timeout_def
    using tf by (simp split: option.splits)
next
  case (TargetFlashFrame soma start c i)
  show ?thesis
    using flash_body_pulses [of now soma start c i 100 16776960 "0.5"
        "TargetFlashFrame soma start c i" True m]
    unfolding TargetFlashFrame run_callback.simps targetFlash_def by auto
qed (use assms in simp_all)

lemma run_due_append:
  "run_due mkCurve trg now (xs @ ys) m = run_due mkCurve trg now ys (run_due mkCurve trg now xs m)"
  by (induction xs arbitrary: m) simp_all

lemma run_turns_append:
  "run_turns mkCurve trg (xs @ ys) m = run_turns mkCurve trg ys (run_turns mkCurve trg xs m)"
  by (induction xs arbitrary: m) simp_all

lemma run_due_bystanders:
  "list_all (\<lambda>t. bystander (task_run t)) ds \<Longrightarrow>
   pulses (run_due mkCurve trg now ds m) = pulses m
   \<and> (\<exists>new. pending (run_due mkCurve trg now ds m) = pending m @ new
          \<and> list_all (\<lambda>t. bystander (task_run t)) new)"
proof (induction ds arbitrary: m)
  case Nil
  show ?case by simp
next
  case (Cons t ds)
  let ?m1 = "run_callback mkCurve trg now (task_run t) m"
  from Cons.prems have b: "bystander (task_run t)"
    and rest: "list_all (\<lambda>t. bystander (task_run t)) ds" by simp_all
  from bystander_callback [OF b, of mkCurve trg now m]
  obtain new1 where one: "pulses ?m1 = pulses m" "pending ?m1 = pending m @ new1"
    "list_all (\<lambda>t. bystander (task_run t)) new1" by blast
  from Cons.IH [OF rest, of ?m1]
  obtain new2 where more: "pulses (run_due mkCurve trg now ds ?m1) = pulses ?m1"
    "pending (run_due mkCurve trg now ds ?m1) = pending ?m1 @ new2"
    "list_all (\<lambda>t. bystander (task_run t)) new2" by blast
  have "pending (run_due mkCurve trg now (t # ds) m) = pending m @ (new1 @ new2)
      \<and> list_all (\<lambda>t. bystander (task_run t)) (new1 @ new2)"
    using one more by simp
  then have "\<exists>new. pending (run_due mkCurve trg now (t # ds) m) = pending m @ new
      \<and> list_all (\<lambda>t. bystander (task_run t)) new" by (rule exI)
  moreover have "pulses (run_due mkCurve trg now (t # ds) m) = pulses m"
    using one more by simp
  ultimately show ?case by blast
qed

text \<open>A turn in which only bystanders wait leaves the pulses alone.\<close>

lemma turn_bystanders:
  assumes "list_all (\<lambda>t. bystander (task_run t)) (pending m)"
  shows "pulses (turn mkCurve trg now m) = pulses m
       \<and> list_all (\<lambda>t. bystander (task_run t)) (pending (turn mkCurve trg now m))"
proof -
  let ?due = "filter (\<lambda>t. task_due t \<le> now) (pending m)"
  let ?rest = "filter (\<lambda>t. \<not> task_due t \<le> now) (pending m)"
  let ?m' = "m\<lparr>pending := ?rest\<rparr>"
  have d: "list_all (\<lambda>t. bystander (task_run t)) ?due"
    and r: "list_all (\<lambda>t. bystander (task_run t)) ?rest"
    using assms by (simp_all add: list_all_iff)
  from run_due_bystanders [OF d, of mkCurve trg now ?m']
  obtain new where "pulses (run_due mkCurve trg now ?due ?m') = pulses m"
    "pending (run_due mkCurve trg now ?due ?m') = ?rest @ new"
    "list_all (\<lambda>t. bystander (task_run t)) new" by auto
  then show ?thesis using r by (simp add: turn_def)
qed

text \<open>
  A turn in which one other callback \<open>s\<close> waits among bystanders: if \<open>s\<close> is not due it
  keeps waiting among bystanders and the pulses are left alone; if it is due, it runs
  on a machine with the same pulses in which only bystanders wait, and only bystanders
  are added after it.
\<close>

lemma turn_one_waiting:
  assumes p: "pending m = A @ [s] @ B"
    and a: "list_all (\<lambda>t. bystander (task_run t)) A"
    and b: "list_all (\<lambda>t. bystander (task_run t)) B"
    and late: "\<not> task_due s \<le> now"
  shows "pulses (turn mkCurve trg now m) = pulses m
       \<and> (\<exists>A' B'. pending (turn mkCurve trg now m) = A' @ [s] @ B'
            \<and> list_all (\<lambda>t. bystander (task_run t)) A'
            \<and> list_all (\<lambda>t. bystander (task_run t)) B')"
proof -
  let ?D = "\<lambda>t. task_due t \<le> now"
  let ?due = "filter ?D (pending m)"
  let ?rest = "filter (\<lambda>t. \<not> ?D t) (pending m)"
  let ?m' = "m\<lparr>pending := ?rest\<rparr>"
  have d: "list_all (\<lambda>t. bystander (task_run t)) ?due"
    using p a b late by (auto simp add: list_all_iff)
  have r: "?rest = filter (\<lambda>t. \<not> ?D t) A @ [s] @ filter (\<lambda>t. \<not> ?D t) B"
    using p late by simp
  from run_due_bystanders [OF d, of mkCurve trg now ?m']
  obtain new where n: "pulses (run_due mkCurve trg now ?due ?m') = pulses m"
    "pending (run_due mkCurve trg now ?due ?m') = ?rest @ new"
    "list_all (\<lambda>t. bystander (task_run t)) new" by auto
  have "pending (turn mkCurve trg now m)
        = filter (\<lambda>t. \<not> ?D t) A @ [s] @ (filter (\<lambda>t. \<not> ?D t) B @ new)
      \<and> list_all (\<lambda>t. bystander (task_run t)) (filter (\<lambda>t. \<not> ?D t) A)
      \<and> list_all (\<lambda>t. bystander (task_run t)) (filter (\<lambda>t. \<not> ?D t) B @ new)"
    using n r a b by (auto simp add: turn_def list_all_iff)
  then have "\<exists>A' B'. pending (turn mkCurve trg now m) = A' @ [s] @ B'
            \<and> list_all (\<lambda>t. bystander (task_run t)) A'
            \<and> list_all (\<lambda>t. bystander (task_run t)) B'"
    by blast
  then show ?thesis using n by (simp add: turn_def)
qed

lemma turn_one_due:
  assumes p: "pending m = A @ [s] @ B"
    and a: "list_all (\<lambda>t. bystander (task_run t)) A"
    and b: "list_all (\<lambda>t. bystander (task_run t)) B"
    and due: "task_due s \<le> now"
  shows "\<exists>m1 ds. pulses m1 = pulses m
           \<and> list_all (\<lambda>t. bystander (task_run t)) (pending m1)
           \<and> list_all (\<lambda>t. bystander (task_run t)) ds
           \<and> turn mkCurve trg now m
               = run_due mkCurve trg now ds (run_callback mkCurve trg now (task_run s) m1)"
proof -
  let ?D = "\<lambda>t. task_due t \<le> now"
  let ?rest = "filter (\<lambda>t. \<not> ?D t) (pending m)"
  let ?m' = "m\<lparr>pending := ?rest\<rparr>"
  let ?m1 = "run_due mkCurve trg now (filter ?D A) ?m'"
  have split: "filter ?D (pending m) = filter ?D A @ (s # filter ?D B)"
    using p due by simp
  have fa: "list_all (\<lambda>t. bystander (task_run t)) (filter ?D A)"
    and fb: "list_all (\<lambda>t. bystander (task_run t)) (filter ?D B)"
    and r: "list_all (\<lambda>t. bystander (task_run t)) ?rest"
    using p a b due by (auto simp add: list_all_iff)
  from run_due_bystanders [OF fa, of mkCurve trg now ?m']
  obtain new where n: "pulses ?m1 = pulses m" "pending ?m1 = ?rest @ new"
    "list_all (\<lambda>t. bystander (task_run t)) new" by auto
  have t: "turn mkCurve trg now m
      = run_due mkCurve trg now (filter ?D B) (run_callback mkCurve trg now (task_run s) ?m1)"
    unfolding turn_def split run_due_append by simp
  have "pulses ?m1 = pulses m
           \<and> list_all (\<lambda>t. bystander (task_run t)) (pending ?m1)
           \<and> list_all (\<lambda>t. bystander (task_run t)) (filter ?D B)
           \<and> turn mkCurve trg now m
               = run_due mkCurve trg now (filter ?D B)
                   (run_callback mkCurve trg now (task_run s) ?m1)"
    using n r fb t by simp
  then show ?thesis by blast
qed

lemma createSignalPulse_starts:
  "createSignalPulse (Some crv) True 300 0 = Some (pulse_in_transit crv 0)"
  by (simp add: createSignalPulse_def animate_def pulse_in_transit_def Let_def)

text \<open>
  One run of \<open>animate\<close>, for any positive duration: below the duration the pulse is moved,
  scaled and faded and the next frame is requested; from the duration on the pulse is
  taken out of its parent and disposed, and no frame is requested.
\<close>

lemma animate_frame:
  assumes "0 < duration"
  shows "(t < duration \<longrightarrow>
            animate crv duration t p
              = p\<lparr>pulse_position := crv (t / duration),
                  pulse_scale := Vec3 (sin (t / duration * pi * 2) * 0.2 + 0.8)
                                      (sin (t / duration * pi * 2) * 0.2 + 0.8)
                                      (sin (t / duration * pi * 2) * 0.2 + 0.8),
                  pulse_opacity := sin (t / duration * pi * 2) * 0.2 + 0.8,
                  frame_requested := True\<rparr>)
       \<and> (duration \<le> t \<longrightarrow>
            animate crv duration t p
              = p\<lparr>in_parent := False, geometry_disposed := True, material_disposed := True,
                  frame_requested := False\<rparr>)"
  using assms by (simp add: animate_def Let_def)

lemma animate_in_transit:
  assumes "0 \<le> e" and "e < 300"
  shows "animate crv 300 (real_of_int e) (pulse_in_transit crv pr)
           = pulse_in_transit crv (real_of_int e / 300)"
  using assms animate_frame [of 300 "real_of_int e" crv "pulse_in_transit crv pr"]
  by (simp add: pulse_in_transit_def)

lemma animate_done:
  assumes "300 \<le> e"
  shows "animate crv 300 (real_of_int e) p
           = p\<lparr>in_parent := False, geometry_disposed := True, material_disposed := True,
               frame_requested := False\<rparr>"
  using assms animate_frame [of 300 "real_of_int e" crv p] by simp

lemma transit_timeout_fires:
  assumes syn: "synapse_of trg = Some syn" and geo: "geometry_positions syn = Some (Some points)"
    and pts: "points \<noteq> []" and tgt: "targetNeuron trg = Some tgt"
    and none: "pulses m = []"
  shows "pulses (transit_timeout mkCurve trg T m) = [pulse_in_transit (mkCurve points) 0]
       \<and> pending (transit_timeout mkCurve trg T m)
           = pending m @ [\<lparr>task_due = T, task_run = PulseFrame 0 (mkCurve points) T\<rparr>,
                          \<lparr>task_due = T + 300, task_run = TargetTimeout\<rparr>]"
  using assms
  by (simp add: transit_timeout_def createSignalPulse_starts pulse_in_transit_def
      request_frame_def set_timeout_def Let_def)

lemma before_transit_waits:
  assumes "before_transit d m" and "now < d"
  shows "before_transit d (turn mkCurve trg now m)"
proof -
  from assms(1) obtain A B where p: "pulses m = []"
    and q: "pending m = A @ [\<lparr>task_due = d, task_run = TransitTimeout\<rparr>] @ B"
    and a: "list_all (\<lambda>t. bystander (task_run t)) A"
    and b: "list_all (\<lambda>t. bystander (task_run t)) B"
    unfolding before_transit_def by blast
  have late: "\<not> task_due \<lparr>task_due = d, task_run = TransitTimeout\<rparr> \<le> now"
    using assms(2) by simp
  from turn_one_waiting [OF q a b late, of mkCurve trg] p
  show ?thesis unfolding before_transit_def by simp
qed

lemma before_transit_fires:
  assumes syn: "synapse_of trg = Some syn" and geo: "geometry_positions syn = Some (Some points)"
    and pts: "points \<noteq> []" and tgt: "targetNeuron trg = Some tgt"
    and bt: "before_transit d m" and due: "d \<le> T"
  shows "in_transit (mkCurve points) T 0 (turn mkCurve trg T m)"
proof -
  from bt obtain A B where p: "pulses m = []"
    and q: "pending m = A @ [\<lparr>task_due = d, task_run = TransitTimeout\<rparr>] @ B"
    and a: "list_all (\<lambda>t. bystander (task_run t)) A"
    and b: "list_all (\<lambda>t. bystander (task_run t)) B"
    unfolding before_transit_def by blast
  have d: "task_due \<lparr>task_due = d, task_run = TransitTimeout\<rparr> \<le> T"
    using due by simp
  from turn_one_due [OF q a b d, of mkCurve trg]
  obtain m1 ds where m1: "pulses m1 = pulses m"
    "list_all (\<lambda>t. bystander (task_run t)) (pending m1)"
    and ds: "list_all (\<lambda>t. bystander (task_run t)) ds"
    and t: "turn mkCurve trg T m = run_due mkCurve trg T ds (transit_timeout mkCurve trg T m1)"
    by auto
  let ?m2 = "transit_timeout mkCurve trg T m1"
  from m1 p have none: "pulses m1 = []" by simp
  note f = transit_timeout_fires [OF syn geo pts tgt none, of mkCurve T]
  from run_due_bystanders [OF ds, of mkCurve trg T ?m2]
  obtain new where n: "pulses (run_due mkCurve trg T ds ?m2) = pulses ?m2"
    "pending (run_due mkCurve trg T ds ?m2) = pending ?m2 @ new"
    "list_all (\<lambda>t. bystander (task_run t)) new" by blast
  have pend: "pending (turn mkCurve trg T m)
        = pending m1 @ [\<lparr>task_due = T, task_run = PulseFrame 0 (mkCurve points) T\<rparr>]
            @ (\<lparr>task_due = T + 300, task_run = TargetTimeout\<rparr> # new)
      \<and> T \<le> T + 0
      \<and> list_all (\<lambda>t. bystander (task_run t)) (pending m1)
      \<and> list_all (\<lambda>t. bystander (task_run t)) (\<lparr>task_due = T + 300, task_run = TargetTimeout\<rparr> # new)"
    using t n f m1 by simp
  have pul: "pulses (turn mkCurve trg T m) = [pulse_in_transit (mkCurve points) (real_of_int 0 / 300)]"
    using t n f by simp
  from pend have "\<exists>A B due. pending (turn mkCurve trg T m)
        = A @ [\<lparr>task_due = due, task_run = PulseFrame 0 (mkCurve points) T\<rparr>] @ B
      \<and> due \<le> T + 0
      \<and> list_all (\<lambda>t. bystander (task_run t)) A
      \<and> list_all (\<lambda>t. bystander (task_run t)) B"
    by blast
  then show ?thesis
    unfolding in_transit_def using pul by simp
qed

lemma in_transit_frame:
  assumes it: "in_transit crv T e m" and nxt: "T + e \<le> now"
  shows "(now - T < 300 \<longrightarrow> in_transit crv T (now - T) (turn mkCurve trg now m))
       \<and> (300 \<le> now - T \<longrightarrow> after_transit (turn mkCurve trg now m))"
proof -
  from it obtain A B due where e: "0 \<le> e" "e < 300"
    and p: "pulses m = [pulse_in_transit crv (real_of_int e / 300)]"
    and q: "pending m = A @ [\<lparr>task_due = due, task_run = PulseFrame 0 crv T\<rparr>] @ B"
    and du: "due \<le> T + e"
    and a: "list_all (\<lambda>t. bystander (task_run t)) A"
    and b: "list_all (\<lambda>t. bystander (task_run t)) B"
    unfolding in_transit_def by blast
  have d: "task_due \<lparr>task_due = due, task_run = PulseFrame 0 crv T\<rparr> \<le> now"
    using du nxt by simp
  from turn_one_due [OF q a b d, of mkCurve trg]
  obtain m1 ds where m1: "pulses m1 = pulses m"
    "list_all (\<lambda>t. bystander (task_run t)) (pending m1)"
    and ds: "list_all (\<lambda>t. bystander (task_run t)) ds"
    and t: "turn mkCurve trg now m = run_due mkCurve trg now ds (pulse_frame now 0 crv T m1)"
    by auto
  let ?m2 = "pulse_frame now 0 crv T m1"
  from run_due_bystanders [OF ds, of mkCurve trg now ?m2]
  obtain new where n: "pulses (run_due mkCurve trg now ds ?m2) = pulses ?m2"
    "pending (run_due mkCurve trg now ds ?m2) = pending ?m2 @ new"
    "list_all (\<lambda>t. bystander (task_run t)) new" by blast
  have one: "pulses m1 = [pulse_in_transit crv (real_of_int e / 300)]"
    using m1 p by simp
  have el: "0 \<le> now - T" using e nxt by simp
  show ?thesis
  proof (intro conjI impI)
    assume short: "now - T < 300"
    have an: "animate crv 300 (real_of_int (now - T)) (pulse_in_transit crv (real_of_int e / 300))
        = pulse_in_transit crv (real_of_int (now - T) / 300)"
      using el short by (rule animate_in_transit)
    have fr: "frame_requested (pulse_in_transit crv (real_of_int (now - T) / 300))"
      by (simp add: pulse_in_transit_def)
    have m2: "pulses ?m2 = [pulse_in_transit crv (real_of_int (now - T) / 300)]"
      "pending ?m2 = pending m1 @ [\<lparr>task_due = now, task_run = PulseFrame 0 crv T\<rparr>]"
      using one an fr by (simp_all add: pulse_frame_def request_frame_def Let_def)
    have pend: "pending (turn mkCurve trg now m)
          = pending m1 @ [\<lparr>task_due = now, task_run = PulseFrame 0 crv T\<rparr>] @ new
        \<and> now \<le> T + (now - T)
        \<and> list_all (\<lambda>t. bystander (task_run t)) (pending m1)
        \<and> list_all (\<lambda>t. bystander (task_run t)) new"
      using t n m2 m1 by simp
    have pul: "pulses (turn mkCurve trg now m) = [pulse_in_transit crv (real_of_int (now - T) / 300)]"
      using t n m2 by simp
    from pend have "\<exists>A B due. pending (turn mkCurve trg now m)
          = A @ [\<lparr>task_due = due, task_run = PulseFrame 0 crv T\<rparr>] @ B
        \<and> due \<le> T + (now - T)
        \<and> list_all (\<lambda>t. bystander (task_run t)) A
        \<and> list_all (\<lambda>t. bystander (task_run t)) B"
      by blast
    then show "in_transit crv T (now - T) (turn mkCurve trg now m)"
      unfolding in_transit_def using el short pul by simp
  next
    assume long: "300 \<le> now - T"
    let ?p = "(pulse_in_transit crv (real_of_int e / 300))
        \<lparr>in_parent := False, geometry_disposed := True, material_disposed := True,
         frame_requested := False\<rparr>"
    have an: "animate crv 300 (real_of_int (now - T)) (pulse_in_transit crv (real_of_int e / 300)) = ?p"
      using long by (rule animate_done)
    have m2: "pulses ?m2 = [?p]" "pending ?m2 = pending m1"
      using one an by (simp_all add: pulse_frame_def request_frame_def Let_def)
    have pul: "pulses (turn mkCurve trg now m) = [?p] \<and> \<not> in_parent ?p \<and> geometry_disposed ?p
        \<and> material_disposed ?p \<and> \<not> frame_requested ?p"
      using t n m2 by simp
    have pend: "list_all (\<lambda>t. bystander (task_run t)) (pending (turn mkCurve trg now m))"
      using t n m2 m1 by simp
    show "after_transit (turn mkCurve trg now m)"
      unfolding after_transit_def using pul pend by blast
  qed
qed

lemma after_transit_stays:
  assumes "after_transit m"
  shows "after_transit (turn mkCurve trg now m)"
  using assms turn_bystanders [of m mkCurve trg now]
  unfolding after_transit_def by simp

lemma after_transit_turns:
  "after_transit m \<Longrightarrow> after_transit (run_turns mkCurve trg nows m)"
  by (induction nows arbitrary: m) (simp_all add: after_transit_stays)

lemma before_transit_turns:
  "before_transit d m \<Longrightarrow> \<forall>t \<in> set nows. t < d \<Longrightarrow>
   before_transit d (run_turns mkCurve trg nows m)"
  by (induction nows arbitrary: m) (simp_all add: before_transit_waits)

lemma in_transit_turns:
  "in_transit crv T e m \<Longrightarrow> sorted ((T + e) # frames) \<Longrightarrow>
   (last ((T + e) # frames) - T < 300
      \<longrightarrow> in_transit crv T (last ((T + e) # frames) - T) (run_turns mkCurve trg frames m))
   \<and> (300 \<le> last ((T + e) # frames) - T \<longrightarrow> after_transit (run_turns mkCurve trg frames m))"
proof (induction frames arbitrary: e m)
  case Nil
  then show ?case by (simp add: in_transit_def)
next
  case (Cons now frames)
  from Cons.prems(2) have nxt: "T + e \<le> now" and rest: "sorted (now # frames)"
    by simp_all
  note f = in_transit_frame [OF Cons.prems(1) nxt, of mkCurve trg]
  have l: "last ((T + e) # now # frames) = last (now # frames)" by simp
  show ?case
  proof (cases "now - T < 300")
    case True
    with f have it: "in_transit crv T (now - T) (turn mkCurve trg now m)" by simp
    have s: "sorted ((T + (now - T)) # frames)" using rest by simp
    from Cons.IH [OF it s] show ?thesis
      unfolding l run_turns.simps by simp
  next
    case False
    with f have af: "after_transit (turn mkCurve trg now m)" by simp
    have "last (now # frames) \<in> set (now # frames)"
      by (rule last_in_set) simp
    then have "now \<le> last (now # frames)"
      using rest by auto
    with False have "300 \<le> last (now # frames) - T" by simp
    then show ?thesis
      unfolding l run_turns.simps using after_transit_turns [OF af, of mkCurve trg frames]
      by simp
  qed
qed

lemma animateNeuralSignalPropagation_arms:
  assumes "sourceNeuron trg = Some src" and "userData_soma src = Some somaOpt"
    and "scene_arg trg \<noteq> None \<or> window_scene trg \<noteq> None"
  shows "\<exists>m0. animateNeuralSignalPropagation trg now store = Some m0
          \<and> before_transit (now + 75) m0"
proof -
  let ?m0 = "\<lparr>somas = store, pulses = [], signals = [], completed = False,
                          pending = [], thrown = False\<rparr>"
  let ?m1 = "case somaOpt of None \<Rightarrow> ?m0
     | Some soma \<Rightarrow> sourceFlash now soma now (soma_emissive (store soma))
                     (soma_emissiveIntensity (store soma)) ?m0"
  have st: "animateNeuralSignalPropagation trg now store = Some (set_timeout now 75 TransitTimeout ?m1)"
    using assms
    by (auto simp add: animateNeuralSignalPropagation_def Let_def split: option.splits)
  have m1: "pulses ?m1 = [] \<and> list_all (\<lambda>t. bystander (task_run t)) (pending ?m1)"
  proof (cases somaOpt)
    case None
    then show ?thesis by simp
  next
    case (Some soma)
    show ?thesis
      using flash_body_pulses [of now soma now "soma_emissive (store soma)"
          "soma_emissiveIntensity (store soma)" 75 35071 "0.8"
          "SourceFlashFrame soma now (soma_emissive (store soma)) (soma_emissiveIntensity (store soma))"
          False ?m0]
      unfolding Some sourceFlash_def by auto
  qed
  have "pulses (set_timeout now 75 TransitTimeout ?m1) = []
      \<and> pending (set_timeout now 75 TransitTimeout ?m1)
           = pending ?m1 @ [\<lparr>task_due = now + 75, task_run = TransitTimeout\<rparr>] @ []
      \<and> list_all (\<lambda>t. bystander (task_run t)) (pending ?m1)
      \<and> list_all (\<lambda>t. bystander (task_run t)) []"
    using m1 by (simp add: set_timeout_def)
  then have "before_transit (now + 75) (set_timeout now 75 TransitTimeout ?m1)"
    unfolding before_transit_def by blast
  with st show ?thesis by blast
qed

lemma bystander_no_pulse_frame:
  "bystander job \<Longrightarrow> job \<noteq> PulseFrame i crv start \<and> job \<noteq> TransitTimeout"
  by (cases job) simp_all

text \<open>
  Claim C2 (amended). In an animation triggered with a source, a scene, a target and a
  synapse that has points, the turn that runs the first timeout (the first turn at or after
  75 ms, at clock reading T) creates the one signal pulse, the pulse that
  \<open>createSignalPulse\<close> returns for the synapse's curve and a duration of 300 ms. From
  then on, at every turn of the event loop, with t the time elapsed since T: while
  t < 300 the pulse is at the point of the curve at progress t / 300, its uniform scale
  and its opacity are 0.8 + 0.2 * sin(progress * 2 * pi), a full sine period over the
  transit, it is in its parent and not disposed, and its next frame is requested and
  waits in the event loop; once t >= 300 the pulse is out of its parent, its geometry
  and material are disposed, and no frame of it is requested or waits any more.
\<close>

theorem synapse_transit_pulse:
  assumes "sourceNeuron trg = Some src" and "userData_soma src = Some somaOpt"
    and "scene_arg trg \<noteq> None \<or> window_scene trg \<noteq> None"
    and "synapse_of trg = Some syn" and "geometry_positions syn = Some (Some points)"
    and "points \<noteq> []" and "targetNeuron trg = Some tgt"
  shows "\<exists>m0. animateNeuralSignalPropagation trg now0 store = Some m0
     \<and> (\<forall>early T frames.
          (\<forall>t \<in> set early. t < now0 + 75) \<and> now0 + 75 \<le> T \<and> sorted (T # frames) \<longrightarrow>
            pulses (run_turns mkCurve trg early m0) = []
          \<and> Some (hd (pulses (run_turns mkCurve trg (early @ [T]) m0)))
               = createSignalPulse (Some (mkCurve points)) True 300 0
          \<and> length (pulses (run_turns mkCurve trg (early @ T # frames) m0)) = 1
          \<and> (last (T # frames) - T < 300 \<longrightarrow>
                pulse_position (hd (pulses (run_turns mkCurve trg (early @ T # frames) m0)))
                  = mkCurve points (real_of_int (last (T # frames) - T) / 300)
              \<and> pulse_scale (hd (pulses (run_turns mkCurve trg (early @ T # frames) m0)))
                  = Vec3 (0.8 + 0.2 * sin (real_of_int (last (T # frames) - T) / 300 * pi * 2))
                         (0.8 + 0.2 * sin (real_of_int (last (T # frames) - T) / 300 * pi * 2))
                         (0.8 + 0.2 * sin (real_of_int (last (T # frames) - T) / 300 * pi * 2))
              \<and> pulse_opacity (hd (pulses (run_turns mkCurve trg (early @ T # frames) m0)))
                  = 0.8 + 0.2 * sin (real_of_int (last (T # frames) - T) / 300 * pi * 2)
              \<and> in_parent (hd (pulses (run_turns mkCurve trg (early @ T # frames) m0)))
              \<and> \<not> geometry_disposed (hd (pulses (run_turns mkCurve trg (early @ T # frames) m0)))
              \<and> \<not> material_disposed (hd (pulses (run_turns mkCurve trg (early @ T # frames) m0)))
              \<and> frame_requested (hd (pulses (run_turns mkCurve trg (early @ T # frames) m0)))
              \<and> (\<exists>t \<in> set (pending (run_turns mkCurve trg (early @ T # frames) m0)).
                    task_run t = PulseFrame 0 (mkCurve points) T))
          \<and> (300 \<le> last (T # frames) - T \<longrightarrow>
                \<not> in_parent (hd (pulses (run_turns mkCurve trg (early @ T # frames) m0)))
              \<and> geometry_disposed (hd (pulses (run_turns mkCurve trg (early @ T # frames) m0)))
              \<and> material_disposed (hd (pulses (run_turns mkCurve trg (early @ T # frames) m0)))
              \<and> \<not> frame_requested (hd (pulses (run_turns mkCurve trg (early @ T # frames) m0)))
              \<and> (\<forall>t \<in> set (pending (run_turns mkCurve trg (early @ T # frames) m0)).
                    \<forall>i crv start. task_run t \<noteq> PulseFrame i crv start)))"
proof -
  let ?crv = "mkCurve points"
  from animateNeuralSignalPropagation_arms [OF assms(1-3), of now0 store]
  obtain m0 where m0: "animateNeuralSignalPropagation trg now0 store = Some m0"
    and bt: "before_transit (now0 + 75) m0" by blast
  have main: "pulses (run_turns mkCurve trg early m0) = []
          \<and> Some (hd (pulses (run_turns mkCurve trg (early @ [T]) m0)))
               = createSignalPulse (Some ?crv) True 300 0
          \<and> (last (T # frames) - T < 300 \<longrightarrow>
                in_transit ?crv T (last (T # frames) - T)
                  (run_turns mkCurve trg (early @ T # frames) m0))
          \<and> (300 \<le> last (T # frames) - T \<longrightarrow>
                after_transit (run_turns mkCurve trg (early @ T # frames) m0))"
    if e: "\<forall>t \<in> set early. t < now0 + 75" and d: "now0 + 75 \<le> T" and s: "sorted (T # frames)"
    for early T frames
  proof -
    let ?m1 = "run_turns mkCurve trg early m0"
    let ?m2 = "turn mkCurve trg T ?m1"
    have b1: "before_transit (now0 + 75) ?m1"
      using bt e by (rule before_transit_turns)
    then have none: "pulses ?m1 = []" by (simp add: before_transit_def)
    have it: "in_transit ?crv T 0 ?m2"
      using assms(4-7) b1 d by (rule before_transit_fires)
    have r1: "run_turns mkCurve trg (early @ [T]) m0 = ?m2"
      by (simp add: run_turns_append)
    have r2: "run_turns mkCurve trg (early @ T # frames) m0 = run_turns mkCurve trg frames ?m2"
      by (simp add: run_turns_append)
    have made: "Some (hd (pulses ?m2)) = createSignalPulse (Some ?crv) True 300 0"
      using it by (simp add: in_transit_def createSignalPulse_starts)
    have s0: "sorted ((T + 0) # frames)" using s by simp
    from in_transit_turns [OF it s0, of mkCurve trg]
    show ?thesis unfolding r1 r2 using none made by simp
  qed
  have inst: "pulses (run_turns mkCurve trg early m0) = []
          \<and> Some (hd (pulses (run_turns mkCurve trg (early @ [T]) m0)))
               = createSignalPulse (Some (mkCurve points)) True 300 0
          \<and> length (pulses (run_turns mkCurve trg (early @ T # frames) m0)) = 1
          \<and> (last (T # frames) - T < 300 \<longrightarrow>
                pulse_position (hd (pulses (run_turns mkCurve trg (early @ T # frames) m0)))
                  = mkCurve points (real_of_int (last (T # frames) - T) / 300)
              \<and> pulse_scale (hd (pulses (run_turns mkCurve trg (early @ T # frames) m0)))
                  = Vec3 (0.8 + 0.2 * sin (real_of_int (last (T # frames) - T) / 300 * pi * 2))
                         (0.8 + 0.2 * sin (real_of_int (last (T # frames) - T) / 300 * pi * 2))
                         (0.8 + 0.2 * sin (real_of_int (last (T # frames) - T) / 300 * pi * 2))
              \<and> pulse_opacity (hd (pulses (run_turns mkCurve trg (early @ T # frames) m0)))
                  = 0.8 + 0.2 * sin (real_of_int (last (T # frames) - T) / 300 * pi * 2)
              \<and> in_parent (hd (pulses (run_turns mkCurve trg (early @ T # frames) m0)))
              \<and> \<not> geometry_disposed (hd (pulses (run_turns mkCurve trg (early @ T # frames) m0)))
              \<and> \<not> material_disposed (hd (pulses (run_turns mkCurve trg (early @ T # frames) m0)))
              \<and> frame_requested (hd (pulses (run_turns mkCurve trg (early @ T # frames) m0)))
              \<and> (\<exists>t \<in> set (pending (run_turns mkCurve trg (early @ T # frames) m0)).
                    task_run t = PulseFrame 0 (mkCurve points) T))
          \<and> (300 \<le> last (T # frames) - T \<longrightarrow>
                \<not> in_parent (hd (pulses (run_turns mkCurve trg (early @ T # frames) m0)))
              \<and> geometry_disposed (hd (pulses (run_turns mkCurve trg (early @ T # frames) m0)))
              \<and> material_disposed (hd (pulses (run_turns mkCurve trg (early @ T # frames) m0)))
              \<and> \<not> frame_requested (hd (pulses (run_turns mkCurve trg (early @ T # frames) m0)))
              \<and> (\<forall>t \<in> set (pending (run_turns mkCurve trg (early @ T # frames) m0)).
                    \<forall>i crv start. task_run t \<noteq> PulseFrame i crv start))"
    if e: "\<forall>t \<in> set early. t < now0 + 75" and d: "now0 + 75 \<le> T" and s: "sorted (T # frames)"
    for early T frames
  proof -
    define M where "M = run_turns mkCurve trg (early @ T # frames) m0"
    define el where "el = last (T # frames) - T"
    define pr where "pr = real_of_int el / 300"
    note mn = main [OF e d s, folded M_def el_def]
    from mn have none: "pulses (run_turns mkCurve trg early m0) = []"
      and made: "Some (hd (pulses (run_turns mkCurve trg (early @ [T]) m0)))
               = createSignalPulse (Some (mkCurve points)) True 300 0"
      by blast+
    have body: "length (pulses M) = 1
          \<and> (el < 300 \<longrightarrow>
                pulse_position (hd (pulses M)) = mkCurve points pr
              \<and> pulse_scale (hd (pulses M))
                  = Vec3 (0.8 + 0.2 * sin (pr * pi * 2)) (0.8 + 0.2 * sin (pr * pi * 2))
                         (0.8 + 0.2 * sin (pr * pi * 2))
              \<and> pulse_opacity (hd (pulses M)) = 0.8 + 0.2 * sin (pr * pi * 2)
              \<and> in_parent (hd (pulses M))
              \<and> \<not> geometry_disposed (hd (pulses M))
              \<and> \<not> material_disposed (hd (pulses M))
              \<and> frame_requested (hd (pulses M))
              \<and> (\<exists>t \<in> set (pending M). task_run t = PulseFrame 0 (mkCurve points) T))
          \<and> (300 \<le> el \<longrightarrow>
                \<not> in_parent (hd (pulses M))
              \<and> geometry_disposed (hd (pulses M))
              \<and> material_disposed (hd (pulses M))
              \<and> \<not> frame_requested (hd (pulses M))
              \<and> (\<forall>t \<in> set (pending M). \<forall>i crv start. task_run t \<noteq> PulseFrame i crv start))"
    proof (cases "el < 300")
      case True
      with mn have it: "in_transit (mkCurve points) T el M" by blast
      then have p: "pulses M = [pulse_in_transit (mkCurve points) pr]"
        and w: "\<exists>t \<in> set (pending M). task_run t = PulseFrame 0 (mkCurve points) T"
        unfolding in_transit_def pr_def by auto
      show ?thesis
        using True w unfolding p by (simp add: pulse_in_transit_def)
    next
      case False
      with mn have "after_transit M" by simp
      then obtain p where p: "pulses M = [p]" "\<not> in_parent p" "geometry_disposed p"
          "material_disposed p" "\<not> frame_requested p"
        and w: "list_all (\<lambda>t. bystander (task_run t)) (pending M)"
        unfolding after_transit_def by blast
      from w have "\<forall>t \<in> set (pending M). \<forall>i crv start. task_run t \<noteq> PulseFrame i crv start"
        using bystander_no_pulse_frame unfolding list_all_iff by blast
      then show ?thesis using False p by simp
    qed
    show ?thesis
      using none made body unfolding M_def el_def pr_def by blast
  qed
  show ?thesis
    using m0 inst by blast
qed

theorem synapse_transit_pulse_witness:
  "sourceNeuron paired_trigger = Some \<lparr>userData_soma = Some (Some 0)\<rparr>
   \<and> scene_arg paired_trigger = Some 0
   \<and> targetNeuron paired_trigger = Some \<lparr>userData_soma = Some (Some 1)\<rparr>
   \<and> synapse_of paired_trigger = Some \<lparr>geometry_positions = Some (Some [Vec3 0 0 0, Vec3 1 0 0])\<rparr>
   \<and> (\<exists>m0. animateNeuralSignalPropagation paired_trigger 1000 example_somas = Some m0
        \<and> pulses (run_turns straight_curve paired_trigger [1016, 1033] m0) = []
        \<and> pulse_position (hd (pulses
              (run_turns straight_curve paired_trigger [1016, 1033, 1080, 1230] m0))) = Vec3 (1 / 2) 0 0
        \<and> pulse_opacity (hd (pulses
              (run_turns straight_curve paired_trigger [1016, 1033, 1080, 1230] m0))) = 0.8
        \<and> in_parent (hd (pulses
              (run_turns straight_curve paired_trigger [1016, 1033, 1080, 1230] m0)))
        \<and> frame_requested (hd (pulses
              (run_turns straight_curve paired_trigger [1016, 1033, 1080, 1230] m0)))
        \<and> \<not> in_parent (hd (pulses
              (run_turns straight_curve paired_trigger [1016, 1033, 1080, 1230, 1400] m0)))
        \<and> geometry_disposed (hd (pulses
              (run_turns straight_curve paired_trigger [1016, 1033, 1080, 1230, 1400] m0)))
        \<and> material_disposed (hd (pulses
              (run_turns straight_curve paired_trigger [1016, 1033, 1080, 1230, 1400] m0))))"
proof -
  have s: "sourceNeuron paired_trigger = Some \<lparr>userData_soma = Some (Some 0)\<rparr>"
    and u: "userData_soma \<lparr>userData_soma = Some (Some 0)\<rparr> = Some (Some 0)"
    and sc: "scene_arg paired_trigger \<noteq> None \<or> window_scene paired_trigger \<noteq> None"
    and sy: "synapse_of paired_trigger = Some \<lparr>geometry_positions = Some (Some [Vec3 0 0 0, Vec3 1 0 0])\<rparr>"
    and g: "geometry_positions \<lparr>geometry_positions = Some (Some [Vec3 0 0 0, Vec3 1 0 0])\<rparr>
              = Some (Some [Vec3 0 0 0, Vec3 1 0 0])"
    and ne: "[Vec3 0 0 0, Vec3 1 0 0] \<noteq> []"
    and tg: "targetNeuron paired_trigger = Some \<lparr>userData_soma = Some (Some 1)\<rparr>"
    by (simp_all add: paired_trigger_def)
  from synapse_transit_pulse [OF s u sc sy g ne tg, of 1000 example_somas straight_curve]
  obtain m0 where m0: "animateNeuralSignalPropagation paired_trigger 1000 example_somas = Some m0"
    and runs: "\<And>early T frames.
          (\<forall>t \<in> set early. t < 1000 + 75) \<and> 1000 + 75 \<le> T \<and> sorted (T # frames) \<Longrightarrow>
            pulses (run_turns straight_curve paired_trigger early m0) = []
          \<and> (last (T # frames) - T < 300 \<longrightarrow>
                pulse_position (hd (pulses (run_turns straight_curve paired_trigger (early @ T # frames) m0)))
                  = straight_curve [Vec3 0 0 0, Vec3 1 0 0] (real_of_int (last (T # frames) - T) / 300)
              \<and> pulse_opacity (hd (pulses (run_turns straight_curve paired_trigger (early @ T # frames) m0)))
                  = 0.8 + 0.2 * sin (real_of_int (last (T # frames) - T) / 300 * pi * 2)
              \<and> in_parent (hd (pulses (run_turns straight_curve paired_trigger (early @ T # frames) m0)))
              \<and> frame_requested (hd (pulses (run_turns straight_curve paired_trigger (early @ T # frames) m0))))
          \<and> (300 \<le> last (T # frames) - T \<longrightarrow>
                \<not> in_parent (hd (pulses (run_turns straight_curve paired_trigger (early @ T # frames) m0)))
              \<and> geometry_disposed (hd (pulses (run_turns straight_curve paired_trigger (early @ T # frames) m0)))
              \<and> material_disposed (hd (pulses (run_turns straight_curve paired_trigger (early @ T # frames) m0))))"
    by blast
  have half: "sin (real_of_int 150 / 300 * pi * 2) = 0" by simp
  show ?thesis
    using m0 runs [of "[1016, 1033]" 1080 "[1230]"] runs [of "[1016, 1033]" 1080 "[1230, 1400]"]
    by (simp add: paired_trigger_def straight_curve_def)
qed

text \<open>
  The claim as stated gives the envelope 0.8 + 0.2 * sin(progress * pi). Half way through a
  300 ms transit that would be 1, while the pulse's opacity and scale are 0.8 there.
\<close>

theorem animate_envelope_counterexample:
  "pulse_opacity (animate example_curve 300 150 example_pulse) = 0.8
   \<and> pulse_scale (animate example_curve 300 150 example_pulse) = Vec3 0.8 0.8 0.8
   \<and> 0.8 + 0.2 * sin (150 / 300 * pi) = (1::real)
   \<and> pulse_opacity (animate example_curve 300 150 example_pulse) \<noteq> 0.8 + 0.2 * sin (150 / 300 * pi)"
  by (simp add: animate_def Let_def example_curve_def example_pulse_def)

end
